theory Spec2Isabelle
  imports Complex_Main
begin

section \<open>AIDA-X: the DSP core of \<^verbatim>\<open>src/aidadsp-plugin.cpp\<close>\<close>

text \<open>
  The plugin filters one channel of audio per block: an input low-pass, a pre-gain ramp, an
  optional tone stack, an optional neural model, a DC blocker, the tone stack again and a
  master-gain ramp. A second entry point, \<^verbatim>\<open>setState\<close>, loads a model document and
  replaces the active model.

  Conventions of the embedding.
  \<^item> \<^verbatim>\<open>float\<close> and \<^verbatim>\<open>double\<close> values are real numbers: rounding, infinities and NaN are
    not modelled. The theorems below use no law of arithmetic beyond evaluating the
    expressions the source writes.
  \<^item> An audio buffer is a region of a memory \<open>nat \<Rightarrow> real\<close>; a \<^verbatim>\<open>float*\<close> is the address of
    its first sample, and \<^verbatim>\<open>p[i]\<close> is the cell \<open>p + i\<close>. So two buffers may be the same,
    disjoint or overlapping, as the pointers the host passes may be.
  \<^item> \<^verbatim>\<open>DynamicModel\<close> instances live in a heap \<open>nat \<Rightarrow> DynamicModel option\<close>; the plugin's
    \<^verbatim>\<open>model\<close> member is an address or null.
  \<^item> The classes \<^verbatim>\<open>Biquad\<close>, \<^verbatim>\<open>ExpSmoother\<close>, the generated \<^verbatim>\<open>model_variant.hpp\<close>, the RTNeural
    networks and the JSON library are not part of the file under study. Their operations
    are the fields of a record \<open>ext\<close> that every function takes as its first argument, so
    each theorem holds for every implementation of them.
\<close>

subsection \<open>Enumerations and constants\<close>

type_synonym memory = "nat \<Rightarrow> real"

text \<open>The filter types of \<^verbatim>\<open>Biquad\<close> that the plugin names.\<close>

datatype bq_type =
  bq_type_lowpass | bq_type_highpass | bq_type_bandpass | bq_type_peak
  | bq_type_lowshelf | bq_type_highshelf

datatype EqPos = kEqPost | kEqPre

datatype MidEqType = kMidEqPeak | kMidEqBandpass

text \<open>
  The indices of the parameter array. \<^verbatim>\<open>kParameterCount\<close> is the array's length, not an
  index: the host calls \<^verbatim>\<open>setParameterValue\<close> with \<^verbatim>\<open>index < kNumParameters\<close> only, and the
  type below has exactly those eighteen values.
\<close>

datatype Parameters =
  kParameterINLPF | kParameterPREGAIN | kParameterNETBYPASS | kParameterEQBYPASS
  | kParameterEQPOS | kParameterBASSGAIN | kParameterBASSFREQ | kParameterMIDGAIN
  | kParameterMIDFREQ | kParameterMIDQ | kParameterMTYPE | kParameterTREBLEGAIN
  | kParameterTREBLEFREQ | kParameterDEPTH | kParameterPRESENCE | kParameterMASTER
  | kParameterCABSIMBYPASS | kParameterGLOBALBYPASS

definition DB_CO :: "real \<Rightarrow> real" where
  "DB_CO g = (if g > - 90 then 10 powr (g * 0.05) else 0)"

definition PC_CO :: "real \<Rightarrow> real" where
  "PC_CO g = (if g < 100 then g / 100 else 1)"

definition COMMON_Q :: real where
  "COMMON_Q = 0.707"

definition DEPTH_FREQ :: real where
  "DEPTH_FREQ = 75"

definition PRESENCE_FREQ :: real where
  "PRESENCE_FREQ = 900"

subsection \<open>Results of calls that may throw\<close>

text \<open>
  The exceptions that reach the two \<^verbatim>\<open>catch (const std::exception&)\<close> handlers of
  \<^verbatim>\<open>setState\<close>: the JSON library's, the two \<^verbatim>\<open>std::invalid_argument\<close> and the
  \<^verbatim>\<open>std::runtime_error\<close> that \<^verbatim>\<open>setState\<close> throws itself (with their messages), and any other
  one of the model code.
\<close>

datatype exn =
  parse_error | type_error | invalid_iterator | out_of_range
  | invalid_argument string | runtime_error string | other_exception

text \<open>
  A library call returns a value, throws, or has undefined behaviour (\<^verbatim>\<open>back()\<close> on an
  empty array); the last is an outcome of its own, which no handler catches.
\<close>

datatype 'a res = Ok 'a | Throw exn | UB

fun res_bind :: "'a res \<Rightarrow> ('a \<Rightarrow> 'b res) \<Rightarrow> 'b res" where
  "res_bind (Ok x) f = f x"
| "res_bind (Throw e) f = Throw e"
| "res_bind UB f = UB"

subsection \<open>The neural model\<close>

text \<open>
  \<^verbatim>\<open>ModelVariantType\<close> is a \<^verbatim>\<open>std::variant\<close> over \<^verbatim>\<open>NullModel\<close> and the supported network
  types, each with a compile-time \<^verbatim>\<open>input_size\<close>. A network is a value of type \<open>'m\<close>
  (weights and recurrent state) tagged with its \<^verbatim>\<open>input_size\<close>.
\<close>

datatype 'm ModelVariantType = NullModel | CustomModel nat 'm

text \<open>
  Modelled from the spec: \<^verbatim>\<open>NullModel::input_size\<close>, declared in \<^verbatim>\<open>model_variant.hpp\<close>. The
  spec has multi-sample and unsupported variants as a no-op of \<^verbatim>\<open>applyModel\<close>; \<^verbatim>\<open>NullModel\<close>
  has no \<^verbatim>\<open>forward\<close>, so the branch \<^verbatim>\<open>input_size == 1\<close> cannot be instantiated for it and its
  \<^verbatim>\<open>input_size\<close> differs from one.
\<close>

fun input_size :: "'m ModelVariantType \<Rightarrow> nat" where
  "input_size NullModel = 0"
| "input_size (CustomModel k net) = k"

record 'm DynamicModel =
  variant :: "'m ModelVariantType"
  input_skip :: bool
  output_gain :: real

subsection \<open>The operations of the code outside this file\<close>

text \<open>
  \<open>'b\<close> is a \<^verbatim>\<open>Biquad\<close> (coefficients and delay registers), \<open>'s\<close> an \<^verbatim>\<open>ExpSmoother\<close>, \<open>'m\<close> a
  network, \<open>'j\<close> a \<^verbatim>\<open>nlohmann::json\<close> value. A method that mutates its object returns the
  object afterwards.
  \<^item> \<open>json_read path\<close> is \<^verbatim>\<open>std::ifstream s(path); s >> model_json\<close>.
  \<^item> \<open>json_index j key\<close> is the non-const \<^verbatim>\<open>j[key]\<close>: the member, and \<open>j\<close> afterwards
    (the library inserts a null member for an absent key).
  \<^item> \<open>custom_model_creator j v\<close> returns its \<^verbatim>\<open>bool\<close> and the variant it leaves in its
    reference argument.
  \<^item> \<open>forward net window\<close> is given the \<^verbatim>\<open>input_size\<close> samples its pointer argument points
    to, and returns the output sample.
\<close>

record ('b, 's, 'm, 'j) ext =
  Biquad_process :: "'b \<Rightarrow> real \<Rightarrow> real \<times> 'b"
  Biquad_setFc :: "real \<Rightarrow> 'b \<Rightarrow> 'b"
  Biquad_setQ :: "real \<Rightarrow> 'b \<Rightarrow> 'b"
  Biquad_setPeakGain :: "real \<Rightarrow> 'b \<Rightarrow> 'b"
  Biquad_setBiquad :: "bq_type \<Rightarrow> real \<Rightarrow> real \<Rightarrow> real \<Rightarrow> 'b \<Rightarrow> 'b"
  ExpSmoother_next :: "'s \<Rightarrow> real \<times> 's"
  ExpSmoother_setTarget :: "real \<Rightarrow> 's \<Rightarrow> 's"
  ExpSmoother_setSampleRate :: "real \<Rightarrow> 's \<Rightarrow> 's"
  forward :: "'m \<Rightarrow> real list \<Rightarrow> real \<times> 'm"
  reset :: "'m \<Rightarrow> 'm"
  parseJson :: "'j \<Rightarrow> 'm \<Rightarrow> 'm res"
  custom_model_creator :: "'j \<Rightarrow> 'm ModelVariantType \<Rightarrow> (bool \<times> 'm ModelVariantType) res"
  json_read :: "string \<Rightarrow> 'j res"
  json_index :: "'j \<Rightarrow> string \<Rightarrow> ('j \<times> 'j) res"
  json_back :: "'j \<Rightarrow> 'j res"
  json_is_number :: "'j \<Rightarrow> bool"
  json_get_int :: "'j \<Rightarrow> int res"
  json_get_float :: "'j \<Rightarrow> real res"

subsection \<open>The tone controls\<close>

record ('b, 's) AidaToneControl =
  dc_blocker :: 'b
  in_lpf :: 'b
  bass :: 'b
  mid :: 'b
  treble :: 'b
  depth :: 'b
  presence :: 'b
  pregain :: 's
  mastergain :: 's
  net_bypass :: bool
  eq_bypass :: bool
  eq_pos :: EqPos
  mid_type :: MidEqType

text \<open>\<^verbatim>\<open>AidaToneControl::setSampleRate\<close>: every filter and both smoothers are reconfigured.\<close>

definition setSampleRate ::
  "('b, 's, 'm, 'j) ext \<Rightarrow> (Parameters \<Rightarrow> real) \<Rightarrow> real \<Rightarrow> ('b, 's) AidaToneControl
    \<Rightarrow> ('b, 's) AidaToneControl" where
  "setSampleRate X parameters sampleRate a =
     a\<lparr>dc_blocker := Biquad_setFc X (35 / sampleRate) (dc_blocker a),
       in_lpf := Biquad_setFc X (PC_CO (parameters kParameterINLPF) * 0.5) (in_lpf a),
       bass := Biquad_setBiquad X bq_type_lowshelf
                 (parameters kParameterBASSFREQ / sampleRate) COMMON_Q
                 (parameters kParameterBASSGAIN) (bass a),
       mid := Biquad_setBiquad X
                 (if mid_type a = kMidEqBandpass then bq_type_bandpass else bq_type_peak)
                 (parameters kParameterMIDFREQ / sampleRate)
                 (parameters kParameterMIDQ)
                 (parameters kParameterMIDGAIN) (mid a),
       treble := Biquad_setBiquad X bq_type_highshelf
                 (parameters kParameterTREBLEFREQ / sampleRate) COMMON_Q
                 (parameters kParameterTREBLEGAIN) (treble a),
       depth := Biquad_setBiquad X bq_type_highshelf
                 (DEPTH_FREQ / sampleRate) COMMON_Q (parameters kParameterDEPTH) (depth a),
       presence := Biquad_setBiquad X bq_type_highshelf
                 (PRESENCE_FREQ / sampleRate) COMMON_Q (parameters kParameterPRESENCE)
                 (presence a),
       pregain := ExpSmoother_setTarget X (DB_CO (parameters kParameterPREGAIN))
                 (ExpSmoother_setSampleRate X sampleRate (pregain a)),
       mastergain := ExpSmoother_setTarget X (DB_CO (parameters kParameterMASTER))
                 (ExpSmoother_setSampleRate X sampleRate (mastergain a))\<rparr>"

subsection \<open>The per-sample loops\<close>

text \<open>
  Every loop of the file has the shape
  \<^verbatim>\<open>for (uint32_t i=0; i<numSamples; ++i) out[i] = body(in[i]);\<close>
  where the body also advances an object (a filter, a smoother, a network).
  \<open>for_each_sample body out inp numSamples i s mem\<close> runs it from index \<open>i\<close>, on the object
  \<open>s\<close> and the memory \<open>mem\<close>. The counter cannot wrap: it stays below \<^verbatim>\<open>numSamples\<close>.
\<close>

function for_each_sample ::
  "('s \<Rightarrow> real \<Rightarrow> real \<times> 's) \<Rightarrow> nat \<Rightarrow> nat \<Rightarrow> nat \<Rightarrow> nat \<Rightarrow> 's \<Rightarrow> memory \<Rightarrow> 's \<times> memory" where
  "for_each_sample body out inp numSamples i s mem =
     (if i < numSamples then
        (case body s (mem (inp + i)) of
           (y, s') \<Rightarrow> for_each_sample body out inp numSamples (Suc i) s' (mem(out + i := y)))
      else (s, mem))"
  by pat_completeness auto
termination
  by (relation "measure (\<lambda>(body, out, inp, numSamples, i, s, mem). numSamples - i)") auto

declare for_each_sample.simps [simp del]

text \<open>\<^verbatim>\<open>applyGainRamp\<close>: \<^verbatim>\<open>out[i] *= smoother.next()\<close>.\<close>

definition applyGainRamp ::
  "('b, 's, 'm, 'j) ext \<Rightarrow> 's \<Rightarrow> memory \<Rightarrow> nat \<Rightarrow> nat \<Rightarrow> 's \<times> memory" where
  "applyGainRamp X smoother mem out numSamples =
     for_each_sample (\<lambda>s x. case ExpSmoother_next X s of (g, s') \<Rightarrow> (x * g, s'))
       out out numSamples 0 smoother mem"

text \<open>\<^verbatim>\<open>applyBiquadFilter(filter, out, in, numSamples)\<close>: \<^verbatim>\<open>out[i] = filter.process(in[i])\<close>.\<close>

definition applyBiquadFilter ::
  "('b, 's, 'm, 'j) ext \<Rightarrow> 'b \<Rightarrow> memory \<Rightarrow> nat \<Rightarrow> nat \<Rightarrow> nat \<Rightarrow> 'b \<times> memory" where
  "applyBiquadFilter X bq mem out inp numSamples =
     for_each_sample (Biquad_process X) out inp numSamples 0 bq mem"

text \<open>The overload \<^verbatim>\<open>applyBiquadFilter(filter, out, numSamples)\<close>: \<^verbatim>\<open>out[i] = filter.process(out[i])\<close>.\<close>

definition applyBiquadFilter_inplace ::
  "('b, 's, 'm, 'j) ext \<Rightarrow> 'b \<Rightarrow> memory \<Rightarrow> nat \<Rightarrow> nat \<Rightarrow> 'b \<times> memory" where
  "applyBiquadFilter_inplace X bq mem out numSamples =
     for_each_sample (Biquad_process X) out out numSamples 0 bq mem"

text \<open>\<^verbatim>\<open>applyToneControls\<close>: the mid filter alone, or the cascade of five.\<close>

definition applyToneControls ::
  "('b, 's, 'm, 'j) ext \<Rightarrow> ('b, 's) AidaToneControl \<Rightarrow> memory \<Rightarrow> nat \<Rightarrow> nat
    \<Rightarrow> ('b, 's) AidaToneControl \<times> memory" where
  "applyToneControls X a mem out numSamples =
     (if mid_type a = kMidEqBandpass then
        (case applyBiquadFilter_inplace X (mid a) mem out numSamples of
           (m', mem1) \<Rightarrow> (a\<lparr>mid := m'\<rparr>, mem1))
      else
        (case applyBiquadFilter_inplace X (depth a) mem out numSamples of (d', mem1) \<Rightarrow>
         case applyBiquadFilter_inplace X (bass a) mem1 out numSamples of (b', mem2) \<Rightarrow>
         case applyBiquadFilter_inplace X (mid a) mem2 out numSamples of (m', mem3) \<Rightarrow>
         case applyBiquadFilter_inplace X (treble a) mem3 out numSamples of (t', mem4) \<Rightarrow>
         case applyBiquadFilter_inplace X (presence a) mem4 out numSamples of (p', mem5) \<Rightarrow>
           (a\<lparr>depth := d', bass := b', mid := m', treble := t', presence := p'\<rparr>, mem5)))"

text \<open>
  \<^verbatim>\<open>applyModel\<close>: \<^verbatim>\<open>std::visit\<close> selects the branch by the variant's \<^verbatim>\<open>input_size\<close>. With
  \<^verbatim>\<open>input_size == 1\<close> the window \<^verbatim>\<open>out + i\<close> that \<^verbatim>\<open>forward\<close> reads is the one sample
  \<^verbatim>\<open>out[i]\<close>. The other branch is the empty \<^verbatim>\<open>// TODO\<close>.
\<close>

definition applyModel ::
  "('b, 's, 'm, 'j) ext \<Rightarrow> 'm DynamicModel \<Rightarrow> memory \<Rightarrow> nat \<Rightarrow> nat \<Rightarrow> 'm DynamicModel \<times> memory" where
  "applyModel X model mem out numSamples =
     (case variant model of
        NullModel \<Rightarrow> (model, mem)
      | CustomModel k net \<Rightarrow>
          if k = 1 then
            (if input_skip model then
               (case for_each_sample
                       (\<lambda>s x. case forward X s [x] of (y, s') \<Rightarrow> (x + y * output_gain model, s'))
                       out out numSamples 0 net mem of
                  (net', mem') \<Rightarrow> (model\<lparr>variant := CustomModel k net'\<rparr>, mem'))
             else
               (case for_each_sample
                       (\<lambda>s x. case forward X s [x] of (y, s') \<Rightarrow> (y * output_gain model, s'))
                       out out numSamples 0 net mem of
                  (net', mem') \<Rightarrow> (model\<lparr>variant := CustomModel k net'\<rparr>, mem')))
          else (model, mem))"

subsection \<open>The plugin\<close>

text \<open>
  The members of \<^verbatim>\<open>AidaDSPLoaderPlugin\<close>, and the heap of the \<^verbatim>\<open>DynamicModel\<close> instances
  allocated so far: \<open>heap p a = None\<close> when no instance lives at \<open>a\<close>.
\<close>

record ('b, 's, 'm) plugin =
  aida :: "('b, 's) AidaToneControl"
  model :: "nat option"
  running :: bool
  parameters :: "Parameters \<Rightarrow> real"
  heap :: "nat \<Rightarrow> 'm DynamicModel option"

text \<open>
  \<^verbatim>\<open>setParameterValue\<close>; \<open>sampleRate\<close> is what \<^verbatim>\<open>getSampleRate()\<close> returns. The two
  parameters without a \<^verbatim>\<open>case\<close> in the \<^verbatim>\<open>switch\<close> are stored and nothing else.
\<close>

definition setParameterValue ::
  "('b, 's, 'm, 'j) ext \<Rightarrow> real \<Rightarrow> Parameters \<Rightarrow> real \<Rightarrow> ('b, 's, 'm) plugin
    \<Rightarrow> ('b, 's, 'm) plugin" where
  "setParameterValue X sampleRate index val p =
     (let p1 = p\<lparr>parameters := (parameters p)(index := val)\<rparr>; a = aida p1 in
      case index of
        kParameterINLPF \<Rightarrow> p1\<lparr>aida := a\<lparr>in_lpf := Biquad_setFc X (PC_CO val * 0.5) (in_lpf a)\<rparr>\<rparr>
      | kParameterPREGAIN \<Rightarrow>
          p1\<lparr>aida := a\<lparr>pregain := ExpSmoother_setTarget X (DB_CO val) (pregain a)\<rparr>\<rparr>
      | kParameterNETBYPASS \<Rightarrow> p1\<lparr>aida := a\<lparr>net_bypass := (val > 0.5)\<rparr>\<rparr>
      | kParameterEQBYPASS \<Rightarrow> p1\<lparr>aida := a\<lparr>eq_bypass := (val > 0.5)\<rparr>\<rparr>
      | kParameterEQPOS \<Rightarrow> p1\<lparr>aida := a\<lparr>eq_pos := (if val > 0.5 then kEqPre else kEqPost)\<rparr>\<rparr>
      | kParameterBASSGAIN \<Rightarrow> p1\<lparr>aida := a\<lparr>bass := Biquad_setPeakGain X val (bass a)\<rparr>\<rparr>
      | kParameterBASSFREQ \<Rightarrow> p1\<lparr>aida := a\<lparr>bass := Biquad_setFc X (val / sampleRate) (bass a)\<rparr>\<rparr>
      | kParameterMIDGAIN \<Rightarrow> p1\<lparr>aida := a\<lparr>mid := Biquad_setPeakGain X val (mid a)\<rparr>\<rparr>
      | kParameterMIDFREQ \<Rightarrow> p1\<lparr>aida := a\<lparr>mid := Biquad_setFc X (val / sampleRate) (mid a)\<rparr>\<rparr>
      | kParameterMIDQ \<Rightarrow> p1\<lparr>aida := a\<lparr>mid := Biquad_setQ X val (mid a)\<rparr>\<rparr>
      | kParameterMTYPE \<Rightarrow>
          p1\<lparr>aida := a\<lparr>mid_type := (if val > 0.5 then kMidEqBandpass else kMidEqPeak)\<rparr>\<rparr>
      | kParameterTREBLEGAIN \<Rightarrow> p1\<lparr>aida := a\<lparr>treble := Biquad_setPeakGain X val (treble a)\<rparr>\<rparr>
      | kParameterTREBLEFREQ \<Rightarrow>
          p1\<lparr>aida := a\<lparr>treble := Biquad_setFc X (val / sampleRate) (treble a)\<rparr>\<rparr>
      | kParameterDEPTH \<Rightarrow> p1\<lparr>aida := a\<lparr>depth := Biquad_setPeakGain X val (depth a)\<rparr>\<rparr>
      | kParameterPRESENCE \<Rightarrow> p1\<lparr>aida := a\<lparr>presence := Biquad_setPeakGain X val (presence a)\<rparr>\<rparr>
      | kParameterMASTER \<Rightarrow>
          p1\<lparr>aida := a\<lparr>mastergain := ExpSmoother_setTarget X (DB_CO val) (mastergain a)\<rparr>\<rparr>
      | kParameterCABSIMBYPASS \<Rightarrow> p1
      | kParameterGLOBALBYPASS \<Rightarrow> p1)"

definition sampleRateChanged ::
  "('b, 's, 'm, 'j) ext \<Rightarrow> real \<Rightarrow> ('b, 's, 'm) plugin \<Rightarrow> ('b, 's, 'm) plugin" where
  "sampleRateChanged X newSampleRate p =
     p\<lparr>aida := setSampleRate X (parameters p) newSampleRate (aida p)\<rparr>"

subsection \<open>Processing a block\<close>

text \<open>
  \<^verbatim>\<open>run\<close> is a sequence of seven statements on \<^verbatim>\<open>in = inputs[0]\<close>, \<^verbatim>\<open>out = outputs[0]\<close> and
  the plugin. Each is a function on the pair of the memory and the plugin, named after
  the comment that introduces it in the source, and \<open>run\<close> composes them in the order of
  the source.
\<close>

text \<open>\<^verbatim>\<open>applyBiquadFilter(aida.in_lpf, out, in, numSamples);\<close>\<close>

definition run_lowpass ::
  "('b, 's, 'm, 'j) ext \<Rightarrow> nat \<Rightarrow> nat \<Rightarrow> nat \<Rightarrow> memory \<times> ('b, 's, 'm) plugin
    \<Rightarrow> memory \<times> ('b, 's, 'm) plugin" where
  "run_lowpass X inp out numSamples s =
     (case s of (mem, p) \<Rightarrow>
        case applyBiquadFilter X (in_lpf (aida p)) mem out inp numSamples of
          (f, mem') \<Rightarrow> (mem', p\<lparr>aida := (aida p)\<lparr>in_lpf := f\<rparr>\<rparr>))"

text \<open>\<^verbatim>\<open>applyGainRamp(aida.pregain, out, numSamples);\<close>\<close>

definition run_pregain ::
  "('b, 's, 'm, 'j) ext \<Rightarrow> nat \<Rightarrow> nat \<Rightarrow> memory \<times> ('b, 's, 'm) plugin
    \<Rightarrow> memory \<times> ('b, 's, 'm) plugin" where
  "run_pregain X out numSamples s =
     (case s of (mem, p) \<Rightarrow>
        case applyGainRamp X (pregain (aida p)) mem out numSamples of
          (g, mem') \<Rightarrow> (mem', p\<lparr>aida := (aida p)\<lparr>pregain := g\<rparr>\<rparr>))"

text \<open>
  \<^verbatim>\<open>if (!aida.eq_bypass && aida.eq_pos == pos) applyToneControls(aida, out, numSamples);\<close>
  with \<open>pos\<close> \<^verbatim>\<open>kEqPre\<close> at its first occurrence and \<^verbatim>\<open>kEqPost\<close> at its second.
\<close>

definition run_equalizer ::
  "('b, 's, 'm, 'j) ext \<Rightarrow> EqPos \<Rightarrow> nat \<Rightarrow> nat \<Rightarrow> memory \<times> ('b, 's, 'm) plugin
    \<Rightarrow> memory \<times> ('b, 's, 'm) plugin" where
  "run_equalizer X pos out numSamples s =
     (case s of (mem, p) \<Rightarrow>
        if \<not> eq_bypass (aida p) \<and> eq_pos (aida p) = pos then
          (case applyToneControls X (aida p) mem out numSamples of
             (a', mem') \<Rightarrow> (mem', p\<lparr>aida := a'\<rparr>))
        else (mem, p))"

text \<open>
  \<^verbatim>\<open>if (!aida.net_bypass && model != nullptr) { running.store(true);
  applyModel(model, out, numSamples); running.store(false); }\<close>
  Dereferencing a \<^verbatim>\<open>model\<close> pointer at which no instance lives is undefined in C++: the
  result is \<open>None\<close> then, and only then.
\<close>

definition run_network ::
  "('b, 's, 'm, 'j) ext \<Rightarrow> nat \<Rightarrow> nat \<Rightarrow> memory \<times> ('b, 's, 'm) plugin
    \<Rightarrow> (memory \<times> ('b, 's, 'm) plugin) option" where
  "run_network X out numSamples s =
     (case s of (mem, p) \<Rightarrow>
        if \<not> net_bypass (aida p) \<and> model p \<noteq> None then
          (case heap p (the (model p)) of
             None \<Rightarrow> None
           | Some m \<Rightarrow>
               (case applyModel X m mem out numSamples of
                  (m', mem') \<Rightarrow>
                    Some (mem', p\<lparr>running := True,
                                  heap := (heap p)(the (model p) \<mapsto> m'),
                                  running := False\<rparr>)))
        else Some (mem, p))"

text \<open>\<^verbatim>\<open>applyBiquadFilter(aida.dc_blocker, out, numSamples);\<close>\<close>

definition run_dc_blocker ::
  "('b, 's, 'm, 'j) ext \<Rightarrow> nat \<Rightarrow> nat \<Rightarrow> memory \<times> ('b, 's, 'm) plugin
    \<Rightarrow> memory \<times> ('b, 's, 'm) plugin" where
  "run_dc_blocker X out numSamples s =
     (case s of (mem, p) \<Rightarrow>
        case applyBiquadFilter_inplace X (dc_blocker (aida p)) mem out numSamples of
          (f, mem') \<Rightarrow> (mem', p\<lparr>aida := (aida p)\<lparr>dc_blocker := f\<rparr>\<rparr>))"

text \<open>\<^verbatim>\<open>applyGainRamp(aida.mastergain, out, numSamples);\<close>\<close>

definition run_master ::
  "('b, 's, 'm, 'j) ext \<Rightarrow> nat \<Rightarrow> nat \<Rightarrow> memory \<times> ('b, 's, 'm) plugin
    \<Rightarrow> memory \<times> ('b, 's, 'm) plugin" where
  "run_master X out numSamples s =
     (case s of (mem, p) \<Rightarrow>
        case applyGainRamp X (mastergain (aida p)) mem out numSamples of
          (g, mem') \<Rightarrow> (mem', p\<lparr>aida := (aida p)\<lparr>mastergain := g\<rparr>\<rparr>))"

definition run ::
  "('b, 's, 'm, 'j) ext \<Rightarrow> nat \<Rightarrow> nat \<Rightarrow> nat \<Rightarrow> memory \<Rightarrow> ('b, 's, 'm) plugin
    \<Rightarrow> (memory \<times> ('b, 's, 'm) plugin) option" where
  "run X inp out numSamples mem p =
     (case run_network X out numSamples
             (run_equalizer X kEqPre out numSamples
               (run_pregain X out numSamples
                 (run_lowpass X inp out numSamples (mem, p)))) of
        None \<Rightarrow> None
      | Some s \<Rightarrow>
          Some (run_master X out numSamples
                 (run_equalizer X kEqPost out numSamples
                   (run_dc_blocker X out numSamples s))))"

text \<open>
  The three statements of the network stage, one by one, and the states \<^verbatim>\<open>run\<close> passes
  through: the pair of the memory and the plugin after each statement, in the order of the
  source. The running flag is an atomic that \<^verbatim>\<open>setState\<close> polls from another thread, so its
  value between two statements can be observed.

  \<^verbatim>\<open>running.store(true);\<close>
\<close>

definition run_network_enter ::
  "memory \<times> ('b, 's, 'm) plugin \<Rightarrow> memory \<times> ('b, 's, 'm) plugin" where
  "run_network_enter s = (case s of (mem, p) \<Rightarrow> (mem, p\<lparr>running := True\<rparr>))"

text \<open>\<^verbatim>\<open>applyModel(model, out, numSamples);\<close>\<close>

definition run_network_model ::
  "('b, 's, 'm, 'j) ext \<Rightarrow> nat \<Rightarrow> nat \<Rightarrow> memory \<times> ('b, 's, 'm) plugin
    \<Rightarrow> (memory \<times> ('b, 's, 'm) plugin) option" where
  "run_network_model X out numSamples s =
     (case s of (mem, p) \<Rightarrow>
        case heap p (the (model p)) of
          None \<Rightarrow> None
        | Some m \<Rightarrow>
            (case applyModel X m mem out numSamples of
               (m', mem') \<Rightarrow> Some (mem', p\<lparr>heap := (heap p)(the (model p) \<mapsto> m')\<rparr>)))"

text \<open>\<^verbatim>\<open>running.store(false);\<close>\<close>

definition run_network_leave ::
  "memory \<times> ('b, 's, 'm) plugin \<Rightarrow> memory \<times> ('b, 's, 'm) plugin" where
  "run_network_leave s = (case s of (mem, p) \<Rightarrow> (mem, p\<lparr>running := False\<rparr>))"

definition run_states ::
  "('b, 's, 'm, 'j) ext \<Rightarrow> nat \<Rightarrow> nat \<Rightarrow> nat \<Rightarrow> memory \<Rightarrow> ('b, 's, 'm) plugin
    \<Rightarrow> (memory \<times> ('b, 's, 'm) plugin) list option" where
  "run_states X inp out numSamples mem p =
     (let s1 = run_lowpass X inp out numSamples (mem, p);
          s2 = run_pregain X out numSamples s1;
          s3 = run_equalizer X kEqPre out numSamples s2
      in
      if \<not> net_bypass (aida (snd s3)) \<and> model (snd s3) \<noteq> None then
        (let s4 = run_network_enter s3 in
         case run_network_model X out numSamples s4 of
           None \<Rightarrow> None
         | Some s5 \<Rightarrow>
             (let s6 = run_network_leave s5;
                  s7 = run_dc_blocker X out numSamples s6;
                  s8 = run_equalizer X kEqPost out numSamples s7;
                  s9 = run_master X out numSamples s8
              in Some [s1, s2, s3, s4, s5, s6, s7, s8, s9]))
      else
        (let s7 = run_dc_blocker X out numSamples s3;
             s8 = run_equalizer X kEqPost out numSamples s7;
             s9 = run_master X out numSamples s8
         in Some [s1, s2, s3, s7, s8, s9]))"

subsection \<open>Loading a model\<close>

text \<open>
  The first \<^verbatim>\<open>try\<close> block of \<^verbatim>\<open>setState\<close> reads the document and then has three
  statements, one per member it looks at. Each takes \<^verbatim>\<open>model_json\<close> as the statement
  before left it.

  \<^verbatim>\<open>if (model_json["in_shape"].back().get<int>() > 1) throw std::invalid_argument(...)\<close>
\<close>

definition check_in_shape :: "('b, 's, 'm, 'j) ext \<Rightarrow> 'j \<Rightarrow> 'j res" where
  "check_in_shape X j0 =
     res_bind (json_index X j0 ''in_shape'') (\<lambda>(shape, j1).
     res_bind (json_back X shape) (\<lambda>last_dim.
     res_bind (json_get_int X last_dim) (\<lambda>n.
     if n > 1 then Throw (invalid_argument ''Values for input_size > 1 are not supported'')
     else Ok j1)))"

text \<open>
  \<^verbatim>\<open>if (model_json["in_skip"].is_number()) { input_skip = model_json["in_skip"].get<int>();
  if (input_skip > 1) throw std::invalid_argument(...); } else { input_skip = 0; }\<close>
  The member is looked up twice, as the source writes \<^verbatim>\<open>model_json["in_skip"]\<close> twice.
\<close>

definition read_in_skip :: "('b, 's, 'm, 'j) ext \<Rightarrow> 'j \<Rightarrow> (int \<times> 'j) res" where
  "read_in_skip X j1 =
     res_bind (json_index X j1 ''in_skip'') (\<lambda>(tested, j2).
     if json_is_number X tested then
       res_bind (json_index X j2 ''in_skip'') (\<lambda>(skip, j3).
       res_bind (json_get_int X skip) (\<lambda>k.
         if k > 1 then Throw (invalid_argument ''Values for in_skip > 1 are not supported'')
         else Ok (k, j3)))
     else Ok (0, j2))"

text \<open>
  \<^verbatim>\<open>if (model_json["out_gain"].is_number()) output_gain = DB_CO(model_json["out_gain"].get<float>());
  else output_gain = 1.0f;\<close>
\<close>

definition read_out_gain :: "('b, 's, 'm, 'j) ext \<Rightarrow> 'j \<Rightarrow> (real \<times> 'j) res" where
  "read_out_gain X j2 =
     res_bind (json_index X j2 ''out_gain'') (\<lambda>(tested, j3).
     if json_is_number X tested then
       res_bind (json_index X j3 ''out_gain'') (\<lambda>(gain, j4).
       res_bind (json_get_float X gain) (\<lambda>g. Ok (DB_CO g, j4)))
     else Ok (1, j3))"

text \<open>The whole block: \<^verbatim>\<open>input_skip\<close>, \<^verbatim>\<open>output_gain\<close> and \<^verbatim>\<open>model_json\<close> at its end.\<close>

definition load_json :: "('b, 's, 'm, 'j) ext \<Rightarrow> string \<Rightarrow> (int \<times> real \<times> 'j) res" where
  "load_json X path =
     res_bind (json_read X path) (\<lambda>j0.
     res_bind (check_in_shape X j0) (\<lambda>j1.
     res_bind (read_in_skip X j1) (\<lambda>(in_skip, j2).
     res_bind (read_out_gain X j2) (\<lambda>(out_gain, j3).
     Ok (in_skip, out_gain, j3)))))"

text \<open>
  The second \<^verbatim>\<open>try\<close> block, on the freshly made \<^verbatim>\<open>newmodel\<close>: the architecture is
  identified, and a network other than \<^verbatim>\<open>NullModel\<close> reads its weights and is reset.
\<close>

definition build_model ::
  "('b, 's, 'm, 'j) ext \<Rightarrow> 'j \<Rightarrow> 'm DynamicModel \<Rightarrow> 'm DynamicModel res" where
  "build_model X model_json newmodel =
     res_bind (custom_model_creator X model_json (variant newmodel)) (\<lambda>(found, v).
     if \<not> found then Throw (runtime_error ''Unable to identify a known model architecture!'')
     else
       (case v of
          NullModel \<Rightarrow> Ok (newmodel\<lparr>variant := v\<rparr>)
        | CustomModel k net \<Rightarrow>
            res_bind (parseJson X model_json net) (\<lambda>net'.
              Ok (newmodel\<lparr>variant := CustomModel k (reset X net')\<rparr>))))"

text \<open>
  \<^verbatim>\<open>while (oldmodel != nullptr && running.load()) d_msleep(5);\<close>
  The flag is written by the audio thread, so what the loop reads is an input of the
  model: \<open>obs k\<close> is the value the \<open>k\<close>-th \<^verbatim>\<open>running.load()\<close> returns, counting from 0. The
  loop returns the number of times it slept, and does not return when every load gives
  \<^verbatim>\<open>true\<close>.
\<close>

partial_function (option) wait_for_cycle :: "bool \<Rightarrow> (nat \<Rightarrow> bool) \<Rightarrow> nat \<Rightarrow> nat option" where
  "wait_for_cycle old_not_null obs k =
     (if old_not_null \<and> obs k then wait_for_cycle old_not_null obs (Suc k) else Some k)"

text \<open>
  \<^verbatim>\<open>newmodel\<close> as \<^verbatim>\<open>std::make_unique<DynamicModel>()\<close> makes it.
\<close>

definition fresh_model :: "'m DynamicModel" where
  "fresh_model = \<lparr>variant = NullModel, input_skip = False, output_gain = 0\<rparr>"

datatype load_status =
  WrongKey | JsonFailed exn | ModelFailed exn | Loaded nat

datatype 'a outcome = Returns 'a | Undefined

text \<open>
  \<^verbatim>\<open>setState(key, value)\<close>. \<open>a\<close> is the address \<^verbatim>\<open>std::make_unique\<close> returns, \<open>obs\<close> what the
  waiting loop reads. The result is \<open>None\<close> when the call does not return, \<open>Undefined\<close>
  when a library call was undefined, and otherwise the way the call ended
  (\<open>JsonFailed\<close> and \<open>ModelFailed\<close> are the two handlers, \<open>Loaded k\<close> the end of the function
  after \<open>k\<close> sleeps) with the plugin afterwards.

  \<^verbatim>\<open>newmodel\<close> is value-initialised; when the second handler returns, the \<^verbatim>\<open>unique_ptr\<close>
  deletes it. The buffer \<^verbatim>\<open>float out[2048] = {}\<close> is a local array: a memory of zeros of
  its own, which is dropped. Nothing in the function deletes \<^verbatim>\<open>oldmodel\<close>.
\<close>

definition setState ::
  "('b, 's, 'm, 'j) ext \<Rightarrow> nat \<Rightarrow> (nat \<Rightarrow> bool) \<Rightarrow> string \<Rightarrow> string \<Rightarrow> ('b, 's, 'm) plugin
    \<Rightarrow> (load_status \<times> ('b, 's, 'm) plugin) outcome option" where
  "setState X a obs key val p =
     (if key \<noteq> ''json'' then Some (Returns (WrongKey, p))
      else
        case load_json X val of
          UB \<Rightarrow> Some Undefined
        | Throw e \<Rightarrow> Some (Returns (JsonFailed e, p))
        | Ok (in_skip, out_gain, model_json) \<Rightarrow>
            let newmodel = fresh_model;
                p1 = p\<lparr>heap := (heap p)(a \<mapsto> newmodel)\<rparr>
            in
            (case build_model X model_json newmodel of
               UB \<Rightarrow> Some Undefined
             | Throw e \<Rightarrow> Some (Returns (ModelFailed e, p1\<lparr>heap := (heap p1)(a := None)\<rparr>))
             | Ok built \<Rightarrow>
                 let newmodel' = built\<lparr>input_skip := (in_skip \<noteq> 0), output_gain := out_gain\<rparr>;
                     primed = fst (applyModel X newmodel' (\<lambda>i. 0) 0 2048);
                     p2 = p1\<lparr>heap := (heap p1)(a \<mapsto> primed)\<rparr>;
                     oldmodel = model p2;
                     p3 = p2\<lparr>model := Some a\<rparr>
                 in
                 (case wait_for_cycle (oldmodel \<noteq> None) obs 0 of
                    None \<Rightarrow> None
                  | Some k \<Rightarrow> Some (Returns (Loaded k, p3)))))"

text \<open>
  The states of the plugin that \<^verbatim>\<open>setState\<close> passes through before its waiting loop, one
  after each statement that writes to the plugin or to \<^verbatim>\<open>*newmodel\<close>, in the order of the
  source: \<^verbatim>\<open>std::make_unique\<close>, the second \<^verbatim>\<open>try\<close> block, the assignments of \<^verbatim>\<open>input_skip\<close> and
  of \<^verbatim>\<open>output_gain\<close>, the call of \<^verbatim>\<open>applyModel\<close> on the zeroed buffer, and
  \<^verbatim>\<open>model = newmodel.release()\<close>. The audio thread reads \<^verbatim>\<open>model\<close> in \<^verbatim>\<open>run\<close>, so it can see
  any of them. When the second handler returns, the last state is the one after the
  \<^verbatim>\<open>unique_ptr\<close> has deleted the instance.
\<close>

definition setState_states ::
  "('b, 's, 'm, 'j) ext \<Rightarrow> nat \<Rightarrow> string \<Rightarrow> string \<Rightarrow> ('b, 's, 'm) plugin
    \<Rightarrow> ('b, 's, 'm) plugin list outcome" where
  "setState_states X a key val p =
     (if key \<noteq> ''json'' then Returns []
      else
        case load_json X val of
          UB \<Rightarrow> Undefined
        | Throw e \<Rightarrow> Returns []
        | Ok (in_skip, out_gain, model_json) \<Rightarrow>
            let newmodel = fresh_model;
                q1 = p\<lparr>heap := (heap p)(a \<mapsto> newmodel)\<rparr>
            in
            (case build_model X model_json newmodel of
               UB \<Rightarrow> Undefined
             | Throw e \<Rightarrow> Returns [q1, q1\<lparr>heap := (heap q1)(a := None)\<rparr>]
             | Ok built \<Rightarrow>
                 let q2 = q1\<lparr>heap := (heap q1)(a \<mapsto> built)\<rparr>;
                     with_skip = built\<lparr>input_skip := (in_skip \<noteq> 0)\<rparr>;
                     q3 = q2\<lparr>heap := (heap q2)(a \<mapsto> with_skip)\<rparr>;
                     with_gain = with_skip\<lparr>output_gain := out_gain\<rparr>;
                     q4 = q3\<lparr>heap := (heap q3)(a \<mapsto> with_gain)\<rparr>;
                     primed = fst (applyModel X with_gain (\<lambda>i. 0) 0 2048);
                     q5 = q4\<lparr>heap := (heap q4)(a \<mapsto> primed)\<rparr>;
                     q6 = q5\<lparr>model := Some a\<rparr>
                 in Returns [q1, q2, q3, q4, q5, q6]))"

text \<open>
  Every way for an exception to be thrown inside one of the two \<^verbatim>\<open>try\<close> blocks, with the
  exception thrown: one rule per throwing call or \<^verbatim>\<open>throw\<close> statement, whose premises say
  that everything before it returned.
\<close>

inductive abort_cause :: "('b, 's, 'm, 'j) ext \<Rightarrow> string \<Rightarrow> exn \<Rightarrow> bool"
  for X :: "('b, 's, 'm, 'j) ext" and path :: string where
  document_unreadable:
    "json_read X path = Throw e \<Longrightarrow> abort_cause X path e"
| in_shape_lookup_throws:
    "json_read X path = Ok j0 \<Longrightarrow> json_index X j0 ''in_shape'' = Throw e
      \<Longrightarrow> abort_cause X path e"
| in_shape_back_throws:
    "json_read X path = Ok j0 \<Longrightarrow> json_index X j0 ''in_shape'' = Ok (shape, j1)
      \<Longrightarrow> json_back X shape = Throw e \<Longrightarrow> abort_cause X path e"
| in_shape_not_a_number:
    "json_read X path = Ok j0 \<Longrightarrow> json_index X j0 ''in_shape'' = Ok (shape, j1)
      \<Longrightarrow> json_back X shape = Ok d \<Longrightarrow> json_get_int X d = Throw e
      \<Longrightarrow> abort_cause X path e"
| input_size_above_one:
    "json_read X path = Ok j0 \<Longrightarrow> json_index X j0 ''in_shape'' = Ok (shape, j1)
      \<Longrightarrow> json_back X shape = Ok d \<Longrightarrow> json_get_int X d = Ok n \<Longrightarrow> n > 1
      \<Longrightarrow> abort_cause X path
            (invalid_argument ''Values for input_size > 1 are not supported'')"
| in_skip_lookup_throws:
    "json_read X path = Ok j0 \<Longrightarrow> check_in_shape X j0 = Ok j1
      \<Longrightarrow> json_index X j1 ''in_skip'' = Throw e \<Longrightarrow> abort_cause X path e"
| in_skip_second_lookup_throws:
    "json_read X path = Ok j0 \<Longrightarrow> check_in_shape X j0 = Ok j1
      \<Longrightarrow> json_index X j1 ''in_skip'' = Ok (tested, j2) \<Longrightarrow> json_is_number X tested
      \<Longrightarrow> json_index X j2 ''in_skip'' = Throw e \<Longrightarrow> abort_cause X path e"
| in_skip_get_throws:
    "json_read X path = Ok j0 \<Longrightarrow> check_in_shape X j0 = Ok j1
      \<Longrightarrow> json_index X j1 ''in_skip'' = Ok (tested, j2) \<Longrightarrow> json_is_number X tested
      \<Longrightarrow> json_index X j2 ''in_skip'' = Ok (skip, j3)
      \<Longrightarrow> json_get_int X skip = Throw e \<Longrightarrow> abort_cause X path e"
| in_skip_above_one:
    "json_read X path = Ok j0 \<Longrightarrow> check_in_shape X j0 = Ok j1
      \<Longrightarrow> json_index X j1 ''in_skip'' = Ok (tested, j2) \<Longrightarrow> json_is_number X tested
      \<Longrightarrow> json_index X j2 ''in_skip'' = Ok (skip, j3)
      \<Longrightarrow> json_get_int X skip = Ok k \<Longrightarrow> k > 1
      \<Longrightarrow> abort_cause X path (invalid_argument ''Values for in_skip > 1 are not supported'')"
| out_gain_lookup_throws:
    "json_read X path = Ok j0 \<Longrightarrow> check_in_shape X j0 = Ok j1
      \<Longrightarrow> read_in_skip X j1 = Ok (in_skip, j2)
      \<Longrightarrow> json_index X j2 ''out_gain'' = Throw e \<Longrightarrow> abort_cause X path e"
| out_gain_second_lookup_throws:
    "json_read X path = Ok j0 \<Longrightarrow> check_in_shape X j0 = Ok j1
      \<Longrightarrow> read_in_skip X j1 = Ok (in_skip, j2)
      \<Longrightarrow> json_index X j2 ''out_gain'' = Ok (tested, j3) \<Longrightarrow> json_is_number X tested
      \<Longrightarrow> json_index X j3 ''out_gain'' = Throw e \<Longrightarrow> abort_cause X path e"
| out_gain_get_throws:
    "json_read X path = Ok j0 \<Longrightarrow> check_in_shape X j0 = Ok j1
      \<Longrightarrow> read_in_skip X j1 = Ok (in_skip, j2)
      \<Longrightarrow> json_index X j2 ''out_gain'' = Ok (tested, j3) \<Longrightarrow> json_is_number X tested
      \<Longrightarrow> json_index X j3 ''out_gain'' = Ok (gain, j4)
      \<Longrightarrow> json_get_float X gain = Throw e \<Longrightarrow> abort_cause X path e"
| creator_throws:
    "load_json X path = Ok (in_skip, out_gain, j)
      \<Longrightarrow> custom_model_creator X j NullModel = Throw e \<Longrightarrow> abort_cause X path e"
| no_known_architecture:
    "load_json X path = Ok (in_skip, out_gain, j)
      \<Longrightarrow> custom_model_creator X j NullModel = Ok (False, v)
      \<Longrightarrow> abort_cause X path (runtime_error ''Unable to identify a known model architecture!'')"
| parseJson_throws:
    "load_json X path = Ok (in_skip, out_gain, j)
      \<Longrightarrow> custom_model_creator X j NullModel = Ok (True, CustomModel k net)
      \<Longrightarrow> parseJson X j net = Throw e \<Longrightarrow> abort_cause X path e"

section \<open>Blocks of samples\<close>

text \<open>
  The vocabulary of the statements below: a buffer read as a list of samples, a list
  written back over a buffer, and a stage as a function from a block to a block that
  threads the state of its object through the samples.
\<close>

definition load_block :: "memory \<Rightarrow> nat \<Rightarrow> nat \<Rightarrow> real list" where
  "load_block mem p n = map (\<lambda>i. mem (p + i)) [0..<n]"

definition store_block :: "memory \<Rightarrow> nat \<Rightarrow> real list \<Rightarrow> memory" where
  "store_block mem p ys = (\<lambda>a. if p \<le> a \<and> a < p + length ys then ys ! (a - p) else mem a)"

fun map_accum :: "('s \<Rightarrow> 'a \<Rightarrow> 'b \<times> 's) \<Rightarrow> 's \<Rightarrow> 'a list \<Rightarrow> 'b list \<times> 's" where
  "map_accum f s [] = ([], s)"
| "map_accum f s (x # xs) =
     (case f s x of (y, s1) \<Rightarrow> case map_accum f s1 xs of (ys, s2) \<Rightarrow> (y # ys, s2))"

text \<open>The state of the threaded object when sample \<open>i\<close> of the block is reached.\<close>

primrec accum_state :: "('s \<Rightarrow> 'a \<Rightarrow> 'b \<times> 's) \<Rightarrow> 's \<Rightarrow> 'a list \<Rightarrow> nat \<Rightarrow> 's" where
  "accum_state f s xs 0 = s"
| "accum_state f s xs (Suc i) = snd (f (accum_state f s xs i) (xs ! i))"

definition filter_block :: "('b, 's, 'm, 'j) ext \<Rightarrow> 'b \<Rightarrow> real list \<Rightarrow> real list \<times> 'b" where
  "filter_block X bq xs = map_accum (Biquad_process X) bq xs"

definition gain_block :: "('b, 's, 'm, 'j) ext \<Rightarrow> 's \<Rightarrow> real list \<Rightarrow> real list \<times> 's" where
  "gain_block X smoother xs =
     map_accum (\<lambda>s x. case ExpSmoother_next X s of (g, s') \<Rightarrow> (x * g, s')) smoother xs"

text \<open>
  The tone stack on a block: the mid filter alone when the mid type is band-pass, and
  depth, bass, mid, treble, presence in that order otherwise.
\<close>

definition tone_block ::
  "('b, 's, 'm, 'j) ext \<Rightarrow> ('b, 's) AidaToneControl \<Rightarrow> real list
    \<Rightarrow> real list \<times> ('b, 's) AidaToneControl" where
  "tone_block X a xs =
     (if mid_type a = kMidEqBandpass then
        (case filter_block X (mid a) xs of (ys, m') \<Rightarrow> (ys, a\<lparr>mid := m'\<rparr>))
      else
        (case filter_block X (depth a) xs of (x1, d') \<Rightarrow>
         case filter_block X (bass a) x1 of (x2, b') \<Rightarrow>
         case filter_block X (mid a) x2 of (x3, m') \<Rightarrow>
         case filter_block X (treble a) x3 of (x4, t') \<Rightarrow>
         case filter_block X (presence a) x4 of (x5, p') \<Rightarrow>
           (x5, a\<lparr>depth := d', bass := b', mid := m', treble := t', presence := p'\<rparr>)))"

text \<open>
  The network of a single-input model when sample \<open>i\<close> of the block \<open>xs\<close> is reached: it
  has been given the windows \<open>[xs ! 0]\<close>, ..., \<open>[xs ! (i - 1)]\<close>, one after the other.
\<close>

primrec net_state :: "('b, 's, 'm, 'j) ext \<Rightarrow> 'm \<Rightarrow> real list \<Rightarrow> nat \<Rightarrow> 'm" where
  "net_state X net xs 0 = net"
| "net_state X net xs (Suc i) = snd (forward X (net_state X net xs i) [xs ! i])"

text \<open>The model stage on a block: inference for a single-input network, nothing otherwise.\<close>

definition model_block ::
  "('b, 's, 'm, 'j) ext \<Rightarrow> 'm DynamicModel \<Rightarrow> real list \<Rightarrow> real list \<times> 'm DynamicModel" where
  "model_block X m xs =
     (case variant m of
        NullModel \<Rightarrow> (xs, m)
      | CustomModel k net \<Rightarrow>
          if k = 1 then
            (case map_accum
                    (\<lambda>s x. case forward X s [x] of
                       (y, s') \<Rightarrow> (if input_skip m then x + y * output_gain m
                                    else y * output_gain m, s'))
                    net xs of
               (ys, net') \<Rightarrow> (ys, m\<lparr>variant := CustomModel k net'\<rparr>))
          else (xs, m))"

text \<open>The instance the \<^verbatim>\<open>model\<close> pointer designates, if any.\<close>

definition active_model :: "('b, 's, 'm) plugin \<Rightarrow> 'm DynamicModel option" where
  "active_model p = (case model p of None \<Rightarrow> None | Some a \<Rightarrow> heap p a)"

text \<open>
  The stages of a block after the input low-pass, each a function on the pair of the
  block and the plugin.
\<close>

definition block_pregain ::
  "('b, 's, 'm, 'j) ext \<Rightarrow> real list \<times> ('b, 's, 'm) plugin \<Rightarrow> real list \<times> ('b, 's, 'm) plugin" where
  "block_pregain X s =
     (case s of (xs, p) \<Rightarrow>
        case gain_block X (pregain (aida p)) xs of
          (ys, g) \<Rightarrow> (ys, p\<lparr>aida := (aida p)\<lparr>pregain := g\<rparr>\<rparr>))"

definition block_equalizer ::
  "('b, 's, 'm, 'j) ext \<Rightarrow> EqPos \<Rightarrow> real list \<times> ('b, 's, 'm) plugin
    \<Rightarrow> real list \<times> ('b, 's, 'm) plugin" where
  "block_equalizer X pos s =
     (case s of (xs, p) \<Rightarrow>
        if \<not> eq_bypass (aida p) \<and> eq_pos (aida p) = pos then
          (case tone_block X (aida p) xs of (ys, a') \<Rightarrow> (ys, p\<lparr>aida := a'\<rparr>))
        else (xs, p))"

text \<open>
  The network stage: skipped when the network is bypassed or no model is active; otherwise
  the active model processes the block, and the running flag is set before and cleared
  after. \<open>None\<close> is the \<^verbatim>\<open>model\<close> pointer at which no instance lives.
\<close>

definition block_network ::
  "('b, 's, 'm, 'j) ext \<Rightarrow> real list \<times> ('b, 's, 'm) plugin
    \<Rightarrow> (real list \<times> ('b, 's, 'm) plugin) option" where
  "block_network X s =
     (case s of (xs, p) \<Rightarrow>
        if net_bypass (aida p) then Some (xs, p)
        else
          (case model p of
             None \<Rightarrow> Some (xs, p)
           | Some a \<Rightarrow>
               (case heap p a of
                  None \<Rightarrow> None
                | Some m \<Rightarrow>
                    (case model_block X m xs of
                       (ys, m') \<Rightarrow> Some (ys, p\<lparr>heap := (heap p)(a \<mapsto> m'), running := False\<rparr>)))))"

definition block_dc_blocker ::
  "('b, 's, 'm, 'j) ext \<Rightarrow> real list \<times> ('b, 's, 'm) plugin \<Rightarrow> real list \<times> ('b, 's, 'm) plugin" where
  "block_dc_blocker X s =
     (case s of (xs, p) \<Rightarrow>
        case filter_block X (dc_blocker (aida p)) xs of
          (ys, f) \<Rightarrow> (ys, p\<lparr>aida := (aida p)\<lparr>dc_blocker := f\<rparr>\<rparr>))"

definition block_master ::
  "('b, 's, 'm, 'j) ext \<Rightarrow> real list \<times> ('b, 's, 'm) plugin \<Rightarrow> real list \<times> ('b, 's, 'm) plugin" where
  "block_master X s =
     (case s of (xs, p) \<Rightarrow>
        case gain_block X (mastergain (aida p)) xs of
          (ys, g) \<Rightarrow> (ys, p\<lparr>aida := (aida p)\<lparr>mastergain := g\<rparr>\<rparr>))"

text \<open>
  The order the specification gives: pre-gain ramp; tone stack if the equalizer is
  enabled and placed before the network; the network; the DC blocker, always; tone stack
  if the equalizer is enabled and placed after; master-gain ramp.
\<close>

definition stages_after_lpf ::
  "('b, 's, 'm, 'j) ext \<Rightarrow> real list \<Rightarrow> ('b, 's, 'm) plugin
    \<Rightarrow> (real list \<times> ('b, 's, 'm) plugin) option" where
  "stages_after_lpf X xs p =
     (case block_network X (block_equalizer X kEqPre (block_pregain X (xs, p))) of
        None \<Rightarrow> None
      | Some s \<Rightarrow>
          Some (block_master X (block_equalizer X kEqPost (block_dc_blocker X s))))"

section \<open>A small implementation of the external operations\<close>

text \<open>
  One implementation of \<open>ext\<close>, on which the definitions can be run: a filter that keeps
  its parameters and one delay register, a smoother that halves its distance to the
  target, a network with one weight and one remembered sample, and JSON documents as a
  datatype with the library's documented behaviour for the operations \<^verbatim>\<open>setState\<close> uses.
\<close>

record toy_biquad =
  tb_type :: bq_type
  tb_fc :: real
  tb_q :: real
  tb_gain :: real
  tb_z :: real

definition toy_process :: "toy_biquad \<Rightarrow> real \<Rightarrow> real \<times> toy_biquad" where
  "toy_process b x = (x * tb_fc b + tb_z b, b\<lparr>tb_z := x\<rparr>)"

definition toy_next :: "real \<times> real \<Rightarrow> real \<times> (real \<times> real)" where
  "toy_next s = (case s of (current, target) \<Rightarrow>
     ((current + target) / 2, ((current + target) / 2, target)))"

definition toy_forward :: "real \<times> real \<Rightarrow> real list \<Rightarrow> real \<times> (real \<times> real)" where
  "toy_forward net window = (case net of (w, z) \<Rightarrow>
     (w * sum_list window + z, (w, sum_list window)))"

text \<open>
  Numbers are integers here. An object lists its members in key order, as the library's
  \<^verbatim>\<open>std::map\<close> keeps them.
\<close>

datatype json =
  JNull | JNumber int | JString string | JArray "json list" | JObject "(string \<times> json) list"

fun key_less :: "string \<Rightarrow> string \<Rightarrow> bool" where
  "key_less [] [] = False"
| "key_less [] (y # ys) = True"
| "key_less (x # xs) [] = False"
| "key_less (x # xs) (y # ys) =
     ((of_char x :: nat) < of_char y \<or> (x = y \<and> key_less xs ys))"

fun insert_member :: "string \<Rightarrow> json \<Rightarrow> (string \<times> json) list \<Rightarrow> (string \<times> json) list" where
  "insert_member k v [] = [(k, v)]"
| "insert_member k v (kv # kvs) =
     (if key_less k (fst kv) then (k, v) # kv # kvs else kv # insert_member k v kvs)"

text \<open>
  \<^verbatim>\<open>j[key]\<close>: a null value becomes an object; an object gets a null member for an absent
  key; any other value throws \<^verbatim>\<open>type_error\<close>.
\<close>

fun toy_index :: "json \<Rightarrow> string \<Rightarrow> (json \<times> json) res" where
  "toy_index JNull key = Ok (JNull, JObject [(key, JNull)])"
| "toy_index (JObject kvs) key =
     (case map_of kvs key of
        Some v \<Rightarrow> Ok (v, JObject kvs)
      | None \<Rightarrow> Ok (JNull, JObject (insert_member key JNull kvs)))"
| "toy_index j key = Throw type_error"

text \<open>
  \<^verbatim>\<open>j.back()\<close>: the last element of an array or object, the value itself for a number or a
  string, \<^verbatim>\<open>invalid_iterator\<close> for null, and undefined for an empty array or object.
\<close>

fun toy_back :: "json \<Rightarrow> json res" where
  "toy_back JNull = Throw invalid_iterator"
| "toy_back (JArray []) = UB"
| "toy_back (JArray (x # xs)) = Ok (last (x # xs))"
| "toy_back (JObject []) = UB"
| "toy_back (JObject (kv # kvs)) = Ok (snd (last (kv # kvs)))"
| "toy_back j = Ok j"

fun toy_is_number :: "json \<Rightarrow> bool" where
  "toy_is_number (JNumber n) = True"
| "toy_is_number j = False"

fun toy_get_int :: "json \<Rightarrow> int res" where
  "toy_get_int (JNumber n) = Ok n"
| "toy_get_int j = Throw type_error"

fun toy_get_float :: "json \<Rightarrow> real res" where
  "toy_get_float (JNumber n) = Ok (of_int n)"
| "toy_get_float j = Throw type_error"

text \<open>
  The architecture is named by the member \<^verbatim>\<open>type\<close>: \<^verbatim>\<open>one_tap\<close> has input size 1,
  \<^verbatim>\<open>two_tap\<close> input size 2. The weight is the member \<^verbatim>\<open>weights\<close>, read with \<^verbatim>\<open>at\<close>, which throws
  \<^verbatim>\<open>out_of_range\<close> when the member is absent.
\<close>

definition toy_creator ::
  "json \<Rightarrow> (real \<times> real) ModelVariantType \<Rightarrow> (bool \<times> (real \<times> real) ModelVariantType) res" where
  "toy_creator j v =
     (case j of
        JObject kvs \<Rightarrow>
          (case map_of kvs ''type'' of
             Some (JString t) \<Rightarrow>
               if t = ''one_tap'' then Ok (True, CustomModel 1 (0, 0))
               else if t = ''two_tap'' then Ok (True, CustomModel 2 (0, 0))
               else Ok (False, v)
           | Some other \<Rightarrow> Ok (False, v)
           | None \<Rightarrow> Ok (False, v))
      | other \<Rightarrow> Ok (False, v))"

definition toy_parseJson :: "json \<Rightarrow> real \<times> real \<Rightarrow> (real \<times> real) res" where
  "toy_parseJson j net =
     (case j of
        JObject kvs \<Rightarrow>
          (case map_of kvs ''weights'' of
             Some (JNumber w) \<Rightarrow> Ok (of_int w, snd net)
           | Some other \<Rightarrow> Throw type_error
           | None \<Rightarrow> Throw out_of_range)
      | other \<Rightarrow> Throw type_error)"

text \<open>The files of the toy file system; any other path does not parse.\<close>

definition toy_read :: "string \<Rightarrow> json res" where
  "toy_read path =
     (if path = ''clean.json'' then
        Ok (JObject [(''in_shape'', JArray [JNumber 1]), (''type'', JString ''one_tap''),
                     (''weights'', JNumber 2)])
      else if path = ''skip.json'' then
        Ok (JObject [(''in_shape'', JArray [JNumber 1]), (''in_skip'', JNumber 1),
                     (''out_gain'', JNumber 0), (''type'', JString ''one_tap''),
                     (''weights'', JNumber 2)])
      else if path = ''quiet.json'' then
        Ok (JObject [(''in_shape'', JArray [JNumber 1]), (''out_gain'', JNumber (- 100)),
                     (''type'', JString ''one_tap''), (''weights'', JNumber 2)])
      else if path = ''noweights.json'' then
        Ok (JObject [(''in_shape'', JArray [JNumber 1]), (''type'', JString ''one_tap'')])
      else if path = ''wide.json'' then
        Ok (JObject [(''in_shape'', JArray [JNumber 1, JNumber 2]),
                     (''type'', JString ''two_tap''), (''weights'', JNumber 2)])
      else if path = ''empty.json'' then Ok (JObject [])
      else Throw parse_error)"

definition toy :: "(toy_biquad, real \<times> real, real \<times> real, json) ext" where
  "toy =
     \<lparr>Biquad_process = toy_process,
      Biquad_setFc = (\<lambda>f b. b\<lparr>tb_fc := f\<rparr>),
      Biquad_setQ = (\<lambda>q b. b\<lparr>tb_q := q\<rparr>),
      Biquad_setPeakGain = (\<lambda>g b. b\<lparr>tb_gain := g\<rparr>),
      Biquad_setBiquad = (\<lambda>t f q g b. b\<lparr>tb_type := t, tb_fc := f, tb_q := q, tb_gain := g\<rparr>),
      ExpSmoother_next = toy_next,
      ExpSmoother_setTarget = (\<lambda>v s. (fst s, v)),
      ExpSmoother_setSampleRate = (\<lambda>r s. s),
      forward = toy_forward,
      reset = (\<lambda>net. (fst net, 0)),
      parseJson = toy_parseJson,
      custom_model_creator = toy_creator,
      json_read = toy_read,
      json_index = toy_index,
      json_back = toy_back,
      json_is_number = toy_is_number,
      json_get_int = toy_get_int,
      json_get_float = toy_get_float\<rparr>"

text \<open>A filter of the toy implementation with coefficient \<open>c\<close> and an empty register.\<close>

definition toy_filter :: "bq_type \<Rightarrow> real \<Rightarrow> toy_biquad" where
  "toy_filter t c = \<lparr>tb_type = t, tb_fc = c, tb_q = 0.707, tb_gain = 0, tb_z = 0\<rparr>"

definition toy_aida :: "(toy_biquad, real \<times> real) AidaToneControl" where
  "toy_aida =
     \<lparr>dc_blocker = toy_filter bq_type_highpass 1,
      in_lpf = toy_filter bq_type_lowpass 1,
      bass = toy_filter bq_type_lowshelf 2,
      mid = toy_filter bq_type_peak 3,
      treble = toy_filter bq_type_highshelf 1,
      depth = toy_filter bq_type_highshelf 1,
      presence = toy_filter bq_type_highshelf 1,
      pregain = (1, 1),
      mastergain = (1, 1),
      net_bypass = False,
      eq_bypass = False,
      eq_pos = kEqPost,
      mid_type = kMidEqPeak\<rparr>"

text \<open>A plugin with one model loaded, at address 0.\<close>

definition toy_plugin :: "(toy_biquad, real \<times> real, real \<times> real) plugin" where
  "toy_plugin =
     \<lparr>aida = toy_aida,
      model = Some 0,
      running = False,
      parameters = (\<lambda>i. 0),
      heap = (\<lambda>a. None)(0 \<mapsto> \<lparr>variant = CustomModel 1 (2, 0), input_skip = False,
                                 output_gain = 1\<rparr>)\<rparr>"

text \<open>
  The toy implementation with a network that starts with a transient: \<^verbatim>\<open>reset\<close> leaves
  \<open>1\<close> in the register, so the first sample of silence comes out as \<open>1\<close>.
\<close>

definition toy_cold :: "(toy_biquad, real \<times> real, real \<times> real, json) ext" where
  "toy_cold = toy\<lparr>reset := (\<lambda>net. (fst net, 1))\<rparr>"

section \<open>Loops and blocks\<close>

subsection \<open>The loop over the samples\<close>

lemma length_map_accum: "length (fst (map_accum f s xs)) = length xs"
proof (induction xs arbitrary: s)
  case Nil
  then show ?case by simp
next
  case (Cons x xs)
  obtain y s1 where f: "f s x = (y, s1)" by (cases "f s x")
  obtain ys s2 where r: "map_accum f s1 xs = (ys, s2)" by (cases "map_accum f s1 xs")
  from Cons[of s1] r have "length ys = length xs" by simp
  with f r show ?case by simp
qed

lemma map_accum_length: "map_accum f s xs = (ys, s') \<Longrightarrow> length ys = length xs"
  using length_map_accum[of f s xs] by simp

lemma length_load_block [simp]: "length (load_block mem p n) = n"
  by (simp add: load_block_def)

lemma nth_load_block [simp]: "i < n \<Longrightarrow> load_block mem p n ! i = mem (p + i)"
  by (simp add: load_block_def)

lemma store_block_Cons: "store_block (mem(p := y)) (Suc p) ys = store_block mem p (y # ys)"
  by (rule ext) (auto simp: store_block_def nth_Cons' Suc_diff_le)

lemma store_block_Nil [simp]: "store_block mem p [] = mem"
  by (rule ext) (simp add: store_block_def)

lemma for_each_sample_from:
  assumes "i \<le> n" "out \<le> inp \<or> inp + n \<le> out + i"
  shows "for_each_sample body out inp n i s mem =
    (case map_accum body s (map (\<lambda>k. mem (inp + k)) [i..<n]) of
       (ys, s') \<Rightarrow> (s', store_block mem (out + i) ys))"
  using assms
proof (induction "n - i" arbitrary: i s mem)
  case 0
  then show ?case by (simp add: for_each_sample.simps)
next
  case (Suc d)
  then have lt: "i < n" by simp
  obtain y s1 where b: "body s (mem (inp + i)) = (y, s1)" by (cases "body s (mem (inp + i))")
  let ?mem1 = "mem(out + i := y)"
  have same: "map (\<lambda>k. ?mem1 (inp + k)) [Suc i..<n] = map (\<lambda>k. mem (inp + k)) [Suc i..<n]"
    using Suc.prems by auto
  have ih: "for_each_sample body out inp n (Suc i) s1 ?mem1 =
    (case map_accum body s1 (map (\<lambda>k. ?mem1 (inp + k)) [Suc i..<n]) of
       (ys, s') \<Rightarrow> (s', store_block ?mem1 (out + Suc i) ys))"
    using Suc.hyps(1)[of "Suc i" s1 ?mem1] Suc.hyps(2) Suc.prems lt by auto
  have step: "for_each_sample body out inp n i s mem =
      for_each_sample body out inp n (Suc i) s1 ?mem1"
    using lt b by (subst for_each_sample.simps) simp
  have lst: "[i..<n] = i # [Suc i..<n]"
    using lt by (simp add: upt_conv_Cons)
  obtain ys s2 where r: "map_accum body s1 (map (\<lambda>k. mem (inp + k)) [Suc i..<n]) = (ys, s2)"
    by (cases "map_accum body s1 (map (\<lambda>k. mem (inp + k)) [Suc i..<n])")
  have "for_each_sample body out inp n i s mem = (s2, store_block ?mem1 (Suc (out + i)) ys)"
    unfolding step ih same r by simp
  also have "\<dots> = (s2, store_block mem (out + i) (y # ys))"
    by (simp only: store_block_Cons)
  finally show ?case
    unfolding lst using b r by simp
qed

lemma for_each_sample_block:
  assumes "out \<le> inp \<or> inp + n \<le> out"
  shows "for_each_sample body out inp n 0 s mem =
    (case map_accum body s (load_block mem inp n) of (ys, s') \<Rightarrow> (s', store_block mem out ys))"
  using for_each_sample_from[of 0 n out inp body s mem] assms
  by (simp add: load_block_def)

lemma load_store_block: "length ys = n \<Longrightarrow> load_block (store_block mem p ys) p n = ys"
  by (auto simp: load_block_def store_block_def intro: nth_equalityI)

lemma store_store_block:
  "length ys = length zs \<Longrightarrow> store_block (store_block mem p ys) p zs = store_block mem p zs"
  by (rule ext) (simp add: store_block_def)

lemma store_block_outside: "a < p \<or> p + length ys \<le> a \<Longrightarrow> store_block mem p ys a = mem a"
  by (auto simp: store_block_def)

lemma store_block_inside: "i < length ys \<Longrightarrow> store_block mem p ys (p + i) = ys ! i"
  by (simp add: store_block_def)

lemma store_load_block: "store_block mem p (load_block mem p n) = mem"
  by (rule ext) (auto simp: store_block_def)

subsection \<open>Each loop of the source, as a function on blocks\<close>

lemma applyBiquadFilter_block:
  "out \<le> inp \<or> inp + n \<le> out \<Longrightarrow>
   applyBiquadFilter X bq mem out inp n =
     (case filter_block X bq (load_block mem inp n) of (ys, bq') \<Rightarrow> (bq', store_block mem out ys))"
  by (simp add: applyBiquadFilter_def filter_block_def for_each_sample_block)

lemma applyBiquadFilter_inplace_block:
  "applyBiquadFilter_inplace X bq mem out n =
     (case filter_block X bq (load_block mem out n) of (ys, bq') \<Rightarrow> (bq', store_block mem out ys))"
  by (simp add: applyBiquadFilter_inplace_def filter_block_def for_each_sample_block)

lemma applyGainRamp_block:
  "applyGainRamp X sm mem out n =
     (case gain_block X sm (load_block mem out n) of (ys, sm') \<Rightarrow> (sm', store_block mem out ys))"
  by (simp add: applyGainRamp_def gain_block_def for_each_sample_block)

lemma filter_block_length: "filter_block X bq xs = (ys, bq') \<Longrightarrow> length ys = length xs"
  unfolding filter_block_def by (rule map_accum_length)

lemma gain_block_length: "gain_block X sm xs = (ys, sm') \<Longrightarrow> length ys = length xs"
  unfolding gain_block_def by (rule map_accum_length)

lemma applyToneControls_block:
  "applyToneControls X a mem out n =
     (case tone_block X a (load_block mem out n) of (ys, a') \<Rightarrow> (a', store_block mem out ys))"
proof (cases "mid_type a = kMidEqBandpass")
  case True
  then show ?thesis
    by (simp add: applyToneControls_def tone_block_def applyBiquadFilter_inplace_block
        split: prod.splits)
next
  case False
  let ?x0 = "load_block mem out n"
  obtain x1 d' where s1: "filter_block X (depth a) ?x0 = (x1, d')"
    by (cases "filter_block X (depth a) ?x0")
  obtain x2 b' where s2: "filter_block X (bass a) x1 = (x2, b')"
    by (cases "filter_block X (bass a) x1")
  obtain x3 m' where s3: "filter_block X (mid a) x2 = (x3, m')"
    by (cases "filter_block X (mid a) x2")
  obtain x4 t' where s4: "filter_block X (treble a) x3 = (x4, t')"
    by (cases "filter_block X (treble a) x3")
  obtain x5 p' where s5: "filter_block X (presence a) x4 = (x5, p')"
    by (cases "filter_block X (presence a) x4")
  have l1: "length x1 = n" using filter_block_length[OF s1] by simp
  have l2: "length x2 = n" using filter_block_length[OF s2] l1 by simp
  have l3: "length x3 = n" using filter_block_length[OF s3] l2 by simp
  have l4: "length x4 = n" using filter_block_length[OF s4] l3 by simp
  have l5: "length x5 = n" using filter_block_length[OF s5] l4 by simp
  show ?thesis
    using False s1 s2 s3 s4 s5 l1 l2 l3 l4 l5
    by (simp add: applyToneControls_def tone_block_def applyBiquadFilter_inplace_block
        load_store_block store_store_block)
qed

lemma tone_block_length: "tone_block X a xs = (ys, a') \<Longrightarrow> length ys = length xs"
  by (auto simp: tone_block_def split: prod.splits if_splits dest!: filter_block_length)

lemma applyModel_block:
  "applyModel X m mem out n =
     (case model_block X m (load_block mem out n) of (ys, m') \<Rightarrow> (m', store_block mem out ys))"
  by (auto simp: applyModel_def model_block_def for_each_sample_block store_load_block
      split: ModelVariantType.splits prod.splits)

lemma model_block_length: "model_block X m xs = (ys, m') \<Longrightarrow> length ys = length xs"
  by (auto simp: model_block_def split: ModelVariantType.splits prod.splits if_splits
      dest!: map_accum_length)

lemma accum_state_Cons: "accum_state f s (x # xs) (Suc i) = accum_state f (snd (f s x)) xs i"
  by (induction i) simp_all

lemma map_accum_Cons:
  "map_accum f s (x # xs) =
     (fst (f s x) # fst (map_accum f (snd (f s x)) xs), snd (map_accum f (snd (f s x)) xs))"
  by (simp add: case_prod_beta)

lemma map_accum_snd: "snd (map_accum f s xs) = accum_state f s xs (length xs)"
proof (induction xs arbitrary: s)
  case Nil
  then show ?case by simp
next
  case (Cons x xs)
  have "snd (map_accum f s (x # xs)) = snd (map_accum f (snd (f s x)) xs)"
    by (simp only: map_accum_Cons snd_conv)
  also have "\<dots> = accum_state f (snd (f s x)) xs (length xs)"
    by (rule Cons)
  also have "\<dots> = accum_state f s (x # xs) (length (x # xs))"
    by (simp only: accum_state_Cons length_Cons)
  finally show ?case .
qed

lemma map_accum_nth:
  "i < length xs \<Longrightarrow> fst (map_accum f s xs) ! i = fst (f (accum_state f s xs i) (xs ! i))"
proof (induction xs arbitrary: s i)
  case Nil
  then show ?case by simp
next
  case (Cons x xs)
  show ?case
  proof (cases i)
    case 0
    then show ?thesis by (simp only: map_accum_Cons fst_conv nth_Cons_0 accum_state.simps)
  next
    case (Suc j)
    with Cons.prems have j: "j < length xs" by simp
    have "fst (map_accum f s (x # xs)) ! Suc j = fst (map_accum f (snd (f s x)) xs) ! j"
      by (simp only: map_accum_Cons fst_conv nth_Cons_Suc)
    also have "\<dots> = fst (f (accum_state f (snd (f s x)) xs j) (xs ! j))"
      by (rule Cons.IH[OF j])
    also have "\<dots> = fst (f (accum_state f s (x # xs) (Suc j)) ((x # xs) ! Suc j))"
      by (simp only: accum_state_Cons nth_Cons_Suc)
    finally show ?thesis using Suc by simp
  qed
qed

lemma net_state_accum:
  "net_state X net xs i =
     accum_state (\<lambda>s x. case forward X s [x] of (y, s') \<Rightarrow> (g x y, s')) net xs i"
  by (induction i) (simp_all add: case_prod_beta)

lemma model_block_single:
  assumes "variant m = CustomModel 1 net"
  shows "model_block X m xs =
    (fst (map_accum (\<lambda>s x. case forward X s [x] of
              (y, s') \<Rightarrow> (if input_skip m then x + y * output_gain m else y * output_gain m, s'))
            net xs),
     m\<lparr>variant := CustomModel 1 (net_state X net xs (length xs))\<rparr>)"
proof -
  let ?g = "\<lambda>x y. if input_skip m then x + y * output_gain m else y * output_gain m"
  let ?body = "\<lambda>s x. case forward X s [x] of (y, s') \<Rightarrow> (?g x y, s')"
  have "snd (map_accum ?body net xs) = net_state X net xs (length xs)"
    by (simp only: map_accum_snd net_state_accum[where g = ?g])
  then show ?thesis
    using assms by (simp add: model_block_def case_prod_beta)
qed

lemma model_block_other:
  "input_size (variant m) \<noteq> 1 \<Longrightarrow> model_block X m xs = (xs, m)"
  by (cases "variant m") (simp_all add: model_block_def)


subsection \<open>The statements of \<^verbatim>\<open>run\<close>, as functions on blocks\<close>

lemma length_filter_block [simp]: "length (fst (filter_block X bq xs)) = length xs"
  by (simp add: filter_block_def length_map_accum)

lemma length_gain_block [simp]: "length (fst (gain_block X sm xs)) = length xs"
  by (simp add: gain_block_def length_map_accum)

lemma length_tone_block [simp]: "length (fst (tone_block X a xs)) = length xs"
  by (simp add: tone_block_def case_prod_beta)

lemma length_model_block [simp]: "length (fst (model_block X m xs)) = length xs"
  by (cases "variant m") (simp_all add: model_block_def case_prod_beta length_map_accum)

lemma applyGainRamp_stored:
  "length xs = n \<Longrightarrow> applyGainRamp X sm (store_block mem out xs) out n =
     (snd (gain_block X sm xs), store_block mem out (fst (gain_block X sm xs)))"
  by (simp add: applyGainRamp_block load_store_block store_store_block case_prod_beta)

lemma applyBiquadFilter_inplace_stored:
  "length xs = n \<Longrightarrow> applyBiquadFilter_inplace X bq (store_block mem out xs) out n =
     (snd (filter_block X bq xs), store_block mem out (fst (filter_block X bq xs)))"
  by (simp add: applyBiquadFilter_inplace_block load_store_block store_store_block case_prod_beta)

lemma applyToneControls_stored:
  "length xs = n \<Longrightarrow> applyToneControls X a (store_block mem out xs) out n =
     (snd (tone_block X a xs), store_block mem out (fst (tone_block X a xs)))"
  by (simp add: applyToneControls_block load_store_block store_store_block case_prod_beta)

lemma applyModel_stored:
  "length xs = n \<Longrightarrow> applyModel X m (store_block mem out xs) out n =
     (snd (model_block X m xs), store_block mem out (fst (model_block X m xs)))"
  by (simp add: applyModel_block load_store_block store_store_block case_prod_beta)



lemma run_pregain_stored:
  "length xs = n \<Longrightarrow> run_pregain X out n (store_block mem out xs, p) =
     (case block_pregain X (xs, p) of (ys, p') \<Rightarrow> (store_block mem out ys, p'))"
  by (simp add: run_pregain_def block_pregain_def applyGainRamp_stored case_prod_beta)

lemma run_equalizer_stored:
  "length xs = n \<Longrightarrow> run_equalizer X pos out n (store_block mem out xs, p) =
     (case block_equalizer X pos (xs, p) of (ys, p') \<Rightarrow> (store_block mem out ys, p'))"
  by (simp add: run_equalizer_def block_equalizer_def applyToneControls_stored case_prod_beta)

lemma run_network_stored:
  "length xs = n \<Longrightarrow> run_network X out n (store_block mem out xs, p) =
     map_option (\<lambda>(ys, p'). (store_block mem out ys, p')) (block_network X (xs, p))"
  by (auto simp: run_network_def block_network_def applyModel_stored case_prod_beta
      split: option.splits)

lemma run_dc_blocker_stored:
  "length xs = n \<Longrightarrow> run_dc_blocker X out n (store_block mem out xs, p) =
     (case block_dc_blocker X (xs, p) of (ys, p') \<Rightarrow> (store_block mem out ys, p'))"
  by (simp add: run_dc_blocker_def block_dc_blocker_def applyBiquadFilter_inplace_stored
      case_prod_beta)

lemma run_master_stored:
  "length xs = n \<Longrightarrow> run_master X out n (store_block mem out xs, p) =
     (case block_master X (xs, p) of (ys, p') \<Rightarrow> (store_block mem out ys, p'))"
  by (simp add: run_master_def block_master_def applyGainRamp_stored case_prod_beta)

lemma length_block_pregain [simp]: "length (fst (block_pregain X (xs, p))) = length xs"
  by (simp add: block_pregain_def case_prod_beta)

lemma length_block_equalizer [simp]: "length (fst (block_equalizer X pos (xs, p))) = length xs"
  by (simp add: block_equalizer_def case_prod_beta)

lemma length_block_network:
  "block_network X (xs, p) = Some (ys, p') \<Longrightarrow> length ys = length xs"
  by (auto simp: block_network_def split: if_splits option.splits prod.splits
      dest: model_block_length)

lemma length_block_dc_blocker [simp]: "length (fst (block_dc_blocker X (xs, p))) = length xs"
  by (simp add: block_dc_blocker_def case_prod_beta)

lemma length_block_master [simp]: "length (fst (block_master X (xs, p))) = length xs"
  by (simp add: block_master_def case_prod_beta)

lemma length_stages_after_lpf:
  assumes "stages_after_lpf X xs p = Some (ys, p')"
  shows "length ys = length xs"
proof -
  obtain x3 p3 where e: "block_equalizer X kEqPre (block_pregain X (xs, p)) = (x3, p3)"
    by (cases "block_equalizer X kEqPre (block_pregain X (xs, p))")
  have l3: "length x3 = length xs"
    using length_block_equalizer[of X kEqPre "fst (block_pregain X (xs, p))"
        "snd (block_pregain X (xs, p))"] e by simp
  from assms e obtain x4 p4 where n: "block_network X (x3, p3) = Some (x4, p4)"
    and r: "block_master X (block_equalizer X kEqPost (block_dc_blocker X (x4, p4))) = (ys, p')"
    by (auto simp: stages_after_lpf_def split: option.splits)
  have l4: "length x4 = length xs"
    using length_block_network[OF n] l3 by simp
  have "length (fst (block_master X (block_equalizer X kEqPost (block_dc_blocker X (x4, p4)))))
      = length x4"
    by (metis length_block_master length_block_equalizer length_block_dc_blocker prod.collapse)
  with r l4 show ?thesis by simp
qed

lemma run_after_lpf:
  "run X inp out n mem p =
     (case applyBiquadFilter X (in_lpf (aida p)) mem out inp n of
        (lpf', mem1) \<Rightarrow>
          map_option (\<lambda>(ys, p'). (store_block mem1 out ys, p'))
            (stages_after_lpf X (load_block mem1 out n) (p\<lparr>aida := (aida p)\<lparr>in_lpf := lpf'\<rparr>\<rparr>)))"
proof -
  obtain lpf' mem1 where l: "applyBiquadFilter X (in_lpf (aida p)) mem out inp n = (lpf', mem1)"
    by (cases "applyBiquadFilter X (in_lpf (aida p)) mem out inp n")
  define p1 where "p1 = p\<lparr>aida := (aida p)\<lparr>in_lpf := lpf'\<rparr>\<rparr>"
  define x1 where "x1 = load_block mem1 out n"
  have l1: "length x1 = n"
    by (simp add: x1_def)
  have s1: "run_lowpass X inp out n (mem, p) = (store_block mem1 out x1, p1)"
    by (simp add: run_lowpass_def l p1_def x1_def store_load_block)
  obtain x2 p2 where b2: "block_pregain X (x1, p1) = (x2, p2)"
    by (cases "block_pregain X (x1, p1)")
  have l2: "length x2 = n"
    using length_block_pregain[of X x1 p1] b2 l1 by simp
  have s2: "run_pregain X out n (store_block mem1 out x1, p1) = (store_block mem1 out x2, p2)"
    by (simp add: run_pregain_stored l1 b2)
  obtain x3 p3 where b3: "block_equalizer X kEqPre (x2, p2) = (x3, p3)"
    by (cases "block_equalizer X kEqPre (x2, p2)")
  have l3: "length x3 = n"
    using length_block_equalizer[of X kEqPre x2 p2] b3 l2 by simp
  have s3: "run_equalizer X kEqPre out n (store_block mem1 out x2, p2) = (store_block mem1 out x3, p3)"
    by (simp add: run_equalizer_stored l2 b3)
  have s4: "run_network X out n (store_block mem1 out x3, p3) =
      map_option (\<lambda>(ys, p'). (store_block mem1 out ys, p')) (block_network X (x3, p3))"
    by (simp add: run_network_stored l3)
  show ?thesis
  proof (cases "block_network X (x3, p3)")
    case None
    then show ?thesis
      by (simp add: run_def stages_after_lpf_def l s1 s2 s3 s4 b2 b3
          x1_def[symmetric] p1_def[symmetric])
  next
    case (Some r)
    obtain x4 p4 where r: "r = (x4, p4)" by (cases r)
    have l4: "length x4 = n"
      using length_block_network[of X x3 p3 x4 p4] Some r l3 by simp
    obtain x5 p5 where b5: "block_dc_blocker X (x4, p4) = (x5, p5)"
      by (cases "block_dc_blocker X (x4, p4)")
    have l5: "length x5 = n"
      using length_block_dc_blocker[of X x4 p4] b5 l4 by simp
    obtain x6 p6 where b6: "block_equalizer X kEqPost (x5, p5) = (x6, p6)"
      by (cases "block_equalizer X kEqPost (x5, p5)")
    have l6: "length x6 = n"
      using length_block_equalizer[of X kEqPost x5 p5] b6 l5 by simp
    obtain x7 p7 where b7: "block_master X (x6, p6) = (x7, p7)"
      by (cases "block_master X (x6, p6)")
    have "run X inp out n mem p = Some (store_block mem1 out x7, p7)"
      by (simp add: run_def s1 s2 s3 s4 Some r run_dc_blocker_stored l4 b5
          run_equalizer_stored l5 b6 run_master_stored l6 b7)
    moreover have "stages_after_lpf X x1 p1 = Some (x7, p7)"
      by (simp add: stages_after_lpf_def b2 b3 Some r b5 b6 b7)
    ultimately show ?thesis
      by (simp add: l x1_def[symmetric] p1_def[symmetric])
  qed
qed

lemma for_each_sample_frame:
  "a < out \<or> out + n \<le> a \<Longrightarrow> snd (for_each_sample body out inp n i s mem) a = mem a"
proof (induction "n - i" arbitrary: i s mem)
  case 0
  then show ?case by (simp add: for_each_sample.simps)
next
  case (Suc d)
  then have lt: "i < n" by simp
  obtain y s1 where b: "body s (mem (inp + i)) = (y, s1)" by (cases "body s (mem (inp + i))")
  have step: "for_each_sample body out inp n i s mem =
      for_each_sample body out inp n (Suc i) s1 (mem(out + i := y))"
    using lt b by (subst for_each_sample.simps) simp
  have "snd (for_each_sample body out inp n (Suc i) s1 (mem(out + i := y))) a
      = (mem(out + i := y)) a"
    using Suc.hyps(1)[of "Suc i" s1 "mem(out + i := y)"] Suc.hyps(2) Suc.prems by simp
  also have "\<dots> = mem a"
    using Suc.prems lt by auto
  finally show ?case
    by (simp only: step)
qed

lemma applyBiquadFilter_frame:
  "a < out \<or> out + n \<le> a \<Longrightarrow> snd (applyBiquadFilter X bq mem out inp n) a = mem a"
  by (simp add: applyBiquadFilter_def for_each_sample_frame)

lemma block_pregain_model [simp]:
  "model (snd (block_pregain X (xs, p))) = model p"
  "heap (snd (block_pregain X (xs, p))) = heap p"
  "net_bypass (aida (snd (block_pregain X (xs, p)))) = net_bypass (aida p)"
  by (simp_all add: block_pregain_def case_prod_beta)

lemma tone_block_flags [simp]:
  "net_bypass (snd (tone_block X a xs)) = net_bypass a"
  by (simp add: tone_block_def case_prod_beta)

lemma block_equalizer_model [simp]:
  "model (snd (block_equalizer X pos (xs, p))) = model p"
  "heap (snd (block_equalizer X pos (xs, p))) = heap p"
  "net_bypass (aida (snd (block_equalizer X pos (xs, p)))) = net_bypass (aida p)"
  by (simp_all add: block_equalizer_def case_prod_beta)

lemma active_model_cong:
  "model q = model p \<Longrightarrow> heap q = heap p \<Longrightarrow> active_model q = active_model p"
  by (simp add: active_model_def split: option.splits)

lemma block_network_returns:
  "model p = None \<or> active_model p \<noteq> None \<Longrightarrow> block_network X (xs, p) \<noteq> None"
  by (auto simp: block_network_def active_model_def split: option.splits prod.splits)

lemma stages_after_lpf_returns:
  assumes "model p = None \<or> active_model p \<noteq> None"
  shows "stages_after_lpf X xs p \<noteq> None"
proof -
  obtain x3 p3 where e: "block_equalizer X kEqPre (block_pregain X (xs, p)) = (x3, p3)"
    by (cases "block_equalizer X kEqPre (block_pregain X (xs, p))")
  have "model p3 = model p" "heap p3 = heap p"
    using e block_equalizer_model(1,2)[of X kEqPre "fst (block_pregain X (xs, p))"
        "snd (block_pregain X (xs, p))"]
      block_pregain_model(1,2)[of X xs p]
    by simp_all
  then have "model p3 = None \<or> active_model p3 \<noteq> None"
    using assms active_model_cong[of p3 p] by simp
  then have "block_network X (x3, p3) \<noteq> None"
    by (rule block_network_returns)
  then show ?thesis
    by (auto simp: stages_after_lpf_def e)
qed


subsection \<open>The states of a block\<close>

lemma run_network_statements:
  "run_network X out n s =
     (if \<not> net_bypass (aida (snd s)) \<and> model (snd s) \<noteq> None
      then map_option run_network_leave (run_network_model X out n (run_network_enter s))
      else Some s)"
  by (cases s)
     (simp add: run_network_def run_network_enter_def run_network_model_def
       run_network_leave_def case_prod_beta split: option.splits)

lemma run_states_last:
  "map_option last (run_states X inp out n mem p) = run X inp out n mem p"
  by (simp add: run_states_def run_def run_network_statements Let_def split: option.splits)

lemma run_lowpass_plugin:
  "snd (run_lowpass X inp out n (mem, p)) =
     p\<lparr>aida := (aida p)\<lparr>in_lpf := fst (applyBiquadFilter X (in_lpf (aida p)) mem out inp n)\<rparr>\<rparr>"
  by (simp add: run_lowpass_def case_prod_beta)

lemma run_pregain_plugin:
  "snd (run_pregain X out n s) =
     (snd s)\<lparr>aida := (aida (snd s))\<lparr>pregain :=
        fst (applyGainRamp X (pregain (aida (snd s))) (fst s) out n)\<rparr>\<rparr>"
  by (simp add: run_pregain_def case_prod_beta)

lemma applyToneControls_net_bypass:
  "net_bypass (fst (applyToneControls X a mem out n)) = net_bypass a"
  by (simp add: applyToneControls_def case_prod_beta Let_def)

lemma run_equalizer_plugin:
  "running (snd (run_equalizer X pos out n s)) = running (snd s)"
  "model (snd (run_equalizer X pos out n s)) = model (snd s)"
  "heap (snd (run_equalizer X pos out n s)) = heap (snd s)"
  "net_bypass (aida (snd (run_equalizer X pos out n s))) = net_bypass (aida (snd s))"
  by (simp_all add: run_equalizer_def case_prod_beta applyToneControls_net_bypass)

lemma run_dc_blocker_running:
  "running (snd (run_dc_blocker X out n s)) = running (snd s)"
  by (simp add: run_dc_blocker_def case_prod_beta)

lemma run_master_running:
  "running (snd (run_master X out n s)) = running (snd s)"
  by (simp add: run_master_def case_prod_beta)

lemma run_before_network:
  fixes X inp out n mem p
  defines "s3 \<equiv> run_equalizer X kEqPre out n (run_pregain X out n (run_lowpass X inp out n (mem, p)))"
  shows "running (snd s3) = running p" "model (snd s3) = model p" "heap (snd s3) = heap p"
    "net_bypass (aida (snd s3)) = net_bypass (aida p)"
    "running (snd (run_pregain X out n (run_lowpass X inp out n (mem, p)))) = running p"
    "running (snd (run_lowpass X inp out n (mem, p))) = running p"
  unfolding s3_def
  by (simp_all add: run_equalizer_plugin run_pregain_plugin run_lowpass_plugin)

lemma run_after_network:
  "running (snd (run_dc_blocker X out n s)) = running (snd s)"
  "running (snd (run_equalizer X kEqPost out n (run_dc_blocker X out n s))) = running (snd s)"
  "running (snd (run_master X out n (run_equalizer X kEqPost out n (run_dc_blocker X out n s))))
     = running (snd s)"
  by (simp_all add: run_equalizer_plugin run_dc_blocker_running run_master_running)

lemma run_states_skipped:
  assumes "net_bypass (aida p) \<or> model p = None"
  shows "\<exists>s1 s2 s3 s7 s8 s9.
      run_states X inp out n mem p = Some [s1, s2, s3, s7, s8, s9]
    \<and> s1 = run_lowpass X inp out n (mem, p) \<and> s2 = run_pregain X out n s1
    \<and> s3 = run_equalizer X kEqPre out n s2 \<and> s7 = run_dc_blocker X out n s3
    \<and> s8 = run_equalizer X kEqPost out n s7 \<and> s9 = run_master X out n s8
    \<and> (\<forall>s\<in>set [s1, s2, s3, s7, s8, s9]. running (snd s) = running p)"
proof -
  define s1 where "s1 = run_lowpass X inp out n (mem, p)"
  define s2 where "s2 = run_pregain X out n s1"
  define s3 where "s3 = run_equalizer X kEqPre out n s2"
  define s7 where "s7 = run_dc_blocker X out n s3"
  define s8 where "s8 = run_equalizer X kEqPost out n s7"
  define s9 where "s9 = run_master X out n s8"
  have pre: "running (snd s3) = running p" "model (snd s3) = model p"
    "net_bypass (aida (snd s3)) = net_bypass (aida p)"
    "running (snd s2) = running p" "running (snd s1) = running p"
    using run_before_network[where X = X and out = out and n = n and inp = inp and mem = mem
        and p = p]
    unfolding s1_def s2_def s3_def by simp_all
  have post: "running (snd s7) = running p" "running (snd s8) = running p"
    "running (snd s9) = running p"
    unfolding s7_def s8_def s9_def using run_after_network[of X out n s3] pre by simp_all
  from assms pre have c: "\<not> (\<not> net_bypass (aida (snd s3)) \<and> model (snd s3) \<noteq> None)"
    by simp
  have "run_states X inp out n mem p = Some [s1, s2, s3, s7, s8, s9]"
    unfolding run_states_def Let_def s1_def[symmetric] s2_def[symmetric] s3_def[symmetric]
    using c by (auto simp: s7_def s8_def s9_def)
  with pre post show ?thesis
    by (simp add: s1_def s2_def s3_def s7_def s8_def s9_def)
qed

lemma run_states_bracket:
  assumes "\<not> net_bypass (aida p)" "model p = Some a" "heap p a = Some m"
  shows "\<exists>s1 s2 mem3 p3 s7 s8 s9.
      run_states X inp out n mem p =
        Some [s1, s2, (mem3, p3),
              (mem3, p3\<lparr>running := True\<rparr>),
              (snd (applyModel X m mem3 out n),
               p3\<lparr>running := True, heap := (heap p)(a \<mapsto> fst (applyModel X m mem3 out n))\<rparr>),
              (snd (applyModel X m mem3 out n),
               p3\<lparr>running := False, heap := (heap p)(a \<mapsto> fst (applyModel X m mem3 out n))\<rparr>),
              s7, s8, s9]
    \<and> s1 = run_lowpass X inp out n (mem, p) \<and> s2 = run_pregain X out n s1
    \<and> (mem3, p3) = run_equalizer X kEqPre out n s2
    \<and> s7 = run_dc_blocker X out n
               (snd (applyModel X m mem3 out n),
                p3\<lparr>running := False, heap := (heap p)(a \<mapsto> fst (applyModel X m mem3 out n))\<rparr>)
    \<and> s8 = run_equalizer X kEqPost out n s7 \<and> s9 = run_master X out n s8
    \<and> running (snd s1) = running p \<and> running (snd s2) = running p \<and> running p3 = running p
    \<and> heap p3 = heap p \<and> model p3 = model p
    \<and> \<not> running (snd s7) \<and> \<not> running (snd s8) \<and> \<not> running (snd s9)"
proof -
  define s1 where "s1 = run_lowpass X inp out n (mem, p)"
  define s2 where "s2 = run_pregain X out n s1"
  define s3 where "s3 = run_equalizer X kEqPre out n s2"
  obtain mem3 p3 where s3: "s3 = (mem3, p3)" by (cases s3)
  have pre: "running p3 = running p" "model p3 = model p" "heap p3 = heap p"
    "net_bypass (aida p3) = net_bypass (aida p)"
    "running (snd s2) = running p" "running (snd s1) = running p"
    using run_before_network[where X = X and out = out and n = n and inp = inp and mem = mem
        and p = p] s3
    unfolding s1_def s2_def s3_def by simp_all
  let ?m' = "fst (applyModel X m mem3 out n)"
  let ?mem' = "snd (applyModel X m mem3 out n)"
  let ?s4 = "(mem3, p3\<lparr>running := True\<rparr>)"
  let ?s5 = "(?mem', p3\<lparr>running := True, heap := (heap p)(a \<mapsto> ?m')\<rparr>)"
  let ?s6 = "(?mem', p3\<lparr>running := False, heap := (heap p)(a \<mapsto> ?m')\<rparr>)"
  have e: "run_network_enter s3 = ?s4"
    by (simp add: run_network_enter_def s3)
  have mo: "run_network_model X out n ?s4 = Some ?s5"
    using assms pre by (simp add: run_network_model_def case_prod_beta)
  have l: "run_network_leave ?s5 = ?s6"
    by (simp add: run_network_leave_def)
  define s7 where "s7 = run_dc_blocker X out n ?s6"
  define s8 where "s8 = run_equalizer X kEqPost out n s7"
  define s9 where "s9 = run_master X out n s8"
  have post: "\<not> running (snd s7)" "\<not> running (snd s8)" "\<not> running (snd s9)"
    unfolding s7_def s8_def s9_def using run_after_network[of X out n ?s6] by simp_all
  have "run_states X inp out n mem p = Some [s1, s2, (mem3, p3), ?s4, ?s5, ?s6, s7, s8, s9]"
    using assms pre e mo l s3
    unfolding run_states_def Let_def s1_def[symmetric] s2_def[symmetric] s3_def[symmetric]
    by (simp add: s7_def s8_def s9_def)
  moreover have "s1 = run_lowpass X inp out n (mem, p)" "s2 = run_pregain X out n s1"
    "(mem3, p3) = run_equalizer X kEqPre out n s2" "s7 = run_dc_blocker X out n ?s6"
    "s8 = run_equalizer X kEqPost out n s7" "s9 = run_master X out n s8"
    using s3 by (simp_all add: s1_def s2_def s3_def s7_def s8_def s9_def)
  ultimately show ?thesis
    using pre post by blast
qed

subsection \<open>The waiting loop\<close>

lemma wait_for_cycle_stop:
  assumes "\<not> (b \<and> obs k)"
  shows "wait_for_cycle b obs k = Some k"
  using assms by (subst wait_for_cycle.simps) auto

lemma wait_for_cycle_step:
  assumes "b \<and> obs k"
  shows "wait_for_cycle b obs k = wait_for_cycle b obs (Suc k)"
  using assms by (subst wait_for_cycle.simps) simp

lemma wait_for_cycle_null [simp]: "wait_for_cycle False obs k = Some k"
  by (simp add: wait_for_cycle_stop)

lemma wait_for_cycle_first:
  assumes "\<not> obs n" "k \<le> n" "\<forall>j. k \<le> j \<and> j < n \<longrightarrow> obs j"
  shows "wait_for_cycle b obs k = Some (if b then n else k)"
  using assms
proof (induction "n - k" arbitrary: k)
  case 0
  then show ?case by (simp add: wait_for_cycle_stop)
next
  case (Suc d)
  show ?case
  proof (cases b)
    case False
    then show ?thesis by simp
  next
    case True
    from Suc have lt: "k < n" by simp
    with Suc.prems have "obs k" by simp
    then have "wait_for_cycle b obs k = wait_for_cycle b obs (Suc k)"
      using True by (intro wait_for_cycle_step) simp
    also have "\<dots> = Some (if b then n else Suc k)"
      using Suc.hyps(1)[of "Suc k"] Suc.hyps(2) Suc.prems lt by simp
    finally show ?thesis using True by simp
  qed
qed

lemma wait_for_cycle_Some:
  assumes "wait_for_cycle b obs k = Some n"
  shows "k \<le> n \<and> \<not> (b \<and> obs n) \<and> (\<forall>j. k \<le> j \<and> j < n \<longrightarrow> b \<and> obs j)"
  using assms
proof (induction b obs k n rule: wait_for_cycle.raw_induct[rotated 1, consumes 1])
  case (1 wfc b obs k n)
  show ?case
  proof (cases "b \<and> obs k")
    case True
    with 1(2) have "wfc b obs (Suc k) = Some n" by simp
    from 1(1)[OF this] True show ?thesis
      by (auto simp: less_Suc_eq_le dest: le_neq_implies_less)
  next
    case False
    with 1(2) show ?thesis by auto
  qed
qed

lemma wait_for_cycle_returns:
  assumes "\<not> b \<or> \<not> obs n"
  shows "\<exists>k. wait_for_cycle b obs 0 = Some k"
proof (cases b)
  case False
  then show ?thesis by simp
next
  case True
  with assms have ex: "\<not> obs n" by simp
  define n0 where "n0 = (LEAST i. \<not> obs i)"
  have "\<not> obs n0"
    unfolding n0_def using ex by (rule LeastI)
  moreover have "\<forall>j. 0 \<le> j \<and> j < n0 \<longrightarrow> obs j"
    unfolding n0_def using not_less_Least by blast
  ultimately have "wait_for_cycle b obs 0 = Some (if b then n0 else 0)"
    by (intro wait_for_cycle_first) simp_all
  then show ?thesis by blast
qed

subsection \<open>The ways \<^verbatim>\<open>setState\<close> ends\<close>

lemma setState_wrong_key:
  "key \<noteq> ''json'' \<Longrightarrow> setState X a obs key val p = Some (Returns (WrongKey, p))"
  by (simp add: setState_def)

lemma setState_json_failed:
  "load_json X val = Throw e \<Longrightarrow> setState X a obs ''json'' val p = Some (Returns (JsonFailed e, p))"
  by (simp add: setState_def)

lemma plugin_heap_restore:
  "heap p a = None \<Longrightarrow> p\<lparr>heap := (heap p)(a := None)\<rparr> = p"
  by (cases p) (auto simp: fun_eq_iff)

lemma setState_model_failed:
  "load_json X val = Ok (s, g, j) \<Longrightarrow> build_model X j fresh_model = Throw e \<Longrightarrow> heap p a = None
   \<Longrightarrow> setState X a obs ''json'' val p = Some (Returns (ModelFailed e, p))"
  by (simp add: setState_def Let_def plugin_heap_restore)

lemma setState_loaded:
  "load_json X val = Ok (s, g, j) \<Longrightarrow> build_model X j fresh_model = Ok built
   \<Longrightarrow> wait_for_cycle (model p \<noteq> None) obs 0 = Some k
   \<Longrightarrow> setState X a obs ''json'' val p =
       Some (Returns (Loaded k,
         p\<lparr>heap := (heap p)(a \<mapsto> fst (applyModel X
              (built\<lparr>input_skip := (s \<noteq> 0), output_gain := g\<rparr>) (\<lambda>i. 0) 0 2048)),
            model := Some a\<rparr>))"
  by (simp add: setState_def Let_def)

lemma setState_Loaded_cases:
  assumes "setState X a obs key val p = Some (Returns (Loaded k, p'))"
  obtains s g j built where "key = ''json''" "load_json X val = Ok (s, g, j)"
    "build_model X j fresh_model = Ok built"
    "wait_for_cycle (model p \<noteq> None) obs 0 = Some k"
    "p' = p\<lparr>heap := (heap p)(a \<mapsto> fst (applyModel X
              (built\<lparr>input_skip := (s \<noteq> 0), output_gain := g\<rparr>) (\<lambda>i. 0) 0 2048)),
            model := Some a\<rparr>"
  using assms
  by (auto simp: setState_def Let_def split: if_splits res.splits option.splits prod.splits)

lemma setState_failed_cases:
  assumes "setState X a obs key val p = Some (Returns (st, p'))" "\<forall>k. st \<noteq> Loaded k"
  shows "(key \<noteq> ''json'' \<and> st = WrongKey \<and> p' = p)
       \<or> (\<exists>e. key = ''json'' \<and> load_json X val = Throw e \<and> st = JsonFailed e \<and> p' = p)
       \<or> (\<exists>e s g j. key = ''json'' \<and> load_json X val = Ok (s, g, j)
             \<and> build_model X j fresh_model = Throw e \<and> st = ModelFailed e
             \<and> p' = p\<lparr>heap := (heap p)(a := None)\<rparr>)"
  using assms
  by (auto simp: setState_def Let_def split: if_splits res.splits option.splits prod.splits)

lemma active_model_published:
  "active_model (p\<lparr>heap := (heap p)(a \<mapsto> m), model := Some a\<rparr>) = Some m"
  by (simp add: active_model_def)

lemma applyModel_keeps:
  "input_skip (fst (applyModel X m mem out n)) = input_skip m"
  "output_gain (fst (applyModel X m mem out n)) = output_gain m"
  by (cases "variant m"; simp add: applyModel_def case_prod_beta)+

lemma load_block_zero: "load_block (\<lambda>i. 0) p n = replicate n 0"
  by (simp add: load_block_def map_replicate_const)

lemma applyModel_primed:
  "variant m = CustomModel 1 net \<Longrightarrow>
   variant (fst (applyModel X m (\<lambda>i. 0) 0 2048)) =
     CustomModel 1 (net_state X net (replicate 2048 0) 2048)"
  by (simp add: applyModel_block model_block_single load_block_zero)

subsection \<open>The states of a load\<close>

lemma setState_states_loaded:
  "load_json X val = Ok (s, g, j) \<Longrightarrow> build_model X j fresh_model = Ok built
   \<Longrightarrow> setState_states X a ''json'' val p =
       Returns [p\<lparr>heap := (heap p)(a \<mapsto> fresh_model)\<rparr>,
                p\<lparr>heap := (heap p)(a \<mapsto> built)\<rparr>,
                p\<lparr>heap := (heap p)(a \<mapsto> built\<lparr>input_skip := (s \<noteq> 0)\<rparr>)\<rparr>,
                p\<lparr>heap := (heap p)(a \<mapsto> built\<lparr>input_skip := (s \<noteq> 0), output_gain := g\<rparr>)\<rparr>,
                p\<lparr>heap := (heap p)(a \<mapsto> fst (applyModel X
                     (built\<lparr>input_skip := (s \<noteq> 0), output_gain := g\<rparr>) (\<lambda>i. 0) 0 2048))\<rparr>,
                p\<lparr>heap := (heap p)(a \<mapsto> fst (applyModel X
                     (built\<lparr>input_skip := (s \<noteq> 0), output_gain := g\<rparr>) (\<lambda>i. 0) 0 2048)),
                  model := Some a\<rparr>]"
  by (simp add: setState_states_def Let_def)

lemma active_model_unpublished:
  "model p \<noteq> Some a \<Longrightarrow> active_model (p\<lparr>heap := (heap p)(a \<mapsto> m)\<rparr>) = active_model p"
  by (auto simp: active_model_def split: option.splits)

lemma setState_states_ends:
  assumes "setState X a obs key val p = Some (Returns (st, p'))"
  shows "\<exists>qs. setState_states X a key val p = Returns qs \<and> last (p # qs) = p'"
proof (cases "\<exists>k. st = Loaded k")
  case True
  then obtain k where "st = Loaded k" ..
  with assms have "setState X a obs key val p = Some (Returns (Loaded k, p'))"
    by simp
  then obtain s g j built where "key = ''json''" "load_json X val = Ok (s, g, j)"
    "build_model X j fresh_model = Ok built"
    "wait_for_cycle (model p \<noteq> None) obs 0 = Some k"
    "p' = p\<lparr>heap := (heap p)(a \<mapsto> fst (applyModel X
              (built\<lparr>input_skip := (s \<noteq> 0), output_gain := g\<rparr>) (\<lambda>i. 0) 0 2048)),
            model := Some a\<rparr>"
    by (rule setState_Loaded_cases)
  then show ?thesis
    by (simp add: setState_states_loaded)
next
  case False
  then have "\<forall>k. st \<noteq> Loaded k" by simp
  from setState_failed_cases[OF assms this]
  show ?thesis
    by (elim disjE exE conjE) (simp_all add: setState_states_def Let_def)
qed

lemma setState_states_order:
  assumes "model p \<noteq> Some a"
  shows "\<forall>q\<in>set [p\<lparr>heap := (heap p)(a \<mapsto> m1)\<rparr>, p\<lparr>heap := (heap p)(a \<mapsto> m2)\<rparr>,
                  p\<lparr>heap := (heap p)(a \<mapsto> m3)\<rparr>, p\<lparr>heap := (heap p)(a \<mapsto> m4)\<rparr>,
                  p\<lparr>heap := (heap p)(a \<mapsto> primed)\<rparr>].
           model q = model p \<and> active_model q = active_model p"
  using assms by (simp add: active_model_unpublished)

subsection \<open>Exceptions of the two \<^verbatim>\<open>try\<close> blocks\<close>

lemma res_bind_Throw_iff:
  "res_bind r f = Throw e \<longleftrightarrow> r = Throw e \<or> (\<exists>x. r = Ok x \<and> f x = Throw e)"
  by (cases r) auto

lemma res_bind_Ok_iff:
  "res_bind r f = Ok y \<longleftrightarrow> (\<exists>x. r = Ok x \<and> f x = Ok y)"
  by (cases r) auto

lemma check_in_shape_Throw:
  "check_in_shape X j0 = Throw e \<longleftrightarrow>
     json_index X j0 ''in_shape'' = Throw e
   \<or> (\<exists>shape j1. json_index X j0 ''in_shape'' = Ok (shape, j1) \<and>
        (json_back X shape = Throw e
         \<or> (\<exists>d. json_back X shape = Ok d \<and>
              (json_get_int X d = Throw e
               \<or> (\<exists>n. json_get_int X d = Ok n \<and> n > 1 \<and>
                    e = invalid_argument ''Values for input_size > 1 are not supported'')))))"
  by (auto simp: check_in_shape_def res_bind_Throw_iff)

lemma read_in_skip_Throw:
  "read_in_skip X j1 = Throw e \<longleftrightarrow>
     json_index X j1 ''in_skip'' = Throw e
   \<or> (\<exists>tested j2. json_index X j1 ''in_skip'' = Ok (tested, j2) \<and> json_is_number X tested \<and>
        (json_index X j2 ''in_skip'' = Throw e
         \<or> (\<exists>skip j3. json_index X j2 ''in_skip'' = Ok (skip, j3) \<and>
              (json_get_int X skip = Throw e
               \<or> (\<exists>k. json_get_int X skip = Ok k \<and> k > 1 \<and>
                    e = invalid_argument ''Values for in_skip > 1 are not supported'')))))"
  by (auto simp: read_in_skip_def res_bind_Throw_iff)

lemma read_out_gain_Throw:
  "read_out_gain X j2 = Throw e \<longleftrightarrow>
     json_index X j2 ''out_gain'' = Throw e
   \<or> (\<exists>tested j3. json_index X j2 ''out_gain'' = Ok (tested, j3) \<and> json_is_number X tested \<and>
        (json_index X j3 ''out_gain'' = Throw e
         \<or> (\<exists>gain j4. json_index X j3 ''out_gain'' = Ok (gain, j4) \<and>
              json_get_float X gain = Throw e)))"
  by (auto simp: read_out_gain_def res_bind_Throw_iff)

lemma load_json_Throw:
  "load_json X path = Throw e \<longleftrightarrow>
     json_read X path = Throw e
   \<or> (\<exists>j0. json_read X path = Ok j0 \<and>
        (check_in_shape X j0 = Throw e
         \<or> (\<exists>j1. check_in_shape X j0 = Ok j1 \<and>
              (read_in_skip X j1 = Throw e
               \<or> (\<exists>s j2. read_in_skip X j1 = Ok (s, j2) \<and> read_out_gain X j2 = Throw e)))))"
  by (auto simp: load_json_def res_bind_Throw_iff)

lemma build_model_Throw:
  "build_model X j fresh_model = Throw e \<longleftrightarrow>
     custom_model_creator X j NullModel = Throw e
   \<or> (\<exists>v. custom_model_creator X j NullModel = Ok (False, v) \<and>
        e = runtime_error ''Unable to identify a known model architecture!'')
   \<or> (\<exists>k net. custom_model_creator X j NullModel = Ok (True, CustomModel k net) \<and>
        parseJson X j net = Throw e)"
proof (cases "custom_model_creator X j NullModel")
  case (Ok fv)
  obtain found v where fv: "fv = (found, v)" by (cases fv)
  show ?thesis
  proof (cases found)
    case False
    with Ok fv show ?thesis
      by (auto simp: build_model_def fresh_model_def)
  next
    case True
    show ?thesis
    proof (cases v)
      case NullModel
      with Ok fv True show ?thesis
        by (simp add: build_model_def fresh_model_def)
    next
      case (CustomModel k net)
      with Ok fv True show ?thesis
        by (simp add: build_model_def fresh_model_def res_bind_Throw_iff)
    qed
  qed
next
  case (Throw e')
  then show ?thesis
    by (simp add: build_model_def fresh_model_def)
next
  case UB
  then show ?thesis
    by (simp add: build_model_def fresh_model_def)
qed

lemma load_json_Throw_cause: "load_json X path = Throw e \<Longrightarrow> abort_cause X path e"
  unfolding load_json_Throw check_in_shape_Throw read_in_skip_Throw read_out_gain_Throw
  by (elim disjE exE conjE) (auto intro: abort_cause.intros)

lemma build_model_Throw_cause:
  "load_json X path = Ok (s, g, j) \<Longrightarrow> build_model X j fresh_model = Throw e
   \<Longrightarrow> abort_cause X path e"
  unfolding build_model_Throw
  by (elim disjE exE conjE) (auto intro: abort_cause.intros)

lemma abort_cause_Throw:
  assumes "abort_cause X path e"
  shows "load_json X path = Throw e
       \<or> (\<exists>s g j. load_json X path = Ok (s, g, j) \<and> build_model X j fresh_model = Throw e)"
  using assms
proof cases
  case (document_unreadable)
  then show ?thesis by (simp add: load_json_Throw)
next
  case (in_shape_lookup_throws j0)
  then show ?thesis by (simp add: load_json_Throw check_in_shape_Throw)
next
  case (in_shape_back_throws j0 shape j1)
  then show ?thesis by (simp add: load_json_Throw check_in_shape_Throw)
next
  case (in_shape_not_a_number j0 shape j1 d)
  then show ?thesis by (simp add: load_json_Throw check_in_shape_Throw)
next
  case (input_size_above_one j0 shape j1 d n)
  then show ?thesis by (simp add: load_json_Throw check_in_shape_Throw)
next
  case (in_skip_lookup_throws j0 j1)
  then show ?thesis by (simp add: load_json_Throw read_in_skip_Throw)
next
  case (in_skip_second_lookup_throws j0 j1 tested j2)
  then show ?thesis by (simp add: load_json_Throw read_in_skip_Throw)
next
  case (in_skip_get_throws j0 j1 tested j2 skip j3)
  then show ?thesis by (simp add: load_json_Throw read_in_skip_Throw)
next
  case (in_skip_above_one j0 j1 tested j2 skip j3 k)
  then show ?thesis by (simp add: load_json_Throw read_in_skip_Throw)
next
  case (out_gain_lookup_throws j0 j1 in_skip j2)
  then show ?thesis by (simp add: load_json_Throw read_out_gain_Throw)
next
  case (out_gain_second_lookup_throws j0 j1 in_skip j2 tested j3)
  then show ?thesis by (simp add: load_json_Throw read_out_gain_Throw)
next
  case (out_gain_get_throws j0 j1 in_skip j2 tested j3 gain j4)
  then show ?thesis by (simp add: load_json_Throw read_out_gain_Throw)
next
  case (creator_throws in_skip out_gain j)
  then show ?thesis by (simp add: build_model_Throw)
next
  case (no_known_architecture in_skip out_gain j v)
  then show ?thesis by (simp add: build_model_Throw)
next
  case (parseJson_throws in_skip out_gain j k net)
  then show ?thesis by (simp add: build_model_Throw)
qed

lemma read_in_skip_default:
  "json_index X j1 ''in_skip'' = Ok (skip, j2) \<Longrightarrow> \<not> json_is_number X skip
   \<Longrightarrow> read_in_skip X j1 = Ok (0, j2)"
  by (simp add: read_in_skip_def)

lemma load_json_Ok:
  "load_json X path = Ok (s, g, j3) \<longleftrightarrow>
     (\<exists>j0 j1 j2. json_read X path = Ok j0 \<and> check_in_shape X j0 = Ok j1
        \<and> read_in_skip X j1 = Ok (s, j2) \<and> read_out_gain X j2 = Ok (g, j3))"
  by (auto simp: load_json_def res_bind_Ok_iff)

lemma read_out_gain_Ok:
  "read_out_gain X j2 = Ok (g, j) \<longleftrightarrow>
     (\<exists>tested j3. json_index X j2 ''out_gain'' = Ok (tested, j3) \<and>
        (if json_is_number X tested
         then \<exists>gain db. json_index X j3 ''out_gain'' = Ok (gain, j) \<and>
                json_get_float X gain = Ok db \<and> g = DB_CO db
         else g = 1 \<and> j = j3))"
proof (cases "json_index X j2 ''out_gain''")
  case (Ok r)
  obtain tested j3 where r: "r = (tested, j3)"
    by (cases r)
  show ?thesis
  proof (cases "json_is_number X tested")
    case True
    with Ok r show ?thesis
      by (auto simp: read_out_gain_def res_bind_Ok_iff)
  next
    case False
    with Ok r show ?thesis
      by (auto simp: read_out_gain_def)
  qed
qed (simp_all add: read_out_gain_def)

subsection \<open>Evaluating the toy implementation\<close>

lemma load_block_0 [simp]: "load_block mem p 0 = []"
  by (simp add: load_block_def)

lemma load_block_Suc: "load_block mem p (Suc n) = mem p # load_block mem (Suc p) n"
proof -
  have "[0..<Suc n] = 0 # map Suc [0..<n]"
    by (simp add: upt_conv_Cons map_Suc_upt del: upt_Suc)
  then show ?thesis
    by (simp add: load_block_def comp_def del: upt_Suc)
qed

lemma toy_fields:
  "Biquad_process toy = toy_process"
  "Biquad_setFc toy = (\<lambda>f b. b\<lparr>tb_fc := f\<rparr>)"
  "Biquad_setQ toy = (\<lambda>q b. b\<lparr>tb_q := q\<rparr>)"
  "Biquad_setPeakGain toy = (\<lambda>g b. b\<lparr>tb_gain := g\<rparr>)"
  "Biquad_setBiquad toy = (\<lambda>t f q g b. b\<lparr>tb_type := t, tb_fc := f, tb_q := q, tb_gain := g\<rparr>)"
  "ExpSmoother_next toy = toy_next"
  "ExpSmoother_setTarget toy = (\<lambda>v s. (fst s, v))"
  "ExpSmoother_setSampleRate toy = (\<lambda>r s. s)"
  "forward toy = toy_forward"
  "reset toy = (\<lambda>net. (fst net, 0))"
  "parseJson toy = toy_parseJson"
  "custom_model_creator toy = toy_creator"
  "json_read toy = toy_read"
  "json_index toy = toy_index"
  "json_back toy = toy_back"
  "json_is_number toy = toy_is_number"
  "json_get_int toy = toy_get_int"
  "json_get_float toy = toy_get_float"
  by (simp_all add: toy_def)

lemmas toy_simps = toy_fields toy_process_def toy_next_def toy_forward_def toy_aida_def
  toy_filter_def filter_block_def gain_block_def

lemmas toy_json_simps = toy_fields toy_read_def check_in_shape_def read_in_skip_def
  read_out_gain_def load_json_def

lemma load_wide:
  "load_json toy ''wide.json'' =
     Throw (invalid_argument ''Values for input_size > 1 are not supported'')"
  by (simp add: toy_json_simps)

lemma load_noweights:
  "load_json toy ''noweights.json'' =
     Ok (0, 1, JObject [(''in_shape'', JArray [JNumber 1]), (''in_skip'', JNull),
                        (''out_gain'', JNull), (''type'', JString ''one_tap'')])"
  by (simp add: toy_json_simps)

lemma load_quiet:
  "load_json toy ''quiet.json'' =
     Ok (0, 0, JObject [(''in_shape'', JArray [JNumber 1]), (''in_skip'', JNull),
                        (''out_gain'', JNumber (- 100)), (''type'', JString ''one_tap''),
                        (''weights'', JNumber 2)])"
  by (simp add: toy_json_simps DB_CO_def)

lemma load_skip:
  "load_json toy ''skip.json'' =
     Ok (1, 1, JObject [(''in_shape'', JArray [JNumber 1]), (''in_skip'', JNumber 1),
                        (''out_gain'', JNumber 0), (''type'', JString ''one_tap''),
                        (''weights'', JNumber 2)])"
  by (simp add: toy_json_simps DB_CO_def)

lemma load_clean:
  "load_json toy ''clean.json'' =
     Ok (0, 1, JObject [(''in_shape'', JArray [JNumber 1]), (''in_skip'', JNull),
                        (''out_gain'', JNull), (''type'', JString ''one_tap''),
                        (''weights'', JNumber 2)])"
  by (simp add: toy_json_simps)

lemma build_one_tap:
  "map_of kvs ''type'' = Some (JString ''one_tap'') \<Longrightarrow> map_of kvs ''weights'' = Some (JNumber w)
   \<Longrightarrow> build_model toy (JObject kvs) fresh_model =
       Ok \<lparr>variant = CustomModel 1 (of_int w, 0), input_skip = False, output_gain = 0\<rparr>"
  by (simp add: build_model_def fresh_model_def toy_fields toy_creator_def toy_parseJson_def)

lemma build_noweights:
  "build_model toy (JObject [(''in_shape'', JArray [JNumber 1]), (''in_skip'', JNull),
                        (''out_gain'', JNull), (''type'', JString ''one_tap'')]) fresh_model
     = Throw out_of_range"
  by (simp add: build_model_def fresh_model_def toy_fields toy_creator_def toy_parseJson_def)

lemma setState_quiet:
  "setState toy 1 (\<lambda>k. False) ''json'' ''quiet.json'' toy_plugin =
     Some (Returns (Loaded 0,
       toy_plugin\<lparr>heap := (heap toy_plugin)(1 \<mapsto> fst (applyModel toy
            (\<lparr>variant = CustomModel 1 (2, 0), input_skip = False, output_gain = 0\<rparr>
               \<lparr>input_skip := ((0::int) \<noteq> 0), output_gain := 0\<rparr>) (\<lambda>i. 0) 0 2048)),
          model := Some 1\<rparr>))"
proof -
  have b: "build_model toy (JObject [(''in_shape'', JArray [JNumber 1]), (''in_skip'', JNull),
                        (''out_gain'', JNumber (- 100)), (''type'', JString ''one_tap''),
                        (''weights'', JNumber 2)]) fresh_model
      = Ok \<lparr>variant = CustomModel 1 (2, 0), input_skip = False, output_gain = 0\<rparr>"
    by (simp add: build_one_tap)
  have w: "wait_for_cycle (model toy_plugin \<noteq> None) (\<lambda>k. False) 0 = Some 0"
    by (simp add: wait_for_cycle_stop)
  show ?thesis
    by (rule setState_loaded[OF load_quiet b w])
qed

lemma toy_cold_fields:
  "forward toy_cold = toy_forward"
  "reset toy_cold = (\<lambda>net. (fst net, 1))"
  "parseJson toy_cold = toy_parseJson"
  "custom_model_creator toy_cold = toy_creator"
  "json_read toy_cold = toy_read"
  "json_index toy_cold = toy_index"
  "json_back toy_cold = toy_back"
  "json_is_number toy_cold = toy_is_number"
  "json_get_int toy_cold = toy_get_int"
  "json_get_float toy_cold = toy_get_float"
  by (simp_all add: toy_cold_def toy_fields)

lemma load_skip_cold:
  "load_json toy_cold ''skip.json'' =
     Ok (1, 1, JObject [(''in_shape'', JArray [JNumber 1]), (''in_skip'', JNumber 1),
                        (''out_gain'', JNumber 0), (''type'', JString ''one_tap''),
                        (''weights'', JNumber 2)])"
  by (simp add: toy_cold_fields toy_read_def check_in_shape_def read_in_skip_def
      read_out_gain_def load_json_def DB_CO_def)

lemma build_one_tap_cold:
  "map_of kvs ''type'' = Some (JString ''one_tap'') \<Longrightarrow> map_of kvs ''weights'' = Some (JNumber w)
   \<Longrightarrow> build_model toy_cold (JObject kvs) fresh_model =
       Ok \<lparr>variant = CustomModel 1 (of_int w, 1), input_skip = False, output_gain = 0\<rparr>"
  by (simp add: build_model_def fresh_model_def toy_cold_fields toy_creator_def toy_parseJson_def)

lemma toy_cold_net_state_zeros:
  "i < n \<Longrightarrow> net_state toy_cold (w, z) (replicate n 0) (Suc i) = (w, 0)"
  by (induction i) (simp_all add: toy_cold_fields toy_forward_def)

section \<open>The claims\<close>

text \<open>
  C1. A load that fails leaves the plugin as it was. \<open>abort_cause\<close> lists every way for an
  exception to be thrown in one of the two \<^verbatim>\<open>try\<close> blocks of \<^verbatim>\<open>setState\<close>: among them the
  document that cannot be read or parsed, the input width above one, the numeric
  \<^verbatim>\<open>in_skip\<close> above one and the unknown architecture. For each of them, when the address
  \<^verbatim>\<open>make_unique\<close> returned was free, the call returns through its handler with the plugin
  unchanged. And whenever \<^verbatim>\<open>setState\<close> returns without having loaded, the \<^verbatim>\<open>model\<close> pointer,
  the instance it designates and the rest of the plugin are as before, so that \<^verbatim>\<open>run\<close> gives
  the same samples and the same state on every block.
\<close>

theorem setState_failed_load_keeps_model:
  assumes "heap p a = None"
  shows "(abort_cause X val e \<longrightarrow>
            setState X a obs ''json'' val p = Some (Returns (JsonFailed e, p))
          \<or> setState X a obs ''json'' val p = Some (Returns (ModelFailed e, p)))
       \<and> (setState X a obs key val p = Some (Returns (st, p')) \<and> (\<forall>k. st \<noteq> Loaded k) \<longrightarrow>
            p' = p \<and> model p' = model p \<and> active_model p' = active_model p
          \<and> run X inp out n mem p' = run X inp out n mem p)"
proof (intro conjI impI)
  assume "abort_cause X val e"
  from abort_cause_Throw[OF this]
  show "setState X a obs ''json'' val p = Some (Returns (JsonFailed e, p))
          \<or> setState X a obs ''json'' val p = Some (Returns (ModelFailed e, p))"
    using assms by (auto simp: setState_json_failed setState_model_failed)
next
  assume r: "setState X a obs key val p = Some (Returns (st, p')) \<and> (\<forall>k. st \<noteq> Loaded k)"
  then have same: "p' = p"
    using setState_failed_cases[of X a obs key val p st p'] plugin_heap_restore[OF assms]
    by auto
  then show "p' = p" "model p' = model p" "active_model p' = active_model p"
    "run X inp out n mem p' = run X inp out n mem p"
    by simp_all
qed

theorem setState_failed_load_keeps_model_witness:
  "heap toy_plugin 1 = None
   \<and> abort_cause toy ''missing.json'' parse_error
   \<and> setState toy 1 (\<lambda>k. True) ''json'' ''missing.json'' toy_plugin
       = Some (Returns (JsonFailed parse_error, toy_plugin))
   \<and> abort_cause toy ''noweights.json'' out_of_range
   \<and> setState toy 1 (\<lambda>k. True) ''json'' ''noweights.json'' toy_plugin
       = Some (Returns (ModelFailed out_of_range, toy_plugin))"
proof -
  have h: "heap toy_plugin 1 = None"
    by (simp add: toy_plugin_def)
  have c1: "abort_cause toy ''missing.json'' parse_error"
    by (rule abort_cause.document_unreadable) (simp add: toy_fields toy_read_def)
  have c2: "abort_cause toy ''noweights.json'' out_of_range"
    by (rule abort_cause.parseJson_throws[OF load_noweights])
       (simp_all add: toy_fields toy_creator_def toy_parseJson_def)
  note t1 = setState_failed_load_keeps_model[OF h, of toy "''missing.json''" parse_error
      "\<lambda>k. True"]
  note t2 = setState_failed_load_keeps_model[OF h, of toy "''noweights.json''" out_of_range
      "\<lambda>k. True"]
  from t1 c1 have d1:
    "setState toy 1 (\<lambda>k. True) ''json'' ''missing.json'' toy_plugin
       = Some (Returns (JsonFailed parse_error, toy_plugin))
     \<or> setState toy 1 (\<lambda>k. True) ''json'' ''missing.json'' toy_plugin
       = Some (Returns (ModelFailed parse_error, toy_plugin))"
    by blast
  have "load_json toy ''missing.json'' = Throw parse_error"
    by (simp add: load_json_def toy_fields toy_read_def)
  then have "setState toy 1 (\<lambda>k. True) ''json'' ''missing.json'' toy_plugin
       = Some (Returns (JsonFailed parse_error, toy_plugin))"
    by (rule setState_json_failed)
  then have "setState toy 1 (\<lambda>k. True) ''json'' ''missing.json'' toy_plugin
       \<noteq> Some (Returns (ModelFailed parse_error, toy_plugin))"
    by simp
  with d1 have r1: "setState toy 1 (\<lambda>k. True) ''json'' ''missing.json'' toy_plugin
       = Some (Returns (JsonFailed parse_error, toy_plugin))"
    by blast
  from t2 c2 have d2:
    "setState toy 1 (\<lambda>k. True) ''json'' ''noweights.json'' toy_plugin
       = Some (Returns (JsonFailed out_of_range, toy_plugin))
     \<or> setState toy 1 (\<lambda>k. True) ''json'' ''noweights.json'' toy_plugin
       = Some (Returns (ModelFailed out_of_range, toy_plugin))"
    by blast
  have "setState toy 1 (\<lambda>k. True) ''json'' ''noweights.json'' toy_plugin
       = Some (Returns (ModelFailed out_of_range, toy_plugin))"
    by (rule setState_model_failed[OF load_noweights build_noweights h])
  then have "setState toy 1 (\<lambda>k. True) ''json'' ''noweights.json'' toy_plugin
       \<noteq> Some (Returns (JsonFailed out_of_range, toy_plugin))"
    by simp
  with d2 have r2: "setState toy 1 (\<lambda>k. True) ''json'' ''noweights.json'' toy_plugin
       = Some (Returns (ModelFailed out_of_range, toy_plugin))"
    by blast
  show ?thesis
    using h c1 c2 r1 r2 by simp
qed

text \<open>
  C2. \<^verbatim>\<open>run\<close> first filters the input buffer into the output buffer with the input
  low-pass, and then applies to the output buffer, in place and in this order: the pre-gain
  ramp, the tone stack (only if the equalizer is not bypassed and its position is PRE), the
  network (only if it is not bypassed and a model is active), the DC blocker (always), the
  tone stack (only if the equalizer is not bypassed and its position is POST) and the
  master-gain ramp. When the input buffer does not start inside the output buffer, the first
  stage is the low-pass of the input block.

  The states the block passes through end in the result of \<^verbatim>\<open>run\<close>. When the network stage
  runs, the running flag is stored true right before \<^verbatim>\<open>applyModel\<close>, is true in the state
  \<^verbatim>\<open>applyModel\<close> starts from and in the one it leaves, and is stored false right after; it
  keeps the value it had in every state before and is false in every state after. When the
  stage is skipped, the flag keeps its value through the whole block.
\<close>

theorem run_stage_order:
  "run X inp out n mem p =
     (case applyBiquadFilter X (in_lpf (aida p)) mem out inp n of
        (lpf', mem1) \<Rightarrow>
          map_option (\<lambda>(ys, p'). (store_block mem1 out ys, p'))
            (stages_after_lpf X (load_block mem1 out n) (p\<lparr>aida := (aida p)\<lparr>in_lpf := lpf'\<rparr>\<rparr>)))
   \<and> (out \<le> inp \<or> inp + n \<le> out \<longrightarrow>
        applyBiquadFilter X (in_lpf (aida p)) mem out inp n =
          (snd (filter_block X (in_lpf (aida p)) (load_block mem inp n)),
           store_block mem out (fst (filter_block X (in_lpf (aida p)) (load_block mem inp n)))))
   \<and> map_option last (run_states X inp out n mem p) = run X inp out n mem p
   \<and> (net_bypass (aida p) \<or> model p = None \<longrightarrow>
        (\<exists>s1 s2 s3 s7 s8 s9.
            run_states X inp out n mem p = Some [s1, s2, s3, s7, s8, s9]
          \<and> s1 = run_lowpass X inp out n (mem, p) \<and> s2 = run_pregain X out n s1
          \<and> s3 = run_equalizer X kEqPre out n s2 \<and> s7 = run_dc_blocker X out n s3
          \<and> s8 = run_equalizer X kEqPost out n s7 \<and> s9 = run_master X out n s8
          \<and> (\<forall>s\<in>set [s1, s2, s3, s7, s8, s9]. running (snd s) = running p)))
   \<and> (\<not> net_bypass (aida p) \<and> model p = Some a \<and> heap p a = Some m \<longrightarrow>
        (\<exists>s1 s2 mem3 p3 s7 s8 s9.
            run_states X inp out n mem p =
              Some [s1, s2, (mem3, p3),
                    (mem3, p3\<lparr>running := True\<rparr>),
                    (snd (applyModel X m mem3 out n),
                     p3\<lparr>running := True,
                        heap := (heap p)(a \<mapsto> fst (applyModel X m mem3 out n))\<rparr>),
                    (snd (applyModel X m mem3 out n),
                     p3\<lparr>running := False,
                        heap := (heap p)(a \<mapsto> fst (applyModel X m mem3 out n))\<rparr>),
                    s7, s8, s9]
          \<and> s1 = run_lowpass X inp out n (mem, p) \<and> s2 = run_pregain X out n s1
          \<and> (mem3, p3) = run_equalizer X kEqPre out n s2
          \<and> s7 = run_dc_blocker X out n
                     (snd (applyModel X m mem3 out n),
                      p3\<lparr>running := False,
                         heap := (heap p)(a \<mapsto> fst (applyModel X m mem3 out n))\<rparr>)
          \<and> s8 = run_equalizer X kEqPost out n s7 \<and> s9 = run_master X out n s8
          \<and> running (snd s1) = running p \<and> running (snd s2) = running p
          \<and> running p3 = running p \<and> heap p3 = heap p \<and> model p3 = model p
          \<and> \<not> running (snd s7) \<and> \<not> running (snd s8) \<and> \<not> running (snd s9)))"
proof (intro conjI impI)
  show "run X inp out n mem p =
     (case applyBiquadFilter X (in_lpf (aida p)) mem out inp n of
        (lpf', mem1) \<Rightarrow>
          map_option (\<lambda>(ys, p'). (store_block mem1 out ys, p'))
            (stages_after_lpf X (load_block mem1 out n) (p\<lparr>aida := (aida p)\<lparr>in_lpf := lpf'\<rparr>\<rparr>)))"
    by (rule run_after_lpf)
  assume "out \<le> inp \<or> inp + n \<le> out"
  then show "applyBiquadFilter X (in_lpf (aida p)) mem out inp n =
          (snd (filter_block X (in_lpf (aida p)) (load_block mem inp n)),
           store_block mem out (fst (filter_block X (in_lpf (aida p)) (load_block mem inp n))))"
    by (simp add: applyBiquadFilter_block case_prod_beta)
next
  show "map_option last (run_states X inp out n mem p) = run X inp out n mem p"
    by (rule run_states_last)
next
  assume "net_bypass (aida p) \<or> model p = None"
  then show "\<exists>s1 s2 s3 s7 s8 s9.
            run_states X inp out n mem p = Some [s1, s2, s3, s7, s8, s9]
          \<and> s1 = run_lowpass X inp out n (mem, p) \<and> s2 = run_pregain X out n s1
          \<and> s3 = run_equalizer X kEqPre out n s2 \<and> s7 = run_dc_blocker X out n s3
          \<and> s8 = run_equalizer X kEqPost out n s7 \<and> s9 = run_master X out n s8
          \<and> (\<forall>s\<in>set [s1, s2, s3, s7, s8, s9]. running (snd s) = running p)"
    by (rule run_states_skipped)
next
  assume "\<not> net_bypass (aida p) \<and> model p = Some a \<and> heap p a = Some m"
  then have h: "\<not> net_bypass (aida p)" "model p = Some a" "heap p a = Some m"
    by simp_all
  show "\<exists>s1 s2 mem3 p3 s7 s8 s9.
            run_states X inp out n mem p =
              Some [s1, s2, (mem3, p3),
                    (mem3, p3\<lparr>running := True\<rparr>),
                    (snd (applyModel X m mem3 out n),
                     p3\<lparr>running := True,
                        heap := (heap p)(a \<mapsto> fst (applyModel X m mem3 out n))\<rparr>),
                    (snd (applyModel X m mem3 out n),
                     p3\<lparr>running := False,
                        heap := (heap p)(a \<mapsto> fst (applyModel X m mem3 out n))\<rparr>),
                    s7, s8, s9]
          \<and> s1 = run_lowpass X inp out n (mem, p) \<and> s2 = run_pregain X out n s1
          \<and> (mem3, p3) = run_equalizer X kEqPre out n s2
          \<and> s7 = run_dc_blocker X out n
                     (snd (applyModel X m mem3 out n),
                      p3\<lparr>running := False,
                         heap := (heap p)(a \<mapsto> fst (applyModel X m mem3 out n))\<rparr>)
          \<and> s8 = run_equalizer X kEqPost out n s7 \<and> s9 = run_master X out n s8
          \<and> running (snd s1) = running p \<and> running (snd s2) = running p
          \<and> running p3 = running p \<and> heap p3 = heap p \<and> model p3 = model p
          \<and> \<not> running (snd s7) \<and> \<not> running (snd s8) \<and> \<not> running (snd s9)"
    by (rule run_states_bracket[OF h])
qed

theorem run_stage_order_witness:
  "map_option (\<lambda>(m, q). (load_block m 10 3, tb_z (dc_blocker (aida q)), running q,
        map_option variant (heap q 0)))
     (run toy 0 10 3 ((\<lambda>a. 0)(0 := 1, 1 := 2, 2 := 3)) toy_plugin)
   = Some ([12, 100, 395], 13, False, Some (CustomModel 1 (2, 5)))
   \<and> map_option (map (\<lambda>s. running (snd s)))
       (run_states toy 0 10 3 ((\<lambda>a. 0)(0 := 1, 1 := 2, 2 := 3)) toy_plugin)
     = Some [False, False, False, True, True, False, False, False, False]
   \<and> map_option (map (\<lambda>s. running (snd s)))
       (run_states toy 0 10 3 ((\<lambda>a. 0)(0 := 1, 1 := 2, 2 := 3)) (toy_plugin\<lparr>model := None\<rparr>))
     = Some [False, False, False, False, False, False]"
proof -
  let ?M = "(\<lambda>a. 0::real)(0 := 1, 1 := 2, 2 := 3)"
  let ?m = "\<lparr>variant = CustomModel 1 (2::real, 0::real), input_skip = False, output_gain = 1\<rparr>"
  note t = run_stage_order[of toy 0 10 3 ?M toy_plugin 0 ?m]
  note u = run_stage_order[of toy 0 10 3 ?M "toy_plugin\<lparr>model := None\<rparr>" 0 ?m]
  have lp: "applyBiquadFilter toy (in_lpf (aida toy_plugin)) ?M 10 0 3 =
      (toy_filter bq_type_lowpass 1\<lparr>tb_z := 3\<rparr>, store_block ?M 10 [1, 3, 5])"
    using t[THEN conjunct2, THEN conjunct1]
    by (simp add: toy_simps toy_plugin_def load_block_Suc eval_nat_numeral)
  have st: "map_option (\<lambda>(ys, q). (ys, tb_z (dc_blocker (aida q)), running q,
        map_option variant (heap q 0)))
     (stages_after_lpf toy [1, 3, 5]
      (toy_plugin\<lparr>aida := (aida toy_plugin)\<lparr>in_lpf := toy_filter bq_type_lowpass 1\<lparr>tb_z := 3\<rparr>\<rparr>\<rparr>))
      = Some ([12, 100, 395], 13, False, Some (CustomModel 1 (2, 5)))"
    by (simp add: stages_after_lpf_def block_pregain_def block_equalizer_def block_network_def
      block_dc_blocker_def block_master_def tone_block_def model_block_def
      toy_simps toy_plugin_def)
  have r: "run toy 0 10 3 ?M toy_plugin =
      map_option (\<lambda>(ys, p'). (store_block (store_block ?M 10 [1, 3, 5]) 10 ys, p'))
        (stages_after_lpf toy [1, 3, 5]
          (toy_plugin\<lparr>aida := (aida toy_plugin)\<lparr>in_lpf :=
             toy_filter bq_type_lowpass 1\<lparr>tb_z := 3\<rparr>\<rparr>\<rparr>))"
    using t[THEN conjunct1] unfolding lp by (simp add: load_store_block)
  from st obtain q where q: "stages_after_lpf toy [1, 3, 5]
        (toy_plugin\<lparr>aida := (aida toy_plugin)\<lparr>in_lpf :=
           toy_filter bq_type_lowpass 1\<lparr>tb_z := 3\<rparr>\<rparr>\<rparr>) = Some ([12, 100, 395], q)"
    and props: "tb_z (dc_blocker (aida q)) = 13" "\<not> running q"
      "map_option variant (heap q 0) = Some (CustomModel 1 (2, 5))"
    by auto
  have first: "map_option (\<lambda>(m, q). (load_block m 10 3, tb_z (dc_blocker (aida q)), running q,
        map_option variant (heap q 0))) (run toy 0 10 3 ?M toy_plugin)
      = Some ([12, 100, 395], 13, False, Some (CustomModel 1 (2, 5)))"
    unfolding r q using props by (simp add: load_store_block)
  have h: "\<not> net_bypass (aida toy_plugin) \<and> model toy_plugin = Some 0
      \<and> heap toy_plugin 0 = Some ?m"
    by (simp add: toy_plugin_def toy_aida_def)
  have f: "\<not> running toy_plugin"
    by (simp add: toy_plugin_def)
  from t[THEN conjunct2, THEN conjunct2, THEN conjunct2, THEN conjunct2, rule_format, OF h]
  obtain s1 s2 mem3 p3 s4 s5 s6 s7 s8 s9 where
    ss: "run_states toy 0 10 3 ?M toy_plugin = Some [s1, s2, (mem3, p3), s4, s5, s6, s7, s8, s9]"
    and fl: "running (snd s1) = running toy_plugin" "running (snd s2) = running toy_plugin"
      "running p3 = running toy_plugin" "running (snd s4)" "running (snd s5)"
      "\<not> running (snd s6)" "\<not> running (snd s7)" "\<not> running (snd s8)" "\<not> running (snd s9)"
    by fastforce
  have second: "map_option (map (\<lambda>s. running (snd s))) (run_states toy 0 10 3 ?M toy_plugin)
      = Some [False, False, False, True, True, False, False, False, False]"
    unfolding ss using fl f by simp
  have "net_bypass (aida (toy_plugin\<lparr>model := None\<rparr>)) \<or> model (toy_plugin\<lparr>model := None\<rparr>) = None"
    by simp
  from u[THEN conjunct2, THEN conjunct2, THEN conjunct2, THEN conjunct1, rule_format, OF this]
  obtain t1 t2 t3 t7 t8 t9 where
    ts: "run_states toy 0 10 3 ?M (toy_plugin\<lparr>model := None\<rparr>) = Some [t1, t2, t3, t7, t8, t9]"
    and tl: "\<forall>s\<in>set [t1, t2, t3, t7, t8, t9]. running (snd s) = running (toy_plugin\<lparr>model := None\<rparr>)"
    by blast
  have third: "map_option (map (\<lambda>s. running (snd s)))
       (run_states toy 0 10 3 ?M (toy_plugin\<lparr>model := None\<rparr>))
      = Some [False, False, False, False, False, False]"
    unfolding ts using tl f by simp
  from first second third show ?thesis
    by simp
qed

text \<open>
  C3. For a model whose network has input size 1, \<^verbatim>\<open>applyModel\<close> sets sample \<open>i\<close> of the
  buffer to \<open>raw input + forward(window) * output_gain\<close> when \<^verbatim>\<open>input_skip\<close> is set and to
  \<open>forward(window) * output_gain\<close> when it is not, where the window is the one raw sample
  and the network has seen the raw samples before it; cells outside the buffer keep their
  value, and the model keeps the network as the block left it. For any other input size
  (and for \<^verbatim>\<open>NullModel\<close>) the call changes neither the buffer nor the model.
\<close>

theorem applyModel_samples:
  "(variant m = CustomModel 1 net \<longrightarrow>
      (\<forall>i<n. snd (applyModel X m mem out n) (out + i) =
          (if input_skip m
           then mem (out + i)
                + fst (forward X (net_state X net (load_block mem out n) i) [mem (out + i)])
                  * output_gain m
           else fst (forward X (net_state X net (load_block mem out n) i) [mem (out + i)])
                  * output_gain m))
      \<and> (\<forall>a. a < out \<or> out + n \<le> a \<longrightarrow> snd (applyModel X m mem out n) a = mem a)
      \<and> fst (applyModel X m mem out n) =
          m\<lparr>variant := CustomModel 1 (net_state X net (load_block mem out n) n)\<rparr>)
   \<and> (input_size (variant m) \<noteq> 1 \<longrightarrow> applyModel X m mem out n = (m, mem))"
proof (intro conjI impI allI)
  fix i
  assume v: "variant m = CustomModel 1 net" and i: "i < n"
  let ?xs = "load_block mem out n"
  let ?g = "\<lambda>x y. if input_skip m then x + y * output_gain m else y * output_gain m"
  let ?body = "\<lambda>s x. case forward X s [x] of (y, s') \<Rightarrow> (?g x y, s')"
  have len: "length (fst (map_accum ?body net ?xs)) = n"
    by (simp only: length_map_accum length_load_block)
  have "snd (applyModel X m mem out n) (out + i) = fst (map_accum ?body net ?xs) ! i"
    using i len by (simp add: applyModel_block model_block_single[OF v] store_block_inside)
  also have "\<dots> = fst (?body (accum_state ?body net ?xs i) (?xs ! i))"
    using i by (simp only: map_accum_nth length_load_block)
  also have "\<dots> = fst (?body (net_state X net ?xs i) (mem (out + i)))"
    using i by (simp only: net_state_accum[where g = ?g, symmetric] nth_load_block)
  also have "\<dots> = ?g (mem (out + i)) (fst (forward X (net_state X net ?xs i) [mem (out + i)]))"
    by (simp only: case_prod_beta fst_conv)
  finally show "snd (applyModel X m mem out n) (out + i) =
          (if input_skip m
           then mem (out + i)
                + fst (forward X (net_state X net (load_block mem out n) i) [mem (out + i)])
                  * output_gain m
           else fst (forward X (net_state X net (load_block mem out n) i) [mem (out + i)])
                  * output_gain m)" .
next
  fix a
  assume v: "variant m = CustomModel 1 net" and a: "a < out \<or> out + n \<le> a"
  show "snd (applyModel X m mem out n) a = mem a"
    using a by (simp add: applyModel_block model_block_single[OF v] store_block_outside
        length_map_accum)
next
  assume v: "variant m = CustomModel 1 net"
  show "fst (applyModel X m mem out n) =
          m\<lparr>variant := CustomModel 1 (net_state X net (load_block mem out n) n)\<rparr>"
    by (simp add: applyModel_block model_block_single[OF v])
next
  assume "input_size (variant m) \<noteq> 1"
  then show "applyModel X m mem out n = (m, mem)"
    by (simp add: applyModel_block model_block_other store_load_block)
qed

theorem applyModel_samples_witness:
  "snd (applyModel toy \<lparr>variant = CustomModel 1 (2, 0), input_skip = True, output_gain = 3\<rparr>
          ((\<lambda>a. 0)(5 := 1, 6 := 4)) 5 2) 5 = 7
   \<and> snd (applyModel toy \<lparr>variant = CustomModel 1 (2, 0), input_skip = True, output_gain = 3\<rparr>
          ((\<lambda>a. 0)(5 := 1, 6 := 4)) 5 2) 6 = 31
   \<and> snd (applyModel toy \<lparr>variant = CustomModel 1 (2, 0), input_skip = False, output_gain = 3\<rparr>
          ((\<lambda>a. 0)(5 := 1, 6 := 4)) 5 2) 6 = 27
   \<and> applyModel toy \<lparr>variant = CustomModel 2 (2, 0), input_skip = True, output_gain = 3\<rparr>
          ((\<lambda>a. 0)(5 := 1, 6 := 4)) 5 2
       = (\<lparr>variant = CustomModel 2 (2, 0), input_skip = True, output_gain = 3\<rparr>,
          (\<lambda>a. 0)(5 := 1, 6 := 4))"
proof -
  let ?M = "(\<lambda>a. 0::real)(5 := 1, 6 := 4)"
  let ?m = "\<lparr>variant = CustomModel 1 (2, 0), input_skip = True, output_gain = 3\<rparr>"
  let ?m' = "\<lparr>variant = CustomModel 1 (2, 0), input_skip = False, output_gain = 3\<rparr>"
  let ?w = "\<lparr>variant = CustomModel 2 (2, 0), input_skip = True, output_gain = 3\<rparr>"
  have s: "net_state toy (2, 0) (load_block ?M 5 2) 1 = (2, 1)"
    by (simp add: toy_simps load_block_Suc eval_nat_numeral)
  note t = applyModel_samples[of ?m "(2, 0)" 2 toy ?M 5]
  note t' = applyModel_samples[of ?m' "(2, 0)" 2 toy ?M 5]
  note u = applyModel_samples[of ?w "(2, 0)" 2 toy ?M 5]
  from t have a: "\<forall>i<2. snd (applyModel toy ?m ?M 5 2) (5 + i) =
      ?M (5 + i) + fst (forward toy (net_state toy (2, 0) (load_block ?M 5 2) i) [?M (5 + i)]) * 3"
    by simp
  from t' have a': "\<forall>i<2. snd (applyModel toy ?m' ?M 5 2) (5 + i) =
      fst (forward toy (net_state toy (2, 0) (load_block ?M 5 2) i) [?M (5 + i)]) * 3"
    by simp
  from a[rule_format, of 0] have "snd (applyModel toy ?m ?M 5 2) 5 = 7"
    by (simp add: toy_simps)
  moreover from a[rule_format, of 1] s have "snd (applyModel toy ?m ?M 5 2) 6 = 31"
    by (simp add: toy_simps)
  moreover from a'[rule_format, of 1] s have "snd (applyModel toy ?m' ?M 5 2) 6 = 27"
    by (simp add: toy_simps)
  moreover from u have "applyModel toy ?w ?M 5 2 = (?w, ?M)"
    by simp
  ultimately show ?thesis by simp
qed

text \<open>
  C4, as amended. After a successful load the published model's \<^verbatim>\<open>output_gain\<close> is
  \<open>10 powr (g / 20)\<close> when the document's \<^verbatim>\<open>out_gain\<close> member is a number \<open>g\<close> above \<open>-90\<close>,
  \<open>0\<close> when it is a number at or below \<open>-90\<close> (the guard of \<^verbatim>\<open>DB_CO\<close>), and \<open>1\<close> when the
  member is not a number, as the null member is that an absent key reads as.
\<close>

theorem setState_output_gain:
  assumes "setState X a obs key val p = Some (Returns (Loaded k, p'))"
  shows "\<exists>j0 j1 s j2 tested j3 m.
           json_read X val = Ok j0 \<and> check_in_shape X j0 = Ok j1
         \<and> read_in_skip X j1 = Ok (s, j2)
         \<and> json_index X j2 ''out_gain'' = Ok (tested, j3)
         \<and> active_model p' = Some m
         \<and> (if json_is_number X tested
             then \<exists>gain j4 db. json_index X j3 ''out_gain'' = Ok (gain, j4)
                    \<and> json_get_float X gain = Ok db
                    \<and> output_gain m = (if db > - 90 then 10 powr (db / 20) else 0)
             else output_gain m = 1)"
proof -
  from assms obtain s g j built where l: "load_json X val = Ok (s, g, j)"
    and p': "p' = p\<lparr>heap := (heap p)(a \<mapsto> fst (applyModel X
              (built\<lparr>input_skip := (s \<noteq> 0), output_gain := g\<rparr>) (\<lambda>i. 0) 0 2048)),
            model := Some a\<rparr>"
    by (rule setState_Loaded_cases)
  let ?m = "fst (applyModel X (built\<lparr>input_skip := (s \<noteq> 0), output_gain := g\<rparr>) (\<lambda>i. 0) 0 2048)"
  from l obtain j0 j1 j2 where r: "json_read X val = Ok j0" "check_in_shape X j0 = Ok j1"
    "read_in_skip X j1 = Ok (s, j2)" and o: "read_out_gain X j2 = Ok (g, j)"
    by (auto simp: load_json_Ok)
  from o obtain tested j3 where i: "json_index X j2 ''out_gain'' = Ok (tested, j3)"
    and g: "if json_is_number X tested
         then \<exists>gain db. json_index X j3 ''out_gain'' = Ok (gain, j)
                \<and> json_get_float X gain = Ok db \<and> g = DB_CO db
         else g = 1 \<and> j = j3"
    unfolding read_out_gain_Ok by blast
  have am: "active_model p' = Some ?m"
    unfolding p' by (rule active_model_published)
  have og: "output_gain ?m = g"
    by (simp add: applyModel_keeps)
  have "if json_is_number X tested
        then \<exists>gain j4 db. json_index X j3 ''out_gain'' = Ok (gain, j4)
               \<and> json_get_float X gain = Ok db
               \<and> output_gain ?m = (if db > - 90 then 10 powr (db / 20) else 0)
        else output_gain ?m = 1"
  proof (cases "json_is_number X tested")
    case True
    with g obtain gain db where db: "json_index X j3 ''out_gain'' = Ok (gain, j)"
      "json_get_float X gain = Ok db" "g = DB_CO db"
      by auto
    have "DB_CO db = (if db > - 90 then 10 powr (db / 20) else 0)"
      by (simp add: DB_CO_def)
    with db og have "json_index X j3 ''out_gain'' = Ok (gain, j)
               \<and> json_get_float X gain = Ok db
               \<and> output_gain ?m = (if db > - 90 then 10 powr (db / 20) else 0)"
      by simp
    then have "\<exists>gain j4 db. json_index X j3 ''out_gain'' = Ok (gain, j4)
               \<and> json_get_float X gain = Ok db
               \<and> output_gain ?m = (if db > - 90 then 10 powr (db / 20) else 0)"
      by blast
    with True show ?thesis
      by simp
  next
    case False
    with g og show ?thesis by simp
  qed
  with r i am show ?thesis
    by blast
qed

theorem setState_output_gain_witness:
  "setState toy 1 (\<lambda>k. False) ''json'' ''skip.json'' toy_plugin
     = Some (Returns (Loaded 0,
       toy_plugin\<lparr>heap := (heap toy_plugin)(1 \<mapsto> fst (applyModel toy
            \<lparr>variant = CustomModel 1 (2, 0), input_skip = True, output_gain = 1\<rparr>
            (\<lambda>i. 0) 0 2048)),
          model := Some 1\<rparr>))
   \<and> (\<exists>m. active_model
         (toy_plugin\<lparr>heap := (heap toy_plugin)(1 \<mapsto> fst (applyModel toy
            \<lparr>variant = CustomModel 1 (2, 0), input_skip = True, output_gain = 1\<rparr>
            (\<lambda>i. 0) 0 2048)),
          model := Some 1\<rparr>) = Some m
        \<and> output_gain m = 10 powr (0 / 20))"
proof -
  let ?p' = "toy_plugin\<lparr>heap := (heap toy_plugin)(1 \<mapsto> fst (applyModel toy
            \<lparr>variant = CustomModel 1 (2, 0), input_skip = True, output_gain = 1\<rparr>
            (\<lambda>i. 0) 0 2048)),
          model := Some 1\<rparr>"
  have b: "build_model toy (JObject [(''in_shape'', JArray [JNumber 1]), (''in_skip'', JNumber 1),
                        (''out_gain'', JNumber 0), (''type'', JString ''one_tap''),
                        (''weights'', JNumber 2)]) fresh_model
      = Ok \<lparr>variant = CustomModel 1 (2, 0), input_skip = False, output_gain = 0\<rparr>"
    by (simp add: build_one_tap)
  have w: "wait_for_cycle (model toy_plugin \<noteq> None) (\<lambda>k. False) 0 = Some 0"
    by (simp add: wait_for_cycle_stop)
  have r: "setState toy 1 (\<lambda>k. False) ''json'' ''skip.json'' toy_plugin
     = Some (Returns (Loaded 0, ?p'))"
    using setState_loaded[OF load_skip b w, of 1] by simp
  from setState_output_gain[OF r]
  obtain j2 tested j3 m where i: "json_index toy j2 ''out_gain'' = Ok (tested, j3)"
    and rs: "\<exists>j0 j1 s. json_read toy ''skip.json'' = Ok j0 \<and> check_in_shape toy j0 = Ok j1
       \<and> read_in_skip toy j1 = Ok (s, j2)"
    and am: "active_model ?p' = Some m"
    and g: "if json_is_number toy tested
             then \<exists>gain j4 db. json_index toy j3 ''out_gain'' = Ok (gain, j4)
                    \<and> json_get_float toy gain = Ok db
                    \<and> output_gain m = (if db > - 90 then 10 powr (db / 20) else 0)
             else output_gain m = 1"
    by blast
  from rs have j2: "j2 = JObject [(''in_shape'', JArray [JNumber 1]), (''in_skip'', JNumber 1),
                        (''out_gain'', JNumber 0), (''type'', JString ''one_tap''),
                        (''weights'', JNumber 2)]"
    by (auto simp: toy_fields toy_read_def check_in_shape_def read_in_skip_def)
  from i j2 have t: "tested = JNumber 0" "j3 = j2"
    by (auto simp: toy_fields)
  with g j2 have "output_gain m = 10 powr (0 / 20)"
    by (auto simp: toy_fields)
  with r am show ?thesis
    by blast
qed

text \<open>
  C4 as stated, with \<open>10 powr (g / 20)\<close> for every \<open>g\<close>, fails at \<^verbatim>\<open>out_gain = -100\<close>: the load
  succeeds and the gain of the published model is \<open>0\<close>, not \<open>10 powr (-5)\<close>.
\<close>

theorem setState_output_gain_counterexample:
  "\<exists>p' m. setState toy 1 (\<lambda>k. False) ''json'' ''quiet.json'' toy_plugin
             = Some (Returns (Loaded 0, p'))
     \<and> active_model p' = Some m
     \<and> json_index toy
          (JObject [(''in_shape'', JArray [JNumber 1]), (''in_skip'', JNull),
                    (''out_gain'', JNumber (- 100)), (''type'', JString ''one_tap''),
                    (''weights'', JNumber 2)]) ''out_gain''
        = Ok (JNumber (- 100),
              JObject [(''in_shape'', JArray [JNumber 1]), (''in_skip'', JNull),
                    (''out_gain'', JNumber (- 100)), (''type'', JString ''one_tap''),
                    (''weights'', JNumber 2)])
     \<and> json_is_number toy (JNumber (- 100))
     \<and> json_get_float toy (JNumber (- 100)) = Ok (- 100)
     \<and> output_gain m = 0
     \<and> output_gain m \<noteq> 10 powr (- 100 / 20)"
  unfolding setState_quiet
  by (simp add: active_model_published applyModel_keeps toy_fields)

text \<open>
  C5. What the code does once the new model is published, when it superseded a live
  instance at address \<open>b\<close>: the loop polls the running flag until the first poll that
  reads false, sleeping \<open>k\<close> times, and \<^verbatim>\<open>setState\<close> returns with the \<^verbatim>\<open>model\<close> pointer on the new
  instance and the superseded one still allocated. Nothing releases it.
\<close>

theorem setState_keeps_old_model_allocated:
  assumes "setState X a obs key val p = Some (Returns (Loaded k, p'))"
    and "heap p a = None" and "model p = Some b" and "heap p b = Some m"
  shows "model p' = Some a \<and> a \<noteq> b \<and> heap p' b = Some m
       \<and> \<not> obs k \<and> (\<forall>i<k. obs i)"
proof -
  from assms(1) obtain s g j built where
    l: "load_json X val = Ok (s, g, j)"
    and w: "wait_for_cycle (model p \<noteq> None) obs 0 = Some k"
    and p': "p' = p\<lparr>heap := (heap p)(a \<mapsto> fst (applyModel X
              (built\<lparr>input_skip := (s \<noteq> 0), output_gain := g\<rparr>) (\<lambda>i. 0) 0 2048)),
            model := Some a\<rparr>"
    by (rule setState_Loaded_cases)
  from assms(2,4) have ne: "a \<noteq> b" by auto
  from wait_for_cycle_Some[OF w] assms(3) have "\<not> obs k" "\<forall>i<k. obs i"
    by simp_all
  with ne assms(4) show ?thesis
    by (simp add: p')
qed

theorem setState_keeps_old_model_allocated_witness:
  "\<exists>p'. setState toy 1 (\<lambda>i. i < 2) ''json'' ''clean.json'' toy_plugin
            = Some (Returns (Loaded 2, p'))
      \<and> heap toy_plugin 1 = None
      \<and> model toy_plugin = Some 0
      \<and> model p' = Some 1
      \<and> heap p' 0
          = Some \<lparr>variant = CustomModel 1 (2, 0), input_skip = False, output_gain = 1\<rparr>"
proof -
  let ?j = "JObject [(''in_shape'', JArray [JNumber 1]), (''in_skip'', JNull),
                          (''out_gain'', JNull), (''type'', JString ''one_tap''),
                          (''weights'', JNumber 2)]"
  let ?b = "\<lparr>variant = CustomModel 1 (2, 0), input_skip = False, output_gain = 0\<rparr>
      :: (real \<times> real) DynamicModel"
  let ?old = "\<lparr>variant = CustomModel 1 (2, 0), input_skip = False, output_gain = 1\<rparr>
      :: (real \<times> real) DynamicModel"
  have b: "build_model toy ?j fresh_model = Ok ?b"
    by (simp add: build_one_tap)
  have w: "wait_for_cycle (model toy_plugin \<noteq> None) (\<lambda>i. i < 2) 0 = Some 2"
    using wait_for_cycle_first[of "\<lambda>i. i < 2" 2 0 "model toy_plugin \<noteq> None"]
    by (simp add: toy_plugin_def)
  note r = setState_loaded[OF load_clean b w, of 1]
  have h: "heap toy_plugin 1 = None" "model toy_plugin = Some 0" "heap toy_plugin 0 = Some ?old"
    by (simp_all add: toy_plugin_def)
  from setState_keeps_old_model_allocated[OF r h] r h show ?thesis
    by blast
qed

text \<open>
  C6, as amended. \<^verbatim>\<open>setState\<close> aborts the load through one of its two handlers with the
  exception \<open>e\<close> if and only if \<open>e\<close> is thrown in one of its two \<^verbatim>\<open>try\<close> blocks, and
  \<open>abort_cause\<close> lists every way for that: the document cannot be read or parsed; looking
  up \<^verbatim>\<open>in_shape\<close>, taking its last element or reading it as an \<^verbatim>\<open>int\<close> throws, or the \<^verbatim>\<open>int\<close> is
  above 1; looking up \<^verbatim>\<open>in_skip\<close> throws, or it is a number and reading it throws or gives
  more than 1; looking up \<^verbatim>\<open>out_gain\<close> throws, or it is a number and reading it throws;
  \<^verbatim>\<open>custom_model_creator\<close> throws or finds no known architecture; \<^verbatim>\<open>parseJson\<close> throws. When the
  address \<^verbatim>\<open>make_unique\<close> returned was free, the plugin is then unchanged. An \<^verbatim>\<open>in_skip\<close>
  member that is not a number (as the null member of an absent key) gives \<^verbatim>\<open>input_skip = 0\<close>,
  and the published model's \<^verbatim>\<open>input_skip\<close> flag is \<^verbatim>\<open>input_skip != 0\<close>.
\<close>

theorem setState_aborts_iff:
  "((\<exists>p'. setState X a obs ''json'' val p = Some (Returns (JsonFailed e, p'))
         \<or> setState X a obs ''json'' val p = Some (Returns (ModelFailed e, p')))
      \<longleftrightarrow> abort_cause X val e)
   \<and> (abort_cause X val e \<and> heap p a = None \<longrightarrow>
         setState X a obs ''json'' val p = Some (Returns (JsonFailed e, p))
       \<or> setState X a obs ''json'' val p = Some (Returns (ModelFailed e, p)))
   \<and> (json_index X j1 ''in_skip'' = Ok (skip, j2) \<and> \<not> json_is_number X skip \<longrightarrow>
         read_in_skip X j1 = Ok (0, j2))
   \<and> (setState X a obs ''json'' val p = Some (Returns (Loaded k, p')) \<longrightarrow>
        (\<exists>j0 j1 s j2 m. json_read X val = Ok j0 \<and> check_in_shape X j0 = Ok j1
           \<and> read_in_skip X j1 = Ok (s, j2) \<and> active_model p' = Some m
           \<and> input_skip m = (s \<noteq> 0)))"
proof (intro conjI impI)
  show "(\<exists>p'. setState X a obs ''json'' val p = Some (Returns (JsonFailed e, p'))
         \<or> setState X a obs ''json'' val p = Some (Returns (ModelFailed e, p')))
      \<longleftrightarrow> abort_cause X val e"
  proof
    assume "\<exists>p'. setState X a obs ''json'' val p = Some (Returns (JsonFailed e, p'))
          \<or> setState X a obs ''json'' val p = Some (Returns (ModelFailed e, p'))"
    then obtain p' st where r: "setState X a obs ''json'' val p = Some (Returns (st, p'))"
      and st: "st = JsonFailed e \<or> st = ModelFailed e"
      by auto
    from st have "\<forall>k. st \<noteq> Loaded k" by auto
    from setState_failed_cases[OF r this] st show "abort_cause X val e"
      by (auto intro: load_json_Throw_cause build_model_Throw_cause)
  next
    assume "abort_cause X val e"
    from abort_cause_Throw[OF this]
    show "\<exists>p'. setState X a obs ''json'' val p = Some (Returns (JsonFailed e, p'))
          \<or> setState X a obs ''json'' val p = Some (Returns (ModelFailed e, p'))"
      by (auto simp: setState_def Let_def)
  qed
next
  assume "abort_cause X val e \<and> heap p a = None"
  then have c: "abort_cause X val e" and h: "heap p a = None" by simp_all
  from abort_cause_Throw[OF c]
  show "setState X a obs ''json'' val p = Some (Returns (JsonFailed e, p))
       \<or> setState X a obs ''json'' val p = Some (Returns (ModelFailed e, p))"
    using h by (auto simp: setState_json_failed setState_model_failed)
next
  assume "json_index X j1 ''in_skip'' = Ok (skip, j2) \<and> \<not> json_is_number X skip"
  then show "read_in_skip X j1 = Ok (0, j2)"
    by (simp add: read_in_skip_default)
next
  assume "setState X a obs ''json'' val p = Some (Returns (Loaded k, p'))"
  then obtain s g j built where l: "load_json X val = Ok (s, g, j)"
    and p': "p' = p\<lparr>heap := (heap p)(a \<mapsto> fst (applyModel X
              (built\<lparr>input_skip := (s \<noteq> 0), output_gain := g\<rparr>) (\<lambda>i. 0) 0 2048)),
            model := Some a\<rparr>"
    by (rule setState_Loaded_cases)
  from l obtain j0 j1 j2 where "json_read X val = Ok j0" "check_in_shape X j0 = Ok j1"
    "read_in_skip X j1 = Ok (s, j2)"
    by (auto simp: load_json_Ok)
  moreover have "active_model p' = Some (fst (applyModel X
              (built\<lparr>input_skip := (s \<noteq> 0), output_gain := g\<rparr>) (\<lambda>i. 0) 0 2048))"
    unfolding p' by (rule active_model_published)
  moreover have "input_skip (fst (applyModel X
              (built\<lparr>input_skip := (s \<noteq> 0), output_gain := g\<rparr>) (\<lambda>i. 0) 0 2048)) = (s \<noteq> 0)"
    by (simp add: applyModel_keeps)
  ultimately show "\<exists>j0 j1 s j2 m. json_read X val = Ok j0 \<and> check_in_shape X j0 = Ok j1
           \<and> read_in_skip X j1 = Ok (s, j2) \<and> active_model p' = Some m
           \<and> input_skip m = (s \<noteq> 0)"
    by blast
qed

theorem setState_aborts_iff_witness:
  "abort_cause toy ''wide.json''
     (invalid_argument ''Values for input_size > 1 are not supported'')
   \<and> heap toy_plugin 1 = None
   \<and> setState toy 1 (\<lambda>k. True) ''json'' ''wide.json'' toy_plugin
       = Some (Returns
           (JsonFailed (invalid_argument ''Values for input_size > 1 are not supported''),
            toy_plugin))
   \<and> json_index toy (JObject [(''in_shape'', JArray [JNumber 1])]) ''in_skip''
       = Ok (JNull, JObject [(''in_shape'', JArray [JNumber 1]), (''in_skip'', JNull)])
   \<and> read_in_skip toy (JObject [(''in_shape'', JArray [JNumber 1])])
       = Ok (0, JObject [(''in_shape'', JArray [JNumber 1]), (''in_skip'', JNull)])"
proof -
  let ?e = "invalid_argument ''Values for input_size > 1 are not supported''"
  let ?j = "JObject [(''in_shape'', JArray [JNumber 1])]"
  let ?j' = "JObject [(''in_shape'', JArray [JNumber 1]), (''in_skip'', JNull)]"
  have h: "heap toy_plugin 1 = None"
    by (simp add: toy_plugin_def)
  have c: "abort_cause toy ''wide.json'' ?e"
    by (rule load_json_Throw_cause[OF load_wide])
  have i: "json_index toy ?j ''in_skip'' = Ok (JNull, ?j')"
    by (simp add: toy_fields)
  have n: "\<not> json_is_number toy JNull"
    by (simp add: toy_fields)
  note t = setState_aborts_iff[of toy 1 "\<lambda>k. True" "''wide.json''" toy_plugin ?e ?j
      JNull ?j']
  from t c h have d:
    "setState toy 1 (\<lambda>k. True) ''json'' ''wide.json'' toy_plugin
       = Some (Returns (JsonFailed ?e, toy_plugin))
     \<or> setState toy 1 (\<lambda>k. True) ''json'' ''wide.json'' toy_plugin
       = Some (Returns (ModelFailed ?e, toy_plugin))"
    by blast
  have "setState toy 1 (\<lambda>k. True) ''json'' ''wide.json'' toy_plugin
       = Some (Returns (JsonFailed ?e, toy_plugin))"
    by (rule setState_json_failed[OF load_wide])
  then have "setState toy 1 (\<lambda>k. True) ''json'' ''wide.json'' toy_plugin
       \<noteq> Some (Returns (ModelFailed ?e, toy_plugin))"
    by simp
  with d have r: "setState toy 1 (\<lambda>k. True) ''json'' ''wide.json'' toy_plugin
       = Some (Returns (JsonFailed ?e, toy_plugin))"
    by blast
  from t i n have s: "read_in_skip toy ?j = Ok (0, ?j')"
    by blast
  show ?thesis
    using c h r i s by simp
qed

text \<open>
  C6 as stated, with four causes only, fails on a document that parses, whose \<^verbatim>\<open>in_shape\<close>
  ends in 1, that has no \<^verbatim>\<open>in_skip\<close> and whose architecture is known, but whose weights
  are missing: \<^verbatim>\<open>parseJson\<close> throws and the second handler aborts the load.
\<close>

theorem setState_aborts_counterexample:
  "json_read toy ''noweights.json''
     = Ok (JObject [(''in_shape'', JArray [JNumber 1]), (''type'', JString ''one_tap'')])
   \<and> json_index toy
        (JObject [(''in_shape'', JArray [JNumber 1]), (''type'', JString ''one_tap'')])
        ''in_shape''
     = Ok (JArray [JNumber 1],
           JObject [(''in_shape'', JArray [JNumber 1]), (''type'', JString ''one_tap'')])
   \<and> json_back toy (JArray [JNumber 1]) = Ok (JNumber 1)
   \<and> json_get_int toy (JNumber 1) = Ok 1
   \<and> json_index toy
        (JObject [(''in_shape'', JArray [JNumber 1]), (''type'', JString ''one_tap'')])
        ''in_skip''
     = Ok (JNull,
           JObject [(''in_shape'', JArray [JNumber 1]), (''in_skip'', JNull),
                    (''type'', JString ''one_tap'')])
   \<and> json_is_number toy JNull = False
   \<and> load_json toy ''noweights.json''
     = Ok (0, 1, JObject [(''in_shape'', JArray [JNumber 1]), (''in_skip'', JNull),
                          (''out_gain'', JNull), (''type'', JString ''one_tap'')])
   \<and> custom_model_creator toy
        (JObject [(''in_shape'', JArray [JNumber 1]), (''in_skip'', JNull),
                  (''out_gain'', JNull), (''type'', JString ''one_tap'')]) NullModel
     = Ok (True, CustomModel 1 (0, 0))
   \<and> setState toy 1 (\<lambda>k. False) ''json'' ''noweights.json'' toy_plugin
     = Some (Returns (ModelFailed out_of_range, toy_plugin))"
proof -
  have h: "heap toy_plugin 1 = None"
    by (simp add: toy_plugin_def)
  have "setState toy 1 (\<lambda>k. False) ''json'' ''noweights.json'' toy_plugin
     = Some (Returns (ModelFailed out_of_range, toy_plugin))"
    by (rule setState_model_failed[OF load_noweights build_noweights h])
  then show ?thesis
    by (simp add: load_noweights toy_fields toy_read_def toy_creator_def)
qed

text \<open>
  C7. When the mid type is band-pass, \<^verbatim>\<open>applyToneControls\<close> runs the mid filter alone over
  the block and leaves the depth, bass, treble and presence filters as they were;
  otherwise it runs depth, bass, mid, treble and presence in that order, each on the
  output of the one before, and the buffer holds the output of the last.
\<close>

theorem applyToneControls_dispatch:
  "applyToneControls X a mem out n =
     (if mid_type a = kMidEqBandpass then
        (a\<lparr>mid := snd (filter_block X (mid a) (load_block mem out n))\<rparr>,
         store_block mem out (fst (filter_block X (mid a) (load_block mem out n))))
      else
        (let s1 = filter_block X (depth a) (load_block mem out n);
             s2 = filter_block X (bass a) (fst s1);
             s3 = filter_block X (mid a) (fst s2);
             s4 = filter_block X (treble a) (fst s3);
             s5 = filter_block X (presence a) (fst s4)
         in (a\<lparr>depth := snd s1, bass := snd s2, mid := snd s3, treble := snd s4,
                presence := snd s5\<rparr>,
             store_block mem out (fst s5))))
   \<and> (mid_type a = kMidEqBandpass \<longrightarrow>
        depth (fst (applyToneControls X a mem out n)) = depth a
      \<and> bass (fst (applyToneControls X a mem out n)) = bass a
      \<and> treble (fst (applyToneControls X a mem out n)) = treble a
      \<and> presence (fst (applyToneControls X a mem out n)) = presence a)"
  by (simp add: applyToneControls_block tone_block_def Let_def case_prod_beta)

theorem applyToneControls_dispatch_witness:
  "load_block (snd (applyToneControls toy (toy_aida\<lparr>mid_type := kMidEqBandpass\<rparr>)
                 ((\<lambda>a. 0)(0 := 1, 1 := 2)) 0 2)) 0 2 = [3, 7]
   \<and> depth (fst (applyToneControls toy (toy_aida\<lparr>mid_type := kMidEqBandpass\<rparr>)
                 ((\<lambda>a. 0)(0 := 1, 1 := 2)) 0 2)) = depth toy_aida
   \<and> tb_z (presence (fst (applyToneControls toy (toy_aida\<lparr>mid_type := kMidEqBandpass\<rparr>)
                 ((\<lambda>a. 0)(0 := 1, 1 := 2)) 0 2))) = 0
   \<and> load_block (snd (applyToneControls toy toy_aida ((\<lambda>a. 0)(0 := 1, 1 := 2)) 0 2)) 0 2
       = [6, 35]
   \<and> tb_z (presence (fst (applyToneControls toy toy_aida ((\<lambda>a. 0)(0 := 1, 1 := 2)) 0 2)))
       = 29"
  using applyToneControls_dispatch[of toy "toy_aida\<lparr>mid_type := kMidEqBandpass\<rparr>"
          "(\<lambda>a. 0)(0 := 1, 1 := 2)" 0 2]
        applyToneControls_dispatch[of toy toy_aida "(\<lambda>a. 0)(0 := 1, 1 := 2)" 0 2]
  by (simp add: toy_simps load_block_Suc eval_nat_numeral store_block_def Let_def)

text \<open>
  C8. A load that succeeds passes through six states: the fresh instance, the instance
  built from the document, the two assignments of \<^verbatim>\<open>input_skip\<close> and \<^verbatim>\<open>output_gain\<close>, the
  instance after one call of \<^verbatim>\<open>applyModel\<close> on a buffer of 2048 zeros, and only then the
  \<^verbatim>\<open>model\<close> pointer set to it. In every state before the last the \<^verbatim>\<open>model\<close> pointer and the
  instance it designates are those of before the load, so the new instance is never
  active unprimed. A single-input network has been given 2048 zero samples by then, and
  nothing of the buffer is kept. Nothing else of the plugin changes. The load succeeds
  whenever both \<^verbatim>\<open>try\<close> blocks end without an exception and either no model was active or
  some poll of the running flag reads false.
\<close>

theorem setState_primes_before_publishing:
  "(setState X a obs key val p = Some (Returns (Loaded k, p')) \<longrightarrow>
      (\<exists>s g j built configured primed.
          load_json X val = Ok (s, g, j) \<and> build_model X j fresh_model = Ok built
        \<and> configured = built\<lparr>input_skip := (s \<noteq> 0), output_gain := g\<rparr>
        \<and> primed = fst (applyModel X configured (\<lambda>i. 0) 0 2048)
        \<and> p' = p\<lparr>heap := (heap p)(a \<mapsto> primed), model := Some a\<rparr>
        \<and> active_model p' = Some primed
        \<and> (\<forall>net. variant built = CustomModel 1 net \<longrightarrow>
              variant primed = CustomModel 1 (net_state X net (replicate 2048 0) 2048))
        \<and> setState_states X a key val p =
            Returns [p\<lparr>heap := (heap p)(a \<mapsto> fresh_model)\<rparr>,
                     p\<lparr>heap := (heap p)(a \<mapsto> built)\<rparr>,
                     p\<lparr>heap := (heap p)(a \<mapsto> built\<lparr>input_skip := (s \<noteq> 0)\<rparr>)\<rparr>,
                     p\<lparr>heap := (heap p)(a \<mapsto> configured)\<rparr>,
                     p\<lparr>heap := (heap p)(a \<mapsto> primed)\<rparr>,
                     p']
        \<and> (model p \<noteq> Some a \<longrightarrow>
             (\<forall>q\<in>set [p\<lparr>heap := (heap p)(a \<mapsto> fresh_model)\<rparr>,
                        p\<lparr>heap := (heap p)(a \<mapsto> built)\<rparr>,
                        p\<lparr>heap := (heap p)(a \<mapsto> built\<lparr>input_skip := (s \<noteq> 0)\<rparr>)\<rparr>,
                        p\<lparr>heap := (heap p)(a \<mapsto> configured)\<rparr>,
                        p\<lparr>heap := (heap p)(a \<mapsto> primed)\<rparr>].
                 model q = model p \<and> active_model q = active_model p))))
   \<and> (load_json X val = Ok (s', g', j') \<and> build_model X j' fresh_model = Ok built'
        \<and> (model p = None \<or> \<not> obs n) \<longrightarrow>
      (\<exists>k. setState X a obs ''json'' val p =
         Some (Returns (Loaded k,
           p\<lparr>heap := (heap p)(a \<mapsto> fst (applyModel X
                    (built'\<lparr>input_skip := (s' \<noteq> 0), output_gain := g'\<rparr>) (\<lambda>i. 0) 0 2048)),
             model := Some a\<rparr>))))"
proof (intro conjI impI)
  assume "setState X a obs key val p = Some (Returns (Loaded k, p'))"
  then obtain s g j built where key: "key = ''json''" and l: "load_json X val = Ok (s, g, j)"
    and b: "build_model X j fresh_model = Ok built"
    and "wait_for_cycle (model p \<noteq> None) obs 0 = Some k"
    and p': "p' = p\<lparr>heap := (heap p)(a \<mapsto> fst (applyModel X
              (built\<lparr>input_skip := (s \<noteq> 0), output_gain := g\<rparr>) (\<lambda>i. 0) 0 2048)),
            model := Some a\<rparr>"
    by (rule setState_Loaded_cases)
  define configured where "configured = built\<lparr>input_skip := (s \<noteq> 0), output_gain := g\<rparr>"
  define primed where "primed = fst (applyModel X configured (\<lambda>i. 0) 0 2048)"
  have p'': "p' = p\<lparr>heap := (heap p)(a \<mapsto> primed), model := Some a\<rparr>"
    by (simp add: p' primed_def configured_def)
  have am: "active_model p' = Some primed"
    unfolding p'' by (rule active_model_published)
  have pr: "\<forall>net. variant built = CustomModel 1 net \<longrightarrow>
      variant primed = CustomModel 1 (net_state X net (replicate 2048 0) 2048)"
    by (simp add: primed_def configured_def applyModel_primed)
  have st: "setState_states X a key val p =
            Returns [p\<lparr>heap := (heap p)(a \<mapsto> fresh_model)\<rparr>,
                     p\<lparr>heap := (heap p)(a \<mapsto> built)\<rparr>,
                     p\<lparr>heap := (heap p)(a \<mapsto> built\<lparr>input_skip := (s \<noteq> 0)\<rparr>)\<rparr>,
                     p\<lparr>heap := (heap p)(a \<mapsto> configured)\<rparr>,
                     p\<lparr>heap := (heap p)(a \<mapsto> primed)\<rparr>,
                     p']"
    unfolding key p'' primed_def configured_def by (rule setState_states_loaded[OF l b])
  have ord: "model p \<noteq> Some a \<longrightarrow>
             (\<forall>q\<in>set [p\<lparr>heap := (heap p)(a \<mapsto> fresh_model)\<rparr>,
                        p\<lparr>heap := (heap p)(a \<mapsto> built)\<rparr>,
                        p\<lparr>heap := (heap p)(a \<mapsto> built\<lparr>input_skip := (s \<noteq> 0)\<rparr>)\<rparr>,
                        p\<lparr>heap := (heap p)(a \<mapsto> configured)\<rparr>,
                        p\<lparr>heap := (heap p)(a \<mapsto> primed)\<rparr>].
                 model q = model p \<and> active_model q = active_model p)"
    using setState_states_order by blast
  from l b configured_def primed_def p'' am pr st ord
  show "\<exists>s g j built configured primed.
          load_json X val = Ok (s, g, j) \<and> build_model X j fresh_model = Ok built
        \<and> configured = built\<lparr>input_skip := (s \<noteq> 0), output_gain := g\<rparr>
        \<and> primed = fst (applyModel X configured (\<lambda>i. 0) 0 2048)
        \<and> p' = p\<lparr>heap := (heap p)(a \<mapsto> primed), model := Some a\<rparr>
        \<and> active_model p' = Some primed
        \<and> (\<forall>net. variant built = CustomModel 1 net \<longrightarrow>
              variant primed = CustomModel 1 (net_state X net (replicate 2048 0) 2048))
        \<and> setState_states X a key val p =
            Returns [p\<lparr>heap := (heap p)(a \<mapsto> fresh_model)\<rparr>,
                     p\<lparr>heap := (heap p)(a \<mapsto> built)\<rparr>,
                     p\<lparr>heap := (heap p)(a \<mapsto> built\<lparr>input_skip := (s \<noteq> 0)\<rparr>)\<rparr>,
                     p\<lparr>heap := (heap p)(a \<mapsto> configured)\<rparr>,
                     p\<lparr>heap := (heap p)(a \<mapsto> primed)\<rparr>,
                     p']
        \<and> (model p \<noteq> Some a \<longrightarrow>
             (\<forall>q\<in>set [p\<lparr>heap := (heap p)(a \<mapsto> fresh_model)\<rparr>,
                        p\<lparr>heap := (heap p)(a \<mapsto> built)\<rparr>,
                        p\<lparr>heap := (heap p)(a \<mapsto> built\<lparr>input_skip := (s \<noteq> 0)\<rparr>)\<rparr>,
                        p\<lparr>heap := (heap p)(a \<mapsto> configured)\<rparr>,
                        p\<lparr>heap := (heap p)(a \<mapsto> primed)\<rparr>].
                 model q = model p \<and> active_model q = active_model p))"
    by blast
next
  assume h: "load_json X val = Ok (s', g', j') \<and> build_model X j' fresh_model = Ok built'
        \<and> (model p = None \<or> \<not> obs n)"
  then have "\<not> (model p \<noteq> None) \<or> \<not> obs n" by simp
  from wait_for_cycle_returns[of "model p \<noteq> None" obs n, OF this]
  obtain k where "wait_for_cycle (model p \<noteq> None) obs 0 = Some k" ..
  with h show "\<exists>k. setState X a obs ''json'' val p =
         Some (Returns (Loaded k,
           p\<lparr>heap := (heap p)(a \<mapsto> fst (applyModel X
                    (built'\<lparr>input_skip := (s' \<noteq> 0), output_gain := g'\<rparr>) (\<lambda>i. 0) 0 2048)),
             model := Some a\<rparr>))"
    by (auto simp: setState_loaded)
qed

theorem setState_primes_before_publishing_witness:
  "setState toy_cold 1 (\<lambda>i. i < 2) ''json'' ''skip.json'' toy_plugin
     = Some (Returns (Loaded 2,
         toy_plugin\<lparr>heap := (heap toy_plugin)(1 \<mapsto>
              \<lparr>variant = CustomModel 1 (2, 0), input_skip = True, output_gain = 1\<rparr>),
            model := Some 1\<rparr>))
   \<and> setState_states toy_cold 1 ''json'' ''skip.json'' toy_plugin
     = Returns
         [toy_plugin\<lparr>heap := (heap toy_plugin)(1 \<mapsto>
              \<lparr>variant = NullModel, input_skip = False, output_gain = 0\<rparr>)\<rparr>,
          toy_plugin\<lparr>heap := (heap toy_plugin)(1 \<mapsto>
              \<lparr>variant = CustomModel 1 (2, 1), input_skip = False, output_gain = 0\<rparr>)\<rparr>,
          toy_plugin\<lparr>heap := (heap toy_plugin)(1 \<mapsto>
              \<lparr>variant = CustomModel 1 (2, 1), input_skip = True, output_gain = 0\<rparr>)\<rparr>,
          toy_plugin\<lparr>heap := (heap toy_plugin)(1 \<mapsto>
              \<lparr>variant = CustomModel 1 (2, 1), input_skip = True, output_gain = 1\<rparr>)\<rparr>,
          toy_plugin\<lparr>heap := (heap toy_plugin)(1 \<mapsto>
              \<lparr>variant = CustomModel 1 (2, 0), input_skip = True, output_gain = 1\<rparr>)\<rparr>,
          toy_plugin\<lparr>heap := (heap toy_plugin)(1 \<mapsto>
              \<lparr>variant = CustomModel 1 (2, 0), input_skip = True, output_gain = 1\<rparr>),
            model := Some 1\<rparr>]
   \<and> active_model (toy_plugin\<lparr>heap := (heap toy_plugin)(1 \<mapsto>
              \<lparr>variant = CustomModel 1 (2, 1), input_skip = True, output_gain = 1\<rparr>)\<rparr>)
     = Some \<lparr>variant = CustomModel 1 (2, 0), input_skip = False, output_gain = 1\<rparr>"
proof -
  let ?j = "JObject [(''in_shape'', JArray [JNumber 1]), (''in_skip'', JNumber 1),
                          (''out_gain'', JNumber 0), (''type'', JString ''one_tap''),
                          (''weights'', JNumber 2)]"
  let ?b = "\<lparr>variant = CustomModel 1 (2, 1), input_skip = False, output_gain = 0\<rparr>
      :: (real \<times> real) DynamicModel"
  let ?c = "\<lparr>variant = CustomModel 1 (2, 1), input_skip = True, output_gain = 1\<rparr>
      :: (real \<times> real) DynamicModel"
  let ?P = "\<lparr>variant = CustomModel 1 (2, 0), input_skip = True, output_gain = 1\<rparr>
      :: (real \<times> real) DynamicModel"
  let ?obs = "\<lambda>i::nat. i < 2"
  have b: "build_model toy_cold ?j fresh_model = Ok ?b"
    by (simp add: build_one_tap_cold)
  have o: "\<not> ?obs 2" by simp
  note t = setState_primes_before_publishing[of toy_cold 1 ?obs "''json''" "''skip.json''"
      toy_plugin _ _ 1 1 ?j ?b 2]
  from t load_skip_cold b o obtain k p' where
    r: "setState toy_cold 1 ?obs ''json'' ''skip.json'' toy_plugin = Some (Returns (Loaded k, p'))"
    by blast
  have "wait_for_cycle (model toy_plugin \<noteq> None) ?obs 0 = Some k"
    using r by (rule setState_Loaded_cases)
  moreover have "wait_for_cycle (model toy_plugin \<noteq> None) ?obs 0 = Some 2"
    using wait_for_cycle_first[of ?obs 2 0 "model toy_plugin \<noteq> None"]
    by (simp add: toy_plugin_def)
  ultimately have k: "k = 2" by simp
  from setState_primes_before_publishing[of toy_cold 1 ?obs "''json''" "''skip.json''"
      toy_plugin k p', THEN conjunct1, rule_format, OF r]
  obtain s g j built configured primed where l': "load_json toy_cold ''skip.json'' = Ok (s, g, j)"
    and b': "build_model toy_cold j fresh_model = Ok built"
    and c: "configured = built\<lparr>input_skip := (s \<noteq> 0), output_gain := g\<rparr>"
    and pd: "primed = fst (applyModel toy_cold configured (\<lambda>i. 0) 0 2048)"
    and p': "p' = toy_plugin\<lparr>heap := (heap toy_plugin)(1 \<mapsto> primed), model := Some 1\<rparr>"
    and pr: "\<forall>net. variant built = CustomModel 1 net \<longrightarrow>
              variant primed = CustomModel 1 (net_state toy_cold net (replicate 2048 0) 2048)"
    and st: "setState_states toy_cold 1 ''json'' ''skip.json'' toy_plugin =
            Returns [toy_plugin\<lparr>heap := (heap toy_plugin)(1 \<mapsto> fresh_model)\<rparr>,
                     toy_plugin\<lparr>heap := (heap toy_plugin)(1 \<mapsto> built)\<rparr>,
                     toy_plugin\<lparr>heap := (heap toy_plugin)(1 \<mapsto> built\<lparr>input_skip := (s \<noteq> 0)\<rparr>)\<rparr>,
                     toy_plugin\<lparr>heap := (heap toy_plugin)(1 \<mapsto> configured)\<rparr>,
                     toy_plugin\<lparr>heap := (heap toy_plugin)(1 \<mapsto> primed)\<rparr>,
                     p']"
    and ord: "model toy_plugin \<noteq> Some 1 \<longrightarrow>
             (\<forall>q\<in>set [toy_plugin\<lparr>heap := (heap toy_plugin)(1 \<mapsto> fresh_model)\<rparr>,
                        toy_plugin\<lparr>heap := (heap toy_plugin)(1 \<mapsto> built)\<rparr>,
                        toy_plugin\<lparr>heap := (heap toy_plugin)(1 \<mapsto> built\<lparr>input_skip := (s \<noteq> 0)\<rparr>)\<rparr>,
                        toy_plugin\<lparr>heap := (heap toy_plugin)(1 \<mapsto> configured)\<rparr>,
                        toy_plugin\<lparr>heap := (heap toy_plugin)(1 \<mapsto> primed)\<rparr>].
                 model q = model toy_plugin \<and> active_model q = active_model toy_plugin)"
    by blast
  from l' load_skip_cold have sg: "s = 1" "g = 1" "j = ?j" by simp_all
  with b b' have bu: "built = ?b" by simp
  with c sg have cf: "configured = ?c" by simp
  have "net_state toy_cold (2, 1) (replicate 2048 0) (Suc 2047) = (2, 0)"
    by (rule toy_cold_net_state_zeros) simp
  then have "net_state toy_cold (2, 1) (replicate 2048 0) 2048 = (2, 0)"
    by simp
  with pr bu have v: "variant primed = CustomModel 1 (2, 0)"
    by simp
  have "input_skip primed = True" "output_gain primed = 1"
    unfolding pd cf by (simp_all add: applyModel_keeps)
  with v have m: "primed = ?P"
    by (cases primed) simp
  have "model toy_plugin \<noteq> Some 1"
    by (simp add: toy_plugin_def)
  with ord cf have "active_model (toy_plugin\<lparr>heap := (heap toy_plugin)(1 \<mapsto> ?c)\<rparr>)
      = active_model toy_plugin"
    by simp
  then have old: "active_model (toy_plugin\<lparr>heap := (heap toy_plugin)(1 \<mapsto> ?c)\<rparr>)
      = Some \<lparr>variant = CustomModel 1 (2, 0), input_skip = False, output_gain = 1\<rparr>"
    by (simp add: active_model_def toy_plugin_def)
  show ?thesis
    using r st old unfolding k p' m bu cf sg by (simp add: fresh_model_def)
qed

text \<open>
  C9. A block of \<^verbatim>\<open>run\<close> changes no cell outside the output buffer. So when the input and
  output buffers are disjoint, every input sample keeps its value, and the output buffer
  ends as the stages after the low-pass applied to the low-pass of the input block. The
  call returns whenever the \<^verbatim>\<open>model\<close> pointer is null or designates a live instance.
\<close>

theorem run_input_not_written:
  assumes "model p = None \<or> active_model p \<noteq> None"
  shows "\<exists>mem' p'. run X inp out n mem p = Some (mem', p')
     \<and> (\<forall>a. a < out \<or> out + n \<le> a \<longrightarrow> mem' a = mem a)
     \<and> (inp + n \<le> out \<or> out + n \<le> inp \<longrightarrow>
          (\<forall>i<n. mem' (inp + i) = mem (inp + i))
        \<and> stages_after_lpf X (fst (filter_block X (in_lpf (aida p)) (load_block mem inp n)))
            (p\<lparr>aida := (aida p)\<lparr>in_lpf :=
               snd (filter_block X (in_lpf (aida p)) (load_block mem inp n))\<rparr>\<rparr>)
          = Some (load_block mem' out n, p'))"
proof -
  obtain lpf' mem1 where l: "applyBiquadFilter X (in_lpf (aida p)) mem out inp n = (lpf', mem1)"
    by (cases "applyBiquadFilter X (in_lpf (aida p)) mem out inp n")
  define p1 where "p1 = p\<lparr>aida := (aida p)\<lparr>in_lpf := lpf'\<rparr>\<rparr>"
  have v1: "model p1 = None \<or> active_model p1 \<noteq> None"
    using assms active_model_cong[of p1 p] by (simp add: p1_def)
  obtain ys p' where st: "stages_after_lpf X (load_block mem1 out n) p1 = Some (ys, p')"
    using stages_after_lpf_returns[OF v1, of X "load_block mem1 out n"] by auto
  have len: "length ys = n"
    using length_stages_after_lpf[OF st] by simp
  have r: "run X inp out n mem p = Some (store_block mem1 out ys, p')"
    by (simp add: run_after_lpf l p1_def[symmetric] st)
  have frame1: "mem1 a = mem a" if "a < out \<or> out + n \<le> a" for a
    using applyBiquadFilter_frame[OF that, of X "in_lpf (aida p)" mem inp] l by simp
  have frame: "store_block mem1 out ys a = mem a" if "a < out \<or> out + n \<le> a" for a
    using that len frame1 by (simp add: store_block_outside)
  have disj: "(\<forall>i<n. store_block mem1 out ys (inp + i) = mem (inp + i))
        \<and> stages_after_lpf X (fst (filter_block X (in_lpf (aida p)) (load_block mem inp n)))
            (p\<lparr>aida := (aida p)\<lparr>in_lpf :=
               snd (filter_block X (in_lpf (aida p)) (load_block mem inp n))\<rparr>\<rparr>)
          = Some (load_block (store_block mem1 out ys) out n, p')"
    if d: "inp + n \<le> out \<or> out + n \<le> inp"
  proof
    show "\<forall>i<n. store_block mem1 out ys (inp + i) = mem (inp + i)"
      using d frame by auto
    have h: "out \<le> inp \<or> inp + n \<le> out" using d by auto
    have "(lpf', mem1) = (snd (filter_block X (in_lpf (aida p)) (load_block mem inp n)),
        store_block mem out (fst (filter_block X (in_lpf (aida p)) (load_block mem inp n))))"
      using applyBiquadFilter_block[OF h, of X "in_lpf (aida p)" mem] l
      by (simp add: case_prod_beta)
    then have lp: "lpf' = snd (filter_block X (in_lpf (aida p)) (load_block mem inp n))"
      and m1: "mem1 = store_block mem out (fst (filter_block X (in_lpf (aida p)) (load_block mem inp n)))"
      by simp_all
    have "load_block mem1 out n = fst (filter_block X (in_lpf (aida p)) (load_block mem inp n))"
      by (simp add: m1 load_store_block)
    then show "stages_after_lpf X (fst (filter_block X (in_lpf (aida p)) (load_block mem inp n)))
            (p\<lparr>aida := (aida p)\<lparr>in_lpf :=
               snd (filter_block X (in_lpf (aida p)) (load_block mem inp n))\<rparr>\<rparr>)
          = Some (load_block (store_block mem1 out ys) out n, p')"
      using st len by (simp add: p1_def lp load_store_block)
  qed
  show ?thesis
    using r frame disj by blast
qed

theorem run_input_not_written_witness:
  "active_model toy_plugin \<noteq> None
   \<and> (\<exists>mem' p'. run toy 0 10 3 ((\<lambda>a. 0)(0 := 1, 1 := 2, 2 := 3)) toy_plugin = Some (mem', p')
         \<and> mem' 0 = 1 \<and> mem' 1 = 2 \<and> mem' 2 = 3 \<and> mem' 3 = 0 \<and> mem' 13 = 0
         \<and> load_block mem' 10 3 = [12, 100, 395])"
proof -
  let ?M = "(\<lambda>a. 0::real)(0 := 1, 1 := 2, 2 := 3)"
  have v: "active_model toy_plugin \<noteq> None"
    by (simp add: active_model_def toy_plugin_def)
  then have "model toy_plugin = None \<or> active_model toy_plugin \<noteq> None" ..
  from run_input_not_written[OF this, of toy 0 10 3 ?M]
  obtain mem' p' where r: "run toy 0 10 3 ?M toy_plugin = Some (mem', p')"
    and fr: "\<forall>a. a < 10 \<or> 10 + 3 \<le> a \<longrightarrow> mem' a = ?M a"
    and st: "stages_after_lpf toy
        (fst (filter_block toy (in_lpf (aida toy_plugin)) (load_block ?M 0 3)))
        (toy_plugin\<lparr>aida := (aida toy_plugin)\<lparr>in_lpf :=
           snd (filter_block toy (in_lpf (aida toy_plugin)) (load_block ?M 0 3))\<rparr>\<rparr>)
       = Some (load_block mem' 10 3, p')"
    by auto
  have "map_option fst (stages_after_lpf toy
        (fst (filter_block toy (in_lpf (aida toy_plugin)) (load_block ?M 0 3)))
        (toy_plugin\<lparr>aida := (aida toy_plugin)\<lparr>in_lpf :=
           snd (filter_block toy (in_lpf (aida toy_plugin)) (load_block ?M 0 3))\<rparr>\<rparr>))
      = Some [12, 100, 395]"
    by (simp add: stages_after_lpf_def block_pregain_def block_equalizer_def block_network_def
      block_dc_blocker_def block_master_def tone_block_def model_block_def
      toy_simps toy_plugin_def load_block_Suc eval_nat_numeral)
  with st have out: "load_block mem' 10 3 = [12, 100, 395]"
    by simp
  have "mem' 0 = 1" "mem' 1 = 2" "mem' 2 = 3" "mem' 3 = 0" "mem' 13 = 0"
    using fr by simp_all
  with v r out show ?thesis
    by blast
qed

text \<open>
  C10. Setting \<^verbatim>\<open>MTYPE\<close> stores the value in the parameter array and sets the \<^verbatim>\<open>mid_type\<close>
  flag, and changes nothing else: the mid filter, its type and coefficients included, is
  as before. No later \<^verbatim>\<open>setParameterValue\<close> gives the mid filter anything that depends on the
  new flag. The next \<^verbatim>\<open>sampleRateChanged\<close> is what configures the mid filter with the
  band-pass or the peak type according to the flag.
\<close>

theorem setParameterValue_MTYPE:
  "setParameterValue X sr kParameterMTYPE v p =
     p\<lparr>parameters := (parameters p)(kParameterMTYPE := v),
       aida := (aida p)\<lparr>mid_type := (if v > 0.5 then kMidEqBandpass else kMidEqPeak)\<rparr>\<rparr>
   \<and> mid (aida (setParameterValue X sr kParameterMTYPE v p)) = mid (aida p)
   \<and> mid (aida (sampleRateChanged X sr' (setParameterValue X sr kParameterMTYPE v p))) =
       Biquad_setBiquad X (if v > 0.5 then bq_type_bandpass else bq_type_peak)
         (parameters p kParameterMIDFREQ / sr') (parameters p kParameterMIDQ)
         (parameters p kParameterMIDGAIN) (mid (aida p))
   \<and> mid (aida (setParameterValue X sr i w (setParameterValue X sr kParameterMTYPE v p))) =
       mid (aida (setParameterValue X sr i w p))"
proof (intro conjI)
  show 1: "setParameterValue X sr kParameterMTYPE v p =
     p\<lparr>parameters := (parameters p)(kParameterMTYPE := v),
       aida := (aida p)\<lparr>mid_type := (if v > 0.5 then kMidEqBandpass else kMidEqPeak)\<rparr>\<rparr>"
    by (simp add: setParameterValue_def Let_def)
  show "mid (aida (setParameterValue X sr kParameterMTYPE v p)) = mid (aida p)"
    by (simp add: 1)
  show "mid (aida (sampleRateChanged X sr' (setParameterValue X sr kParameterMTYPE v p))) =
       Biquad_setBiquad X (if v > 0.5 then bq_type_bandpass else bq_type_peak)
         (parameters p kParameterMIDFREQ / sr') (parameters p kParameterMIDQ)
         (parameters p kParameterMIDGAIN) (mid (aida p))"
    by (simp add: 1 sampleRateChanged_def setSampleRate_def)
  show "mid (aida (setParameterValue X sr i w (setParameterValue X sr kParameterMTYPE v p))) =
       mid (aida (setParameterValue X sr i w p))"
    unfolding 1 by (cases i) (simp_all add: setParameterValue_def Let_def)
qed

theorem setParameterValue_MTYPE_witness:
  "mid_type (aida (setParameterValue toy 48000 kParameterMTYPE 1 toy_plugin)) = kMidEqBandpass
   \<and> mid (aida (setParameterValue toy 48000 kParameterMTYPE 1 toy_plugin))
       = toy_filter bq_type_peak 3
   \<and> tb_type (mid (aida (setParameterValue toy 48000 kParameterMIDGAIN 4
         (setParameterValue toy 48000 kParameterMTYPE 1 toy_plugin)))) = bq_type_peak
   \<and> tb_type (mid (aida (sampleRateChanged toy 48000
         (setParameterValue toy 48000 kParameterMTYPE 1 toy_plugin)))) = bq_type_bandpass"
proof -
  note t = setParameterValue_MTYPE[of toy 48000 1 toy_plugin 48000 kParameterMIDGAIN 4]
  note t1 = t[THEN conjunct1]
  note t2 = t[THEN conjunct2, THEN conjunct1]
  note t3 = t[THEN conjunct2, THEN conjunct2, THEN conjunct1]
  note t4 = t[THEN conjunct2, THEN conjunct2, THEN conjunct2]
  have a: "mid_type (aida (setParameterValue toy 48000 kParameterMTYPE 1 toy_plugin))
      = kMidEqBandpass"
    unfolding t1 by simp
  have b: "mid (aida (setParameterValue toy 48000 kParameterMTYPE 1 toy_plugin))
      = toy_filter bq_type_peak 3"
    unfolding t2 by (simp add: toy_plugin_def toy_aida_def)
  have "tb_type (mid (aida (setParameterValue toy 48000 kParameterMIDGAIN 4 toy_plugin)))
      = bq_type_peak"
    by (simp add: setParameterValue_def Let_def toy_fields toy_plugin_def toy_aida_def
        toy_filter_def)
  then have c: "tb_type (mid (aida (setParameterValue toy 48000 kParameterMIDGAIN 4
         (setParameterValue toy 48000 kParameterMTYPE 1 toy_plugin)))) = bq_type_peak"
    unfolding t4 .
  have d: "tb_type (mid (aida (sampleRateChanged toy 48000
         (setParameterValue toy 48000 kParameterMTYPE 1 toy_plugin)))) = bq_type_bandpass"
    unfolding t3 by (simp add: toy_fields)
  from a b c d show ?thesis
    by blast
qed

end
